theory Spec2Isabelle
  imports Main "HOL-Library.Word" "HOL-Library.Char_ord" "HOL-Library.List_Lexorder"
begin

section \<open>The feature factory (controllers/datadogagent/feature/factory.go)\<close>

subsection \<open>Required components\<close>

text \<open>
  The types \<open>RequiredComponent\<close> and \<open>RequiredComponents\<close>, with their methods
  \<open>IsEnabled\<close>, \<open>IsPrivileged\<close>, \<open>IsConfigured\<close> and \<open>Merge\<close>, are used by
  factory.go but declared in a file of the package that is not part of the sources at
  hand. They are modelled from the specification (sections 3 and 4.4): a requirement is a
  tri-state \<open>enabled\<close> (a Go \<open>*bool\<close>: \<open>None\<close> is "unspecified") and a
  \<open>privileged\<close> flag, per component kind.
\<close>

record RequiredComponent =
  enabled :: "bool option"
  privileged :: bool

record RequiredComponents =
  Agent :: RequiredComponent
  ClusterAgent :: RequiredComponent
  ClusterChecksRunner :: RequiredComponent

text \<open>The zero value of the Go struct (\<open>var requiredComponents RequiredComponents\<close>).\<close>

definition zeroRequiredComponent :: RequiredComponent where
  "zeroRequiredComponent = \<lparr>enabled = None, privileged = False\<rparr>"

definition zeroRequiredComponents :: RequiredComponents where
  "zeroRequiredComponents =
     \<lparr>Agent = zeroRequiredComponent, ClusterAgent = zeroRequiredComponent,
      ClusterChecksRunner = zeroRequiredComponent\<rparr>"

text \<open>Modelled from the spec: \<open>IsEnabled\<close> of one component, true when the tri-state is
  true.\<close>

definition IsEnabled :: "RequiredComponent \<Rightarrow> bool" where
  "IsEnabled rc = (enabled rc = Some True)"

text \<open>Modelled from the spec: \<open>IsPrivileged\<close> of one component reads the privileged
  flag.\<close>

definition IsPrivileged :: "RequiredComponent \<Rightarrow> bool" where
  "IsPrivileged rc = privileged rc"

text \<open>Modelled from the spec: a component is "configured" when its tri-state is not
  "unspecified" (section 4.3, step 6).\<close>

definition componentIsConfigured :: "RequiredComponent \<Rightarrow> bool" where
  "componentIsConfigured rc = (enabled rc \<noteq> None)"

definition IsConfigured :: "RequiredComponents \<Rightarrow> bool" where
  "IsConfigured rcs =
     (componentIsConfigured (ClusterAgent rcs) \<or> componentIsConfigured (Agent rcs)
      \<or> componentIsConfigured (ClusterChecksRunner rcs))"

text \<open>Modelled from the spec: the merge of two tri-states (section 4.4): true if either side
  is true; false only if at least one side is explicitly false and neither side is true;
  unspecified only if both sides are unspecified.\<close>

definition mergeEnabled :: "bool option \<Rightarrow> bool option \<Rightarrow> bool option" where
  "mergeEnabled a b =
     (if a = Some True \<or> b = Some True then Some True
      else if a = Some False \<or> b = Some False then Some False
      else None)"

text \<open>Modelled from the spec: the merge of one component's requirement (section 4.4);
  privileged is true if either side is true.\<close>

definition componentMerge :: "RequiredComponent \<Rightarrow> RequiredComponent \<Rightarrow> RequiredComponent" where
  "componentMerge rc inc =
     \<lparr>enabled = mergeEnabled (enabled rc) (enabled inc),
      privileged = (privileged rc \<or> privileged inc)\<rparr>"

text \<open>Modelled from the spec: \<open>RequiredComponents.Merge\<close>, component kind by component
  kind. The Go method updates its receiver; the model returns the updated accumulator.\<close>

definition Merge :: "RequiredComponents \<Rightarrow> RequiredComponents \<Rightarrow> RequiredComponents" where
  "Merge rcs inc =
     \<lparr>Agent = componentMerge (Agent rcs) (Agent inc),
      ClusterAgent = componentMerge (ClusterAgent rcs) (ClusterAgent inc),
      ClusterChecksRunner = componentMerge (ClusterChecksRunner rcs) (ClusterChecksRunner inc)\<rparr>"

text \<open>The component kinds of the specification (section 3), and the requirement a
  \<open>RequiredComponents\<close> holds for each kind.\<close>

datatype ComponentKind = NodeAgent | ClusterAgentKind | ClusterChecksRunnerKind

fun componentOf :: "ComponentKind \<Rightarrow> RequiredComponents \<Rightarrow> RequiredComponent" where
  "componentOf NodeAgent rcs = Agent rcs"
| "componentOf ClusterAgentKind rcs = ClusterAgent rcs"
| "componentOf ClusterChecksRunnerKind rcs = ClusterChecksRunner rcs"

subsection \<open>The registry\<close>

text \<open>
  \<open>featureBuilders\<close> is a process-wide Go map from \<open>IDType\<close> to \<open>BuildFunc\<close>; the model
  passes it explicitly. \<open>IDType\<close> is declared outside the sources at hand; the code
  only needs it to be ordered (\<open>sortedKeys[i] < sortedKeys[j]\<close>), so it is a type
  parameter of class \<open>linorder\<close>. The mutex is not modelled: every operation is
  atomic in the model, as it is under the lock.
\<close>

datatype 'id factory_error =
  FeatureRegisteredAlready 'id
  | NilBuildFunc 'id

text \<open>\<open>Register\<close> returns the error (\<open>None\<close> is Go's \<open>nil\<close>) and the registry after the
  call.\<close>

definition Register ::
  "('id \<rightharpoonup> 'b) \<Rightarrow> 'id \<Rightarrow> 'b \<Rightarrow> 'id factory_error option \<times> ('id \<rightharpoonup> 'b)" where
  "Register featureBuilders ident buildFunc =
     (case featureBuilders ident of
        Some _ \<Rightarrow> (Some (FeatureRegisteredAlready ident), featureBuilders)
      | None \<Rightarrow> (None, featureBuilders(ident \<mapsto> buildFunc)))"

subsection \<open>The iteration order\<close>

text \<open>
  \<open>getSortedFeatureIDs\<close>. The six constants of \<open>privilegedFeatures\<close> are declared
  outside the sources at hand, so the list is a parameter, in the order of the
  declaration: EBPFCheckIDType, CWSIDType, CSPMIDType, OOMKillIDType,
  TCPQueueLengthIDType, USMIDType. \<open>keys\<close> is the order in which Go's \<open>range\<close>
  enumerates the map: any list without repetition of the registered identifiers.
  \<open>sort.Slice\<close> with \<open><\<close> on distinct keys is \<open>sort\<close>.
\<close>

definition getSortedFeatureIDs :: "('id::linorder) list \<Rightarrow> 'id list \<Rightarrow> bool \<Rightarrow> 'id list" where
  "getSortedFeatureIDs privilegedFeatures keys useMultiProcessContainer =
     (if useMultiProcessContainer
      then sort (filter (\<lambda>key. key \<notin> set privilegedFeatures) keys) @ privilegedFeatures
      else sort keys)"

text \<open>An enumeration of the registry by \<open>range\<close>.\<close>

definition enumerates :: "'id list \<Rightarrow> ('id \<rightharpoonup> 'b) \<Rightarrow> bool" where
  "enumerates keys featureBuilders = (distinct keys \<and> set keys = dom featureBuilders)"

subsection \<open>BuildFeatures\<close>

text \<open>
  A feature is what a registered \<open>BuildFunc\<close> returns for the options; its
  \<open>Configure\<close> method is a parameter of the model (the features themselves are outside
  the sources at hand). The loop state is the triple of the Go locals that change:
  \<open>useMultiProcessContainer\<close>, \<open>output\<close> (here \<open>outputFeatures\<close>) and \<open>requiredComponents\<close>, together with
  the log of the calls made to \<open>Configure\<close> (identifier and flag passed), which the
  Go code does not keep but which is what "the flag seen by the subsequent iterations"
  speaks about.
\<close>

record ('id, 'feat) build_state =
  useMultiProcessContainer :: bool
  outputFeatures :: "'feat list"
  requiredComponents :: RequiredComponents
  configureCalls :: "('id \<times> bool) list"

definition shouldDisableMultiProcessContainer :: "RequiredComponents \<Rightarrow> bool" where
  "shouldDisableMultiProcessContainer reqComponents =
     (IsEnabled (Agent reqComponents) \<and> IsPrivileged (Agent reqComponents))"

text \<open>One pass of the body of the \<open>for\<close> loop. Calling the nil function that the map
  returns for an identifier that is not registered panics.\<close>

definition buildStep ::
  "('id \<rightharpoonup> ('opt \<Rightarrow> 'feat)) \<Rightarrow> ('feat \<Rightarrow> 'dda \<Rightarrow> bool \<Rightarrow> RequiredComponents) \<Rightarrow> 'dda \<Rightarrow> 'opt
   \<Rightarrow> ('id, 'feat) build_state \<Rightarrow> 'id \<Rightarrow> 'id factory_error + ('id, 'feat) build_state" where
  "buildStep featureBuilders Configure dda options st ident =
     (case featureBuilders ident of
        None \<Rightarrow> Inl (NilBuildFunc ident)
      | Some buildFunc \<Rightarrow>
          (let feat = buildFunc options;
               reqComponents = Configure feat dda (useMultiProcessContainer st);
               flag = (if useMultiProcessContainer st
                          \<and> shouldDisableMultiProcessContainer reqComponents
                       then False else useMultiProcessContainer st);
               out = (if IsConfigured reqComponents then outputFeatures st @ [feat] else outputFeatures st)
           in Inr \<lparr>useMultiProcessContainer = flag,
                   outputFeatures = out,
                   requiredComponents = Merge (requiredComponents st) reqComponents,
                   configureCalls =
                     configureCalls st @ [(ident, useMultiProcessContainer st)]\<rparr>))"

fun buildLoop ::
  "('id \<rightharpoonup> ('opt \<Rightarrow> 'feat)) \<Rightarrow> ('feat \<Rightarrow> 'dda \<Rightarrow> bool \<Rightarrow> RequiredComponents) \<Rightarrow> 'dda \<Rightarrow> 'opt
   \<Rightarrow> ('id, 'feat) build_state \<Rightarrow> 'id list \<Rightarrow> 'id factory_error + ('id, 'feat) build_state" where
  "buildLoop featureBuilders Configure dda options st [] = Inr st"
| "buildLoop featureBuilders Configure dda options st (ident # ids) =
     (case buildStep featureBuilders Configure dda options st ident of
        Inl e \<Rightarrow> Inl e
      | Inr st' \<Rightarrow> buildLoop featureBuilders Configure dda options st' ids)"

text \<open>
  \<open>BuildFeatures\<close>. \<open>multiProcessRequested\<close> is the value of the test on
  \<open>dda.Spec.Global.ContainerProcessModel.UseMultiProcessContainer\<close> (the v2alpha1
  types are outside the sources at hand). The result is the final loop state; the Go
  function returns its \<open>output\<close> and \<open>requiredComponents\<close>.
\<close>

definition BuildFeatures ::
  "('id::linorder) list \<Rightarrow> ('id \<rightharpoonup> ('opt \<Rightarrow> 'feat)) \<Rightarrow> 'id list
   \<Rightarrow> ('feat \<Rightarrow> 'dda \<Rightarrow> bool \<Rightarrow> RequiredComponents) \<Rightarrow> bool \<Rightarrow> 'dda \<Rightarrow> 'opt
   \<Rightarrow> 'id factory_error + ('id, 'feat) build_state" where
  "BuildFeatures privilegedFeatures featureBuilders keys Configure multiProcessRequested dda options =
     buildLoop featureBuilders Configure dda options
       \<lparr>useMultiProcessContainer = multiProcessRequested, outputFeatures = [],
        requiredComponents = zeroRequiredComponents, configureCalls = []\<rparr>
       (getSortedFeatureIDs privilegedFeatures keys multiProcessRequested)"

subsection \<open>Loop invariant of BuildFeatures\<close>

text \<open>The flags logged by the loop: once a call has seen the flag off, no later call sees it
  on.\<close>

definition flagsAntitone :: "('id \<times> bool) list \<Rightarrow> bool" where
  "flagsAntitone calls =
     (\<forall>i j. i < j \<and> j < length calls \<and> snd (calls ! j) \<longrightarrow> snd (calls ! i))"

text \<open>A logged call that saw the flag on and whose own requirement asks for the node agent
  enabled and privileged is followed only by calls that see the flag off.\<close>

definition clearedAfter ::
  "('id \<rightharpoonup> ('opt \<Rightarrow> 'feat)) \<Rightarrow> ('feat \<Rightarrow> 'dda \<Rightarrow> bool \<Rightarrow> RequiredComponents) \<Rightarrow> 'dda \<Rightarrow> 'opt
   \<Rightarrow> ('id \<times> bool) list \<Rightarrow> bool" where
  "clearedAfter featureBuilders Configure dda options calls =
     (\<forall>i j buildFunc. i < j \<and> j < length calls \<and> snd (calls ! i)
         \<and> featureBuilders (fst (calls ! i)) = Some buildFunc
         \<and> shouldDisableMultiProcessContainer (Configure (buildFunc options) dda True)
       \<longrightarrow> \<not> snd (calls ! j))"

definition buildInv ::
  "('id \<rightharpoonup> ('opt \<Rightarrow> 'feat)) \<Rightarrow> ('feat \<Rightarrow> 'dda \<Rightarrow> bool \<Rightarrow> RequiredComponents) \<Rightarrow> 'dda \<Rightarrow> 'opt
   \<Rightarrow> ('id, 'feat) build_state \<Rightarrow> bool" where
  "buildInv featureBuilders Configure dda options st =
     ((\<forall>c \<in> set (configureCalls st). useMultiProcessContainer st \<longrightarrow> snd c)
      \<and> flagsAntitone (configureCalls st)
      \<and> clearedAfter featureBuilders Configure dda options (configureCalls st)
      \<and> (\<forall>c \<in> set (configureCalls st). \<forall>buildFunc. snd c
            \<and> featureBuilders (fst c) = Some buildFunc
            \<and> shouldDisableMultiProcessContainer (Configure (buildFunc options) dda True)
          \<longrightarrow> \<not> useMultiProcessContainer st))"

subsection \<open>A concrete registry\<close>

text \<open>
  A registry used to run the model: identifiers are strings (Go compares strings byte by
  byte, which is the lexicographic order on \<open>char list\<close>), a feature is named by its
  identifier, and the six privileged identifiers are registered next to three others.
\<close>

definition examplePrivilegedFeatures :: "string list" where
  "examplePrivilegedFeatures =
     [''ebpf_check'', ''cws'', ''cspm'', ''oom_kill'', ''tcp_queue_length'', ''usm'']"

definition exampleKeys :: "string list" where
  "exampleKeys = [''usm'', ''npm'', ''cws'', ''apm'', ''ebpf_check'', ''dogstatsd'', ''cspm'',
     ''tcp_queue_length'', ''oom_kill'']"

definition exampleBuilders :: "string \<rightharpoonup> (unit \<Rightarrow> string)" where
  "exampleBuilders = map_of (map (\<lambda>key. (key, \<lambda>_. key)) exampleKeys)"

definition agentOnly :: "bool option \<Rightarrow> bool \<Rightarrow> RequiredComponents" where
  "agentOnly e p = \<lparr>Agent = \<lparr>enabled = e, privileged = p\<rparr>,
     ClusterAgent = zeroRequiredComponent, ClusterChecksRunner = zeroRequiredComponent\<rparr>"

text \<open>One feature asks for the node agent, another one marks it privileged without asking
  for it, the others ask for nothing.\<close>

definition splitConfigure :: "string \<Rightarrow> unit \<Rightarrow> bool \<Rightarrow> RequiredComponents" where
  "splitConfigure feat dda multi =
     (if feat = ''apm'' then agentOnly (Some True) False
      else if feat = ''dogstatsd'' then agentOnly None True
      else zeroRequiredComponents)"

text \<open>One feature asks for the node agent enabled and privileged.\<close>

definition clearingConfigure :: "string \<Rightarrow> unit \<Rightarrow> bool \<Rightarrow> RequiredComponents" where
  "clearingConfigure feat dda multi =
     (if feat = ''dogstatsd'' then agentOnly (Some True) True
      else zeroRequiredComponents)"

section \<open>The defaulting pass (apis/datadoghq/v1alpha1, the defaulting functions)\<close>

subsection \<open>Data model\<close>

text \<open>
  The Go struct types of the desired-state tree are declared outside the sources at hand;
  the records below hold the fields that the defaulting functions read or write, with the
  types their use implies: a Go pointer is an \<open>option\<close> (\<open>None\<close> is \<open>nil\<close>), a struct
  that the code enters without a nil test (\<open>ContainerConfig\<close>, \<open>RollingUpdate\<close>,
  \<open>Compliance\<close>, \<open>Runtime\<close>, \<open>Features\<close> of the cluster agent) is held by value, a
  string with the empty string as "absent" is a \<open>string\<close>, an \<open>int32\<close> is a
  \<open>32 word\<close>, a duration (nanoseconds, \<open>int64\<close>) a \<open>64 word\<close>. A field name is the
  Go name after a prefix for its struct, since record fields share one name space.
\<close>

datatype IntOrString = IntVal "32 word" | StrVal string

record HTTPGetAction =
  http_Path :: string
  http_Port :: IntOrString

record TCPSocketAction =
  tcp_Port :: IntOrString

record Probe =
  probe_InitialDelaySeconds :: "32 word"
  probe_PeriodSeconds :: "32 word"
  probe_TimeoutSeconds :: "32 word"
  probe_SuccessThreshold :: "32 word"
  probe_FailureThreshold :: "32 word"
  probe_HTTPGet :: "HTTPGetAction option"
  probe_TCPSocket :: "TCPSocketAction option"

record ResourceRequirements =
  res_Limits :: "(string \<times> string) list"
  res_Requests :: "(string \<times> string) list"

record ImageConfig =
  img_Name :: string
  img_Tag :: string
  img_PullPolicy :: "string option"
  img_PullSecrets :: "string list option"

record DatadogAgentGenericContainerConfig =
  cc_LogLevel :: "string option"
  cc_LivenessProbe :: "Probe option"
  cc_ReadinessProbe :: "Probe option"
  cc_HealthPort :: "32 word option"
  cc_Resources :: "ResourceRequirements option"

record CRISocketConfig =
  cri_DockerSocketPath :: "string option"

record DSDUnixDomainSocketSpec =
  dsduds_Enabled :: "bool option"
  dsduds_HostFilepath :: "string option"

record DogstatsdConfig =
  dsd_DogstatsdOriginDetection :: "bool option"
  dsd_UnixDomainSocket :: "DSDUnixDomainSocketSpec option"

record NodeAgentSpec =
  na_ContainerConfig :: DatadogAgentGenericContainerConfig
  na_CollectEvents :: "bool option"
  na_LeaderElection :: "bool option"
  na_CriSocket :: "CRISocketConfig option"
  na_Dogstatsd :: "DogstatsdConfig option"
  na_PodLabelsAsTags :: "(string \<times> string) list option"
  na_PodAnnotationsAsTags :: "(string \<times> string) list option"
  na_Tags :: "string list option"

record RbacConfig =
  rbac_Create :: "bool option"

record NetworkPolicySpec =
  np_Create :: "bool option"

text \<open>The canary strategy belongs to the extended-daemonset project; its content is
  opaque here.\<close>

datatype ExtendedDaemonSetSpecStrategyCanary = CanaryStrategy "string list"

record DaemonSetRollingUpdateSpec =
  ru_MaxUnavailable :: "IntOrString option"
  ru_MaxPodSchedulerFailure :: "IntOrString option"
  ru_MaxParallelPodCreation :: "32 word option"
  ru_SlowStartIntervalDuration :: "64 word option"
  ru_SlowStartAdditiveIncrease :: "IntOrString option"

record DaemonSetDeploymentStrategy =
  ds_UpdateStrategyType :: "string option"
  ds_RollingUpdate :: DaemonSetRollingUpdateSpec
  ds_Canary :: "ExtendedDaemonSetSpecStrategyCanary option"
  ds_ReconcileFrequency :: "64 word option"

record APMUnixDomainSocketSpec =
  apmuds_Enabled :: "bool option"
  apmuds_HostFilepath :: "string option"

record APMSpec =
  apm_Enabled :: "bool option"
  apm_HostPort :: "32 word option"
  apm_ContainerConfig :: DatadogAgentGenericContainerConfig
  apm_UnixDomainSocket :: "APMUnixDomainSocketSpec option"

record SystemProbeSpec =
  sp_Enabled :: "bool option"
  sp_EnableOOMKill :: "bool option"
  sp_EnableTCPQueueLength :: "bool option"
  sp_BPFDebugEnabled :: "bool option"
  sp_CollectDNSStats :: "bool option"
  sp_ConntrackEnabled :: "bool option"
  sp_SecCompRootPath :: string
  sp_AppArmorProfileName :: string
  sp_SecCompProfileName :: string

record SyscallMonitorSpec =
  sm_Enabled :: "bool option"

record ComplianceSpec =
  compl_Enabled :: "bool option"

record RuntimeSecuritySpec =
  rt_Enabled :: "bool option"
  rt_SyscallMonitor :: "SyscallMonitorSpec option"

record SecuritySpec =
  sec_Compliance :: ComplianceSpec
  sec_Runtime :: RuntimeSecuritySpec

record ProcessSpec =
  proc_Enabled :: "bool option"
  proc_ProcessCollectionEnabled :: "bool option"

text \<open>
  The three component specs are compared with their zero value by \<open>IsEqualStruct\<close>. The
  fields of the Go struct that no defaulting function mentions (environment, volumes,
  tolerations and so on) are gathered in one field \<open>OtherFields\<close>, empty when all of
  them are absent, so that "some other field is set" remains an input of the model.
\<close>

record DatadogAgentSpecAgentSpec =
  ag_Enabled :: "bool option"
  ag_UseExtendedDaemonset :: "bool option"
  ag_Image :: "ImageConfig option"
  ag_NodeAgent :: "NodeAgentSpec option"
  ag_Rbac :: "RbacConfig option"
  ag_DeploymentStrategy :: "DaemonSetDeploymentStrategy option"
  ag_Apm :: "APMSpec option"
  ag_SystemProbe :: "SystemProbeSpec option"
  ag_Security :: "SecuritySpec option"
  ag_Process :: "ProcessSpec option"
  ag_NetworkPolicy :: "NetworkPolicySpec option"
  ag_OtherFields :: "string list"

record ExternalMetricsConfig =
  em_Enabled :: "bool option"
  em_Port :: "32 word option"

record AdmissionControllerConfig =
  ac_Enabled :: "bool option"
  ac_MutateUnlabelled :: "bool option"
  ac_ServiceName :: "string option"

record FeaturesConfigClusterAgent =
  fca_ExternalMetrics :: "ExternalMetricsConfig option"
  fca_ClusterChecksEnabled :: "bool option"
  fca_CollectEvents :: "bool option"
  fca_AdmissionController :: "AdmissionControllerConfig option"

record ClusterAgentConfig =
  cac_ContainerConfig :: DatadogAgentGenericContainerConfig
  cac_Features :: FeaturesConfigClusterAgent

record DatadogAgentSpecClusterAgentSpec =
  ca_Enabled :: "bool option"
  ca_Image :: "ImageConfig option"
  ca_Config :: "ClusterAgentConfig option"
  ca_CustomConfig :: "string option"
  ca_Rbac :: "RbacConfig option"
  ca_NetworkPolicy :: "NetworkPolicySpec option"
  ca_OtherFields :: "string list"

record DatadogAgentSpecClusterChecksRunnerSpec =
  clc_Enabled :: "bool option"
  clc_Image :: "ImageConfig option"
  clc_ContainerConfig :: "DatadogAgentGenericContainerConfig option"
  clc_Rbac :: "RbacConfig option"
  clc_NetworkPolicy :: "NetworkPolicySpec option"
  clc_OtherFields :: "string list"

record Scrubbing =
  scr_Containers :: "bool option"

record OrchestratorExplorerConfig =
  oe_Enabled :: "bool option"
  oe_ClusterCheck :: "bool option"
  oe_Scrubbing :: "Scrubbing option"

record KubeStateMetricsCore =
  ksm_Enabled :: "bool option"
  ksm_ClusterCheck :: "bool option"

record PrometheusScrapeConfig =
  prom_Enabled :: "bool option"
  prom_ServiceEndpoints :: "bool option"

record LogCollectionConfig =
  log_Enabled :: "bool option"
  log_LogsConfigContainerCollectAll :: "bool option"
  log_ContainerCollectUsingFiles :: "bool option"
  log_ContainerLogsPath :: "string option"
  log_PodLogsPath :: "string option"
  log_ContainerSymlinksPath :: "string option"
  log_TempStoragePath :: "string option"
  log_OpenFilesLimit :: "32 word option"

record NetworkMonitoringConfig =
  nm_Enabled :: "bool option"

record DatadogFeatures =
  ft_OrchestratorExplorer :: "OrchestratorExplorerConfig option"
  ft_KubeStateMetricsCore :: "KubeStateMetricsCore option"
  ft_PrometheusScrape :: "PrometheusScrapeConfig option"
  ft_LogCollection :: "LogCollectionConfig option"
  ft_NetworkMonitoring :: "NetworkMonitoringConfig option"

record AgentCredentials =
  cred_UseSecretBackend :: "bool option"
  cred_OtherFields :: "string list"

record DatadogAgentSpec =
  spec_Credentials :: "AgentCredentials option"
  spec_Features :: DatadogFeatures
  spec_Agent :: DatadogAgentSpecAgentSpec
  spec_ClusterAgent :: DatadogAgentSpecClusterAgentSpec
  spec_ClusterChecksRunner :: DatadogAgentSpecClusterChecksRunnerSpec

subsection \<open>Zero values\<close>

definition zeroDatadogAgentGenericContainerConfig :: DatadogAgentGenericContainerConfig where
  "zeroDatadogAgentGenericContainerConfig =
     \<lparr>cc_LogLevel = None, cc_LivenessProbe = None, cc_ReadinessProbe = None,
      cc_HealthPort = None, cc_Resources = None\<rparr>"

definition zeroResourceRequirements :: ResourceRequirements where
  "zeroResourceRequirements = \<lparr>res_Limits = [], res_Requests = []\<rparr>"

definition zeroImageConfig :: ImageConfig where
  "zeroImageConfig = \<lparr>img_Name = [], img_Tag = [], img_PullPolicy = None, img_PullSecrets = None\<rparr>"

definition zeroCRISocketConfig :: CRISocketConfig where
  "zeroCRISocketConfig = \<lparr>cri_DockerSocketPath = None\<rparr>"

definition zeroDSDUnixDomainSocketSpec :: DSDUnixDomainSocketSpec where
  "zeroDSDUnixDomainSocketSpec = \<lparr>dsduds_Enabled = None, dsduds_HostFilepath = None\<rparr>"

definition zeroDogstatsdConfig :: DogstatsdConfig where
  "zeroDogstatsdConfig = \<lparr>dsd_DogstatsdOriginDetection = None, dsd_UnixDomainSocket = None\<rparr>"

definition zeroNodeAgentSpec :: NodeAgentSpec where
  "zeroNodeAgentSpec =
     \<lparr>na_ContainerConfig = zeroDatadogAgentGenericContainerConfig, na_CollectEvents = None,
      na_LeaderElection = None, na_CriSocket = None, na_Dogstatsd = None,
      na_PodLabelsAsTags = None, na_PodAnnotationsAsTags = None, na_Tags = None\<rparr>"

definition zeroRbacConfig :: RbacConfig where
  "zeroRbacConfig = \<lparr>rbac_Create = None\<rparr>"

definition zeroNetworkPolicySpec :: NetworkPolicySpec where
  "zeroNetworkPolicySpec = \<lparr>np_Create = None\<rparr>"

definition zeroDaemonSetRollingUpdateSpec :: DaemonSetRollingUpdateSpec where
  "zeroDaemonSetRollingUpdateSpec =
     \<lparr>ru_MaxUnavailable = None, ru_MaxPodSchedulerFailure = None,
      ru_MaxParallelPodCreation = None, ru_SlowStartIntervalDuration = None,
      ru_SlowStartAdditiveIncrease = None\<rparr>"

definition zeroDaemonSetDeploymentStrategy :: DaemonSetDeploymentStrategy where
  "zeroDaemonSetDeploymentStrategy =
     \<lparr>ds_UpdateStrategyType = None, ds_RollingUpdate = zeroDaemonSetRollingUpdateSpec,
      ds_Canary = None, ds_ReconcileFrequency = None\<rparr>"

definition zeroAPMUnixDomainSocketSpec :: APMUnixDomainSocketSpec where
  "zeroAPMUnixDomainSocketSpec = \<lparr>apmuds_Enabled = None, apmuds_HostFilepath = None\<rparr>"

definition zeroAPMSpec :: APMSpec where
  "zeroAPMSpec =
     \<lparr>apm_Enabled = None, apm_HostPort = None,
      apm_ContainerConfig = zeroDatadogAgentGenericContainerConfig,
      apm_UnixDomainSocket = None\<rparr>"

definition zeroSystemProbeSpec :: SystemProbeSpec where
  "zeroSystemProbeSpec =
     \<lparr>sp_Enabled = None, sp_EnableOOMKill = None, sp_EnableTCPQueueLength = None,
      sp_BPFDebugEnabled = None, sp_CollectDNSStats = None, sp_ConntrackEnabled = None,
      sp_SecCompRootPath = [], sp_AppArmorProfileName = [], sp_SecCompProfileName = []\<rparr>"

definition zeroSyscallMonitorSpec :: SyscallMonitorSpec where
  "zeroSyscallMonitorSpec = \<lparr>sm_Enabled = None\<rparr>"

definition zeroSecuritySpec :: SecuritySpec where
  "zeroSecuritySpec =
     \<lparr>sec_Compliance = \<lparr>compl_Enabled = None\<rparr>,
      sec_Runtime = \<lparr>rt_Enabled = None, rt_SyscallMonitor = None\<rparr>\<rparr>"

definition zeroProcessSpec :: ProcessSpec where
  "zeroProcessSpec = \<lparr>proc_Enabled = None, proc_ProcessCollectionEnabled = None\<rparr>"

definition zeroDatadogAgentSpecAgentSpec :: DatadogAgentSpecAgentSpec where
  "zeroDatadogAgentSpecAgentSpec =
     \<lparr>ag_Enabled = None, ag_UseExtendedDaemonset = None, ag_Image = None, ag_NodeAgent = None,
      ag_Rbac = None, ag_DeploymentStrategy = None, ag_Apm = None, ag_SystemProbe = None,
      ag_Security = None, ag_Process = None, ag_NetworkPolicy = None, ag_OtherFields = []\<rparr>"

definition zeroExternalMetricsConfig :: ExternalMetricsConfig where
  "zeroExternalMetricsConfig = \<lparr>em_Enabled = None, em_Port = None\<rparr>"

definition zeroAdmissionControllerConfig :: AdmissionControllerConfig where
  "zeroAdmissionControllerConfig =
     \<lparr>ac_Enabled = None, ac_MutateUnlabelled = None, ac_ServiceName = None\<rparr>"

definition zeroFeaturesConfigClusterAgent :: FeaturesConfigClusterAgent where
  "zeroFeaturesConfigClusterAgent =
     \<lparr>fca_ExternalMetrics = None, fca_ClusterChecksEnabled = None, fca_CollectEvents = None,
      fca_AdmissionController = None\<rparr>"

definition zeroClusterAgentConfig :: ClusterAgentConfig where
  "zeroClusterAgentConfig =
     \<lparr>cac_ContainerConfig = zeroDatadogAgentGenericContainerConfig,
      cac_Features = zeroFeaturesConfigClusterAgent\<rparr>"

definition zeroDatadogAgentSpecClusterAgentSpec :: DatadogAgentSpecClusterAgentSpec where
  "zeroDatadogAgentSpecClusterAgentSpec =
     \<lparr>ca_Enabled = None, ca_Image = None, ca_Config = None, ca_CustomConfig = None,
      ca_Rbac = None, ca_NetworkPolicy = None, ca_OtherFields = []\<rparr>"

definition zeroDatadogAgentSpecClusterChecksRunnerSpec :: DatadogAgentSpecClusterChecksRunnerSpec where
  "zeroDatadogAgentSpecClusterChecksRunnerSpec =
     \<lparr>clc_Enabled = None, clc_Image = None, clc_ContainerConfig = None, clc_Rbac = None,
      clc_NetworkPolicy = None, clc_OtherFields = []\<rparr>"

definition zeroScrubbing :: Scrubbing where
  "zeroScrubbing = \<lparr>scr_Containers = None\<rparr>"

definition zeroOrchestratorExplorerConfig :: OrchestratorExplorerConfig where
  "zeroOrchestratorExplorerConfig =
     \<lparr>oe_Enabled = None, oe_ClusterCheck = None, oe_Scrubbing = None\<rparr>"

definition zeroKubeStateMetricsCore :: KubeStateMetricsCore where
  "zeroKubeStateMetricsCore = \<lparr>ksm_Enabled = None, ksm_ClusterCheck = None\<rparr>"

definition zeroPrometheusScrapeConfig :: PrometheusScrapeConfig where
  "zeroPrometheusScrapeConfig = \<lparr>prom_Enabled = None, prom_ServiceEndpoints = None\<rparr>"

definition zeroLogCollectionConfig :: LogCollectionConfig where
  "zeroLogCollectionConfig =
     \<lparr>log_Enabled = None, log_LogsConfigContainerCollectAll = None,
      log_ContainerCollectUsingFiles = None, log_ContainerLogsPath = None,
      log_PodLogsPath = None, log_ContainerSymlinksPath = None, log_TempStoragePath = None,
      log_OpenFilesLimit = None\<rparr>"

definition zeroNetworkMonitoringConfig :: NetworkMonitoringConfig where
  "zeroNetworkMonitoringConfig = \<lparr>nm_Enabled = None\<rparr>"

definition zeroDatadogFeatures :: DatadogFeatures where
  "zeroDatadogFeatures =
     \<lparr>ft_OrchestratorExplorer = None, ft_KubeStateMetricsCore = None,
      ft_PrometheusScrape = None, ft_LogCollection = None, ft_NetworkMonitoring = None\<rparr>"

definition zeroAgentCredentials :: AgentCredentials where
  "zeroAgentCredentials = \<lparr>cred_UseSecretBackend = None, cred_OtherFields = []\<rparr>"

definition zeroDatadogAgentSpec :: DatadogAgentSpec where
  "zeroDatadogAgentSpec =
     \<lparr>spec_Credentials = None, spec_Features = zeroDatadogFeatures,
      spec_Agent = zeroDatadogAgentSpecAgentSpec,
      spec_ClusterAgent = zeroDatadogAgentSpecClusterAgentSpec,
      spec_ClusterChecksRunner = zeroDatadogAgentSpecClusterChecksRunnerSpec\<rparr>"

subsection \<open>Default values\<close>

definition defaultLogLevel :: string where "defaultLogLevel = ''INFO''"
definition defaultAgentImageTag :: string where "defaultAgentImageTag = ''7.28.0''"
definition defaultClusterAgentImageTag :: string where "defaultClusterAgentImageTag = ''1.12.0''"
definition defaultAgentImageName :: string where "defaultAgentImageName = ''agent''"
definition defaultClusterAgentImageName :: string where
  "defaultClusterAgentImageName = ''cluster-agent''"
definition defaultCollectEvents :: bool where "defaultCollectEvents = False"
definition defaultLeaderElection :: bool where "defaultLeaderElection = False"
definition defaultDockerSocketPath :: string where
  "defaultDockerSocketPath = ''/var/run/docker.sock''"
definition defaultDogstatsdOriginDetection :: bool where "defaultDogstatsdOriginDetection = False"
definition defaultUseDogStatsDSocketVolume :: bool where "defaultUseDogStatsDSocketVolume = False"
definition defaultHostDogstatsdSocketName :: string where
  "defaultHostDogstatsdSocketName = ''statsd.sock''"
definition defaultHostDogstatsdSocketPath :: string where
  "defaultHostDogstatsdSocketPath = ''/var/run/datadog''"
definition defaultAgentEnabled :: bool where "defaultAgentEnabled = True"
definition defaultClusterAgentEnabled :: bool where "defaultClusterAgentEnabled = True"
definition defaultClusterChecksRunnerEnabled :: bool where
  "defaultClusterChecksRunnerEnabled = False"
definition defaultApmEnabled :: bool where "defaultApmEnabled = False"
definition defaultApmHostPort :: "32 word" where "defaultApmHostPort = 8126"
definition defaultExternalMetricsEnabled :: bool where "defaultExternalMetricsEnabled = False"
definition defaultSystemProbeEnabled :: bool where "defaultSystemProbeEnabled = False"
definition defaultSystemProbeOOMKillEnabled :: bool where
  "defaultSystemProbeOOMKillEnabled = False"
definition defaultSystemProbeTCPQueueLengthEnabled :: bool where
  "defaultSystemProbeTCPQueueLengthEnabled = False"
definition defaultSystemProbeConntrackEnabled :: bool where
  "defaultSystemProbeConntrackEnabled = False"
definition defaultSystemProbeCollectDNSStats :: bool where
  "defaultSystemProbeCollectDNSStats = False"
definition defaultSystemProbeBPFDebugEnabled :: bool where
  "defaultSystemProbeBPFDebugEnabled = False"
definition defaultSystemProbeSecCompRootPath :: string where
  "defaultSystemProbeSecCompRootPath = ''/var/lib/kubelet/seccomp''"
definition defaultAppArmorProfileName :: string where "defaultAppArmorProfileName = ''unconfined''"
definition DefaultSeccompProfileName :: string where
  "DefaultSeccompProfileName = ''localhost/system-probe''"
definition defaultSecurityRuntimeEnabled :: bool where "defaultSecurityRuntimeEnabled = False"
definition defaultSecurityComplianceEnabled :: bool where
  "defaultSecurityComplianceEnabled = False"
definition defaultSecuritySyscallMonitorEnabled :: bool where
  "defaultSecuritySyscallMonitorEnabled = False"
definition defaultHostApmSocketName :: string where "defaultHostApmSocketName = ''apm.sock''"
definition defaultHostApmSocketPath :: string where "defaultHostApmSocketPath = ''/var/run/datadog''"
definition defaultLogEnabled :: bool where "defaultLogEnabled = False"
definition defaultLogsConfigContainerCollectAll :: bool where
  "defaultLogsConfigContainerCollectAll = False"
definition defaultLogsContainerCollectUsingFiles :: bool where
  "defaultLogsContainerCollectUsingFiles = True"
definition defaultContainerLogsPath :: string where
  "defaultContainerLogsPath = ''/var/lib/docker/containers''"
definition defaultPodLogsPath :: string where "defaultPodLogsPath = ''/var/log/pods''"
definition defaultContainerSymlinksPath :: string where
  "defaultContainerSymlinksPath = ''/var/log/containers''"
definition defaultLogsTempStoragePath :: string where
  "defaultLogsTempStoragePath = ''/var/lib/datadog-agent/logs''"
definition defaultLogsOpenFilesLimit :: "32 word" where "defaultLogsOpenFilesLimit = 100"
definition defaultProcessEnabled :: bool where "defaultProcessEnabled = False"
definition defaultProcessCollectionEnabled :: bool where "defaultProcessCollectionEnabled = False"
definition defaultOrchestratorExplorerEnabled :: bool where
  "defaultOrchestratorExplorerEnabled = True"
definition defaultOrchestratorExplorerContainerScrubbingEnabled :: bool where
  "defaultOrchestratorExplorerContainerScrubbingEnabled = True"
definition defaultMetricsProviderPort :: "32 word" where "defaultMetricsProviderPort = 8443"
definition defaultClusterChecksEnabled :: bool where "defaultClusterChecksEnabled = False"
definition defaultKubeStateMetricsCoreEnabled :: bool where
  "defaultKubeStateMetricsCoreEnabled = False"
definition defaultPrometheusScrapeEnabled :: bool where "defaultPrometheusScrapeEnabled = False"
definition defaultPrometheusScrapeServiceEndpoints :: bool where
  "defaultPrometheusScrapeServiceEndpoints = False"
definition defaultRollingUpdateMaxUnavailable :: string where
  "defaultRollingUpdateMaxUnavailable = ''10%''"
definition defaultUpdateStrategy :: string where "defaultUpdateStrategy = ''RollingUpdate''"
definition defaultRollingUpdateMaxPodSchedulerFailure :: string where
  "defaultRollingUpdateMaxPodSchedulerFailure = ''10%''"
definition defaultRollingUpdateMaxParallelPodCreation :: "32 word" where
  "defaultRollingUpdateMaxParallelPodCreation = 250"
definition defaultRollingUpdateSlowStartIntervalDuration :: "64 word" where
  "defaultRollingUpdateSlowStartIntervalDuration = 60000000000"
definition defaultRollingUpdateSlowStartAdditiveIncrease :: string where
  "defaultRollingUpdateSlowStartAdditiveIncrease = ''5''"
definition defaultReconcileFrequency :: "64 word" where "defaultReconcileFrequency = 10000000000"
definition defaultRbacCreate :: bool where "defaultRbacCreate = True"
definition defaultMutateUnlabelled :: bool where "defaultMutateUnlabelled = False"
definition DefaultAdmissionServiceName :: string where
  "DefaultAdmissionServiceName = ''datadog-admission-controller''"
definition defaultAdmissionControllerEnabled :: bool where
  "defaultAdmissionControllerEnabled = False"
definition defaultLivenessProbeInitialDelaySeconds :: "32 word" where
  "defaultLivenessProbeInitialDelaySeconds = 15"
definition defaultLivenessProbePeriodSeconds :: "32 word" where
  "defaultLivenessProbePeriodSeconds = 15"
definition defaultLivenessProbeTimeoutSeconds :: "32 word" where
  "defaultLivenessProbeTimeoutSeconds = 5"
definition defaultLivenessProbeSuccessThreshold :: "32 word" where
  "defaultLivenessProbeSuccessThreshold = 1"
definition defaultLivenessProbeFailureThreshold :: "32 word" where
  "defaultLivenessProbeFailureThreshold = 6"
definition defaultAgentHealthPort :: "32 word" where "defaultAgentHealthPort = 5555"
definition defaultLivenessProbeHTTPPath :: string where "defaultLivenessProbeHTTPPath = ''/live''"
definition defaultReadinessProbeInitialDelaySeconds :: "32 word" where
  "defaultReadinessProbeInitialDelaySeconds = 15"
definition defaultReadinessProbePeriodSeconds :: "32 word" where
  "defaultReadinessProbePeriodSeconds = 15"
definition defaultReadinessProbeTimeoutSeconds :: "32 word" where
  "defaultReadinessProbeTimeoutSeconds = 5"
definition defaultReadinessProbeSuccessThreshold :: "32 word" where
  "defaultReadinessProbeSuccessThreshold = 1"
definition defaultReadinessProbeFailureThreshold :: "32 word" where
  "defaultReadinessProbeFailureThreshold = 6"
definition defaultReadinessProbeHTTPPath :: string where "defaultReadinessProbeHTTPPath = ''/ready''"
definition defaultImagePullPolicy :: string where "defaultImagePullPolicy = ''IfNotPresent''"

subsection \<open>Helpers and collaborators\<close>

text \<open>A nil pointer dereference panics; it is the only failure of the defaulting pass.\<close>

datatype default_error = NilPointerDereference

text \<open>
  \<open>BoolValue\<close> is a helper of the package declared outside the sources at hand: it reads
  a \<open>*bool\<close>, with \<open>nil\<close> read as false. \<open>NewBoolPointer\<close>, \<open>NewStringPointer\<close> and
  \<open>NewInt32Pointer\<close> return a pointer to their argument: \<open>Some\<close>.
\<close>

definition BoolValue :: "bool option \<Rightarrow> bool" where
  "BoolValue b = (case b of None \<Rightarrow> False | Some v \<Rightarrow> v)"

text \<open>Go's \<open>strings.TrimSuffix\<close>.\<close>

definition TrimSuffix :: "string \<Rightarrow> string \<Rightarrow> string" where
  "TrimSuffix s suffix =
     (if length suffix \<le> length s \<and> drop (length s - length suffix) s = suffix
      then take (length s - length suffix) s else s)"

text \<open>
  The collaborators of section 6 of the specification, whose code is outside the sources
  at hand, are parameters of the model: the tag-extraction utility, the version
  comparison, and the canary strategy that the extended-daemonset project returns for an
  empty one.
\<close>

record Collaborators =
  GetTagFromImageName :: "string \<Rightarrow> string"
  IsAboveMinVersion :: "string \<Rightarrow> string \<Rightarrow> bool"
  DefaultExtendedDaemonSetSpecStrategyCanary :: ExtendedDaemonSetSpecStrategyCanary

subsection \<open>The node agent\<close>

text \<open>
  Every function below takes the struct its Go counterpart mutates through a pointer and
  returns the struct after the call with the override it returns. \<open>IsEqualStruct x T{}\<close>
  is the comparison of \<open>x\<close> with the zero value of its type.
\<close>

definition DefaultDatadogAgentSpecAgentImage ::
  "DatadogAgentSpecAgentSpec \<Rightarrow> string \<Rightarrow> string \<Rightarrow> DatadogAgentSpecAgentSpec \<times> ImageConfig" where
  "DefaultDatadogAgentSpecAgentImage agent name tag =
     (let img0 = (case ag_Image agent of None \<Rightarrow> zeroImageConfig | Some i \<Rightarrow> i);
          ov0 = zeroImageConfig;
          (img1, ov1) = (if img_Name img0 = []
                         then (img0\<lparr>img_Name := name\<rparr>, ov0\<lparr>img_Name := name\<rparr>)
                         else (img0, ov0));
          (img2, ov2) = (if img_Tag img1 = []
                         then (img1\<lparr>img_Tag := tag\<rparr>, ov1\<lparr>img_Tag := tag\<rparr>)
                         else (img1, ov1));
          (img3, ov3) = (if img_PullPolicy img2 = None
                         then (img2\<lparr>img_PullPolicy := Some defaultImagePullPolicy\<rparr>,
                               ov2\<lparr>img_PullPolicy := Some defaultImagePullPolicy\<rparr>)
                         else (img2, ov2));
          img4 = (if img_PullSecrets img3 = None then img3\<lparr>img_PullSecrets := Some []\<rparr>
                  else img3)
      in (agent\<lparr>ag_Image := Some img4\<rparr>, ov3))"

definition GetDefaultLivenessProbe :: Probe where
  "GetDefaultLivenessProbe =
     \<lparr>probe_InitialDelaySeconds = defaultLivenessProbeInitialDelaySeconds,
      probe_PeriodSeconds = defaultLivenessProbePeriodSeconds,
      probe_TimeoutSeconds = defaultLivenessProbeTimeoutSeconds,
      probe_SuccessThreshold = defaultLivenessProbeSuccessThreshold,
      probe_FailureThreshold = defaultLivenessProbeFailureThreshold,
      probe_HTTPGet = Some \<lparr>http_Path = defaultLivenessProbeHTTPPath,
                             http_Port = IntVal defaultAgentHealthPort\<rparr>,
      probe_TCPSocket = None\<rparr>"

definition GetDefaultReadinessProbe :: Probe where
  "GetDefaultReadinessProbe =
     \<lparr>probe_InitialDelaySeconds = defaultReadinessProbeInitialDelaySeconds,
      probe_PeriodSeconds = defaultReadinessProbePeriodSeconds,
      probe_TimeoutSeconds = defaultReadinessProbeTimeoutSeconds,
      probe_SuccessThreshold = defaultReadinessProbeSuccessThreshold,
      probe_FailureThreshold = defaultReadinessProbeFailureThreshold,
      probe_HTTPGet = Some \<lparr>http_Path = defaultReadinessProbeHTTPPath,
                             http_Port = IntVal defaultAgentHealthPort\<rparr>,
      probe_TCPSocket = None\<rparr>"

definition DefaultContainerSocket :: "NodeAgentSpec \<Rightarrow> NodeAgentSpec \<times> CRISocketConfig" where
  "DefaultContainerSocket config =
     (case na_CriSocket config of
        None \<Rightarrow>
          (let sock = \<lparr>cri_DockerSocketPath = Some defaultDockerSocketPath\<rparr>
           in (config\<lparr>na_CriSocket := Some sock\<rparr>, sock))
      | Some sock \<Rightarrow>
          (if cri_DockerSocketPath sock = None
           then (config\<lparr>na_CriSocket :=
                     Some (sock\<lparr>cri_DockerSocketPath := Some defaultDockerSocketPath\<rparr>)\<rparr>,
                 zeroCRISocketConfig\<lparr>cri_DockerSocketPath := Some defaultDockerSocketPath\<rparr>)
           else (config, zeroCRISocketConfig)))"

text \<open>\<open>path.Join\<close> of the two default constants puts one slash between them.\<close>

definition DefaultConfigDogstatsdUDS ::
  "DogstatsdConfig \<Rightarrow> DogstatsdConfig \<times> DSDUnixDomainSocketSpec" where
  "DefaultConfigDogstatsdUDS dsd =
     (let uds0 = (case dsd_UnixDomainSocket dsd of
                    None \<Rightarrow> zeroDSDUnixDomainSocketSpec | Some u \<Rightarrow> u);
          ov0 = zeroDSDUnixDomainSocketSpec;
          (uds1, ov1) = (if dsduds_Enabled uds0 = None
                         then (uds0\<lparr>dsduds_Enabled := Some defaultUseDogStatsDSocketVolume\<rparr>,
                               ov0\<lparr>dsduds_Enabled := Some defaultUseDogStatsDSocketVolume\<rparr>)
                         else (uds0, ov0));
          socketPath = defaultHostDogstatsdSocketPath @ ''/'' @ defaultHostDogstatsdSocketName;
          (uds2, ov2) = (if dsduds_HostFilepath uds1 = None
                         then (uds1\<lparr>dsduds_HostFilepath := Some socketPath\<rparr>,
                               ov1\<lparr>dsduds_HostFilepath := Some socketPath\<rparr>)
                         else (uds1, ov1))
      in (dsd\<lparr>dsd_UnixDomainSocket := Some uds2\<rparr>, ov2))"

definition DefaultConfigDogstatsd :: "NodeAgentSpec \<Rightarrow> NodeAgentSpec \<times> DogstatsdConfig" where
  "DefaultConfigDogstatsd config =
     (let dsd0 = (case na_Dogstatsd config of None \<Rightarrow> zeroDogstatsdConfig | Some d \<Rightarrow> d);
          ov0 = zeroDogstatsdConfig;
          (dsd1, ov1) = (if dsd_DogstatsdOriginDetection dsd0 = None
                         then (dsd0\<lparr>dsd_DogstatsdOriginDetection :=
                                     Some defaultDogstatsdOriginDetection\<rparr>,
                               ov0\<lparr>dsd_DogstatsdOriginDetection :=
                                     Some defaultDogstatsdOriginDetection\<rparr>)
                         else (dsd0, ov0));
          (dsd2, uds) = DefaultConfigDogstatsdUDS dsd1;
          ov2 = (if uds \<noteq> zeroDSDUnixDomainSocketSpec
                 then ov1\<lparr>dsd_UnixDomainSocket := Some uds\<rparr> else ov1)
      in (config\<lparr>na_Dogstatsd := Some dsd2\<rparr>, ov2))"

text \<open>
  \<open>DefaultDatadogAgentSpecAgentConfig\<close>. The source assigns the defaulted log level to
  itself (line 309), so the override does not get it. \<open>agents.Image.Name\<close> is read
  through the \<open>Image\<close> pointer: nil there is a panic.
\<close>

definition DefaultDatadogAgentSpecAgentConfig ::
  "Collaborators \<Rightarrow> DatadogAgentSpecAgentSpec
   \<Rightarrow> default_error + (DatadogAgentSpecAgentSpec \<times> NodeAgentSpec)" where
  "DefaultDatadogAgentSpecAgentConfig ext agents =
     (let ov0 = zeroNodeAgentSpec;
          na0 = (case ag_NodeAgent agents of None \<Rightarrow> zeroNodeAgentSpec | Some n \<Rightarrow> n);
          na1 = (if cc_LogLevel (na_ContainerConfig na0) = None
                 then na0\<lparr>na_ContainerConfig :=
                            (na_ContainerConfig na0)\<lparr>cc_LogLevel := Some defaultLogLevel\<rparr>\<rparr>
                 else na0);
          (na2, ov2) = (if na_CollectEvents na1 = None
                        then (na1\<lparr>na_CollectEvents := Some defaultCollectEvents\<rparr>,
                              ov0\<lparr>na_CollectEvents := Some defaultCollectEvents\<rparr>)
                        else (na1, ov0));
          (na3, ov3) = (if na_LeaderElection na2 = None
                        then (na2\<lparr>na_LeaderElection := Some defaultLeaderElection\<rparr>,
                              ov2\<lparr>na_LeaderElection := Some defaultLeaderElection\<rparr>)
                        else (na2, ov2))
      in case ag_Image agents of
           None \<Rightarrow> Inl NilPointerDereference
         | Some img \<Rightarrow>
          (let agentTag = TrimSuffix (GetTagFromImageName ext (img_Name img)) ''-jmx'';
               (na4, ov4) =
                 (if \<not> (agentTag = ''latest'' \<or> IsAboveMinVersion ext agentTag ''7.27.0-0''
                         \<or> IsAboveMinVersion ext agentTag ''6.27.0-0'')
                  then (let (na, socketOverride) = DefaultContainerSocket na3
                        in (na, if socketOverride \<noteq> zeroCRISocketConfig
                                then ov3\<lparr>na_CriSocket := Some socketOverride\<rparr> else ov3))
                  else (na3, ov3));
               (na5, dsdOverride) = DefaultConfigDogstatsd na4;
               ov5 = (if dsdOverride \<noteq> zeroDogstatsdConfig
                      then ov4\<lparr>na_Dogstatsd := Some dsdOverride\<rparr> else ov4);
               na6 = (if cc_Resources (na_ContainerConfig na5) = None
                      then na5\<lparr>na_ContainerConfig :=
                             (na_ContainerConfig na5)\<lparr>cc_Resources := Some zeroResourceRequirements\<rparr>\<rparr>
                      else na5);
               na7 = (if na_PodLabelsAsTags na6 = None then na6\<lparr>na_PodLabelsAsTags := Some []\<rparr>
                      else na6);
               na8 = (if na_PodAnnotationsAsTags na7 = None
                      then na7\<lparr>na_PodAnnotationsAsTags := Some []\<rparr> else na7);
               na9 = (if na_Tags na8 = None then na8\<lparr>na_Tags := Some []\<rparr> else na8);
               (na10, ov10) =
                 (if cc_LivenessProbe (na_ContainerConfig na9) = None
                  then (na9\<lparr>na_ContainerConfig :=
                             (na_ContainerConfig na9)\<lparr>cc_LivenessProbe := Some GetDefaultLivenessProbe\<rparr>\<rparr>,
                        ov5\<lparr>na_ContainerConfig :=
                             (na_ContainerConfig ov5)\<lparr>cc_LivenessProbe := Some GetDefaultLivenessProbe\<rparr>\<rparr>)
                  else (na9, ov5));
               (na11, ov11) =
                 (if cc_ReadinessProbe (na_ContainerConfig na10) = None
                  then (na10\<lparr>na_ContainerConfig :=
                             (na_ContainerConfig na10)\<lparr>cc_ReadinessProbe := Some GetDefaultReadinessProbe\<rparr>\<rparr>,
                        ov10\<lparr>na_ContainerConfig :=
                             (na_ContainerConfig ov10)\<lparr>cc_ReadinessProbe := Some GetDefaultReadinessProbe\<rparr>\<rparr>)
                  else (na10, ov10));
               (na12, ov12) =
                 (if cc_HealthPort (na_ContainerConfig na11) = None
                  then (na11\<lparr>na_ContainerConfig :=
                             (na_ContainerConfig na11)\<lparr>cc_HealthPort := Some defaultAgentHealthPort\<rparr>\<rparr>,
                        ov11\<lparr>na_ContainerConfig :=
                             (na_ContainerConfig ov11)\<lparr>cc_HealthPort := Some defaultAgentHealthPort\<rparr>\<rparr>)
                  else (na11, ov11))
           in Inr (agents\<lparr>ag_NodeAgent := Some na12\<rparr>, ov12)))"

text \<open>\<open>DefaultRbacConfig\<close>: with a nil argument the function works on a struct of its own,
  which the caller does not see.\<close>

definition DefaultRbacConfig :: "RbacConfig option \<Rightarrow> RbacConfig option \<times> RbacConfig" where
  "DefaultRbacConfig rbac =
     (let r0 = (case rbac of None \<Rightarrow> zeroRbacConfig | Some r \<Rightarrow> r);
          (r1, ov1) = (if rbac_Create r0 = None
                       then (r0\<lparr>rbac_Create := Some defaultRbacCreate\<rparr>,
                             zeroRbacConfig\<lparr>rbac_Create := Some defaultRbacCreate\<rparr>)
                       else (r0, zeroRbacConfig))
      in (case rbac of None \<Rightarrow> None | Some _ \<Rightarrow> Some r1, ov1))"

definition DefaultDatadogAgentSpecRbacConfig ::
  "DatadogAgentSpecAgentSpec \<Rightarrow> DatadogAgentSpecAgentSpec \<times> RbacConfig" where
  "DefaultDatadogAgentSpecRbacConfig agent =
     (let r0 = (case ag_Rbac agent of None \<Rightarrow> Some zeroRbacConfig | Some r \<Rightarrow> Some r);
          (r1, ov) = DefaultRbacConfig r0
      in (agent\<lparr>ag_Rbac := r1\<rparr>, ov))"

definition DefaultDatadogAgentSpecDatadogAgentStrategy ::
  "Collaborators \<Rightarrow> DatadogAgentSpecAgentSpec
   \<Rightarrow> DatadogAgentSpecAgentSpec \<times> DaemonSetDeploymentStrategy" where
  "DefaultDatadogAgentSpecDatadogAgentStrategy ext agents =
     (let ov0 = zeroDaemonSetDeploymentStrategy;
          s0 = (case ag_DeploymentStrategy agents of
                  None \<Rightarrow> zeroDaemonSetDeploymentStrategy | Some s \<Rightarrow> s);
          (s1, ov1) = (if ds_UpdateStrategyType s0 = None
                       then (s0\<lparr>ds_UpdateStrategyType := Some defaultUpdateStrategy\<rparr>,
                             ov0\<lparr>ds_UpdateStrategyType := Some defaultUpdateStrategy\<rparr>)
                       else (s0, ov0));
          (s2, ov2) = (if ru_MaxUnavailable (ds_RollingUpdate s1) = None
                       then (s1\<lparr>ds_RollingUpdate := (ds_RollingUpdate s1)
                                 \<lparr>ru_MaxUnavailable := Some (StrVal defaultRollingUpdateMaxUnavailable)\<rparr>\<rparr>,
                             ov1\<lparr>ds_RollingUpdate := (ds_RollingUpdate ov1)
                                 \<lparr>ru_MaxUnavailable := Some (StrVal defaultRollingUpdateMaxUnavailable)\<rparr>\<rparr>)
                       else (s1, ov1));
          (s3, ov3) = (if ru_MaxPodSchedulerFailure (ds_RollingUpdate s2) = None
                       then (s2\<lparr>ds_RollingUpdate := (ds_RollingUpdate s2)
                                 \<lparr>ru_MaxPodSchedulerFailure :=
                                    Some (StrVal defaultRollingUpdateMaxPodSchedulerFailure)\<rparr>\<rparr>,
                             ov2\<lparr>ds_RollingUpdate := (ds_RollingUpdate ov2)
                                 \<lparr>ru_MaxPodSchedulerFailure :=
                                    Some (StrVal defaultRollingUpdateMaxPodSchedulerFailure)\<rparr>\<rparr>)
                       else (s2, ov2));
          (s4, ov4) = (if ru_MaxParallelPodCreation (ds_RollingUpdate s3) = None
                       then (s3\<lparr>ds_RollingUpdate := (ds_RollingUpdate s3)
                                 \<lparr>ru_MaxParallelPodCreation :=
                                    Some defaultRollingUpdateMaxParallelPodCreation\<rparr>\<rparr>,
                             ov3\<lparr>ds_RollingUpdate := (ds_RollingUpdate ov3)
                                 \<lparr>ru_MaxParallelPodCreation :=
                                    Some defaultRollingUpdateMaxParallelPodCreation\<rparr>\<rparr>)
                       else (s3, ov3));
          (s5, ov5) = (if ru_SlowStartIntervalDuration (ds_RollingUpdate s4) = None
                       then (s4\<lparr>ds_RollingUpdate := (ds_RollingUpdate s4)
                                 \<lparr>ru_SlowStartIntervalDuration :=
                                    Some defaultRollingUpdateSlowStartIntervalDuration\<rparr>\<rparr>,
                             ov4\<lparr>ds_RollingUpdate := (ds_RollingUpdate ov4)
                                 \<lparr>ru_SlowStartIntervalDuration :=
                                    Some defaultRollingUpdateSlowStartIntervalDuration\<rparr>\<rparr>)
                       else (s4, ov4));
          (s6, ov6) = (if ru_SlowStartAdditiveIncrease (ds_RollingUpdate s5) = None
                       then (s5\<lparr>ds_RollingUpdate := (ds_RollingUpdate s5)
                                 \<lparr>ru_SlowStartAdditiveIncrease :=
                                    Some (StrVal defaultRollingUpdateSlowStartAdditiveIncrease)\<rparr>\<rparr>,
                             ov5\<lparr>ds_RollingUpdate := (ds_RollingUpdate ov5)
                                 \<lparr>ru_SlowStartAdditiveIncrease :=
                                    Some (StrVal defaultRollingUpdateSlowStartAdditiveIncrease)\<rparr>\<rparr>)
                       else (s5, ov5));
          (s7, ov7) = (if ds_Canary s6 = None
                       then (s6\<lparr>ds_Canary := Some (DefaultExtendedDaemonSetSpecStrategyCanary ext)\<rparr>,
                             ov6\<lparr>ds_Canary := Some (DefaultExtendedDaemonSetSpecStrategyCanary ext)\<rparr>)
                       else (s6, ov6));
          (s8, ov8) = (if ds_ReconcileFrequency s7 = None
                       then (s7\<lparr>ds_ReconcileFrequency := Some defaultReconcileFrequency\<rparr>,
                             ov7\<lparr>ds_ReconcileFrequency := Some defaultReconcileFrequency\<rparr>)
                       else (s7, ov7))
      in (agents\<lparr>ag_DeploymentStrategy := Some s8\<rparr>, ov8))"

definition getDefaultAPMAgentLivenessProbe :: Probe where
  "getDefaultAPMAgentLivenessProbe =
     \<lparr>probe_InitialDelaySeconds = defaultLivenessProbeInitialDelaySeconds,
      probe_PeriodSeconds = defaultLivenessProbePeriodSeconds,
      probe_TimeoutSeconds = defaultLivenessProbeTimeoutSeconds,
      probe_SuccessThreshold = 0,
      probe_FailureThreshold = 0,
      probe_HTTPGet = None,
      probe_TCPSocket = Some \<lparr>tcp_Port = IntVal defaultApmHostPort\<rparr>\<rparr>"

definition DefaultDatadogAgentSpecAgentApmUDS :: "APMSpec \<Rightarrow> APMSpec \<times> APMUnixDomainSocketSpec" where
  "DefaultDatadogAgentSpecAgentApmUDS apm =
     (case apm_UnixDomainSocket apm of
        None \<Rightarrow>
          (let uds = \<lparr>apmuds_Enabled = Some False, apmuds_HostFilepath = None\<rparr>
           in (apm\<lparr>apm_UnixDomainSocket := Some uds\<rparr>, uds))
      | Some uds0 \<Rightarrow>
          (let ov0 = zeroAPMUnixDomainSocketSpec;
               (uds1, ov1) = (if apmuds_Enabled uds0 = None
                              then (uds0\<lparr>apmuds_Enabled := Some False\<rparr>,
                                    ov0\<lparr>apmuds_Enabled := Some False\<rparr>)
                              else (uds0, ov0))
           in if \<not> BoolValue (apmuds_Enabled uds1)
              then (apm\<lparr>apm_UnixDomainSocket := Some uds1\<rparr>, ov1)
              else
               (let socketPath = defaultHostApmSocketPath @ ''/'' @ defaultHostApmSocketName;
                    (uds2, ov2) = (if apmuds_HostFilepath uds1 = None
                                   then (uds1\<lparr>apmuds_HostFilepath := Some socketPath\<rparr>,
                                         ov1\<lparr>apmuds_HostFilepath := Some socketPath\<rparr>)
                                   else (uds1, ov1))
                in (apm\<lparr>apm_UnixDomainSocket := Some uds2\<rparr>, ov2))))"

definition DefaultDatadogAgentSpecAgentApm ::
  "DatadogAgentSpecAgentSpec \<Rightarrow> DatadogAgentSpecAgentSpec \<times> APMSpec" where
  "DefaultDatadogAgentSpecAgentApm agents =
     (case ag_Apm agents of
        None \<Rightarrow>
          (let apm = zeroAPMSpec\<lparr>apm_Enabled := Some defaultApmEnabled\<rparr>
           in (agents\<lparr>ag_Apm := Some apm\<rparr>, apm))
      | Some apm0 \<Rightarrow>
          (let ov0 = zeroAPMSpec;
               (apm1, ov1) = (if apm_Enabled apm0 = None
                              then (apm0\<lparr>apm_Enabled := Some defaultApmEnabled\<rparr>,
                                    ov0\<lparr>apm_Enabled := Some defaultApmEnabled\<rparr>)
                              else (apm0, ov0))
           in if \<not> BoolValue (apm_Enabled apm1)
              then (agents\<lparr>ag_Apm := Some apm1\<rparr>, ov1)
              else
               (let (apm2, ov2) = (if apm_HostPort apm1 = None
                                   then (apm1\<lparr>apm_HostPort := Some defaultApmHostPort\<rparr>,
                                         ov1\<lparr>apm_HostPort := Some defaultApmHostPort\<rparr>)
                                   else (apm1, ov1));
                    (apm3, ov3) =
                      (if cc_LivenessProbe (apm_ContainerConfig apm2) = None
                       then (apm2\<lparr>apm_ContainerConfig := (apm_ContainerConfig apm2)
                                  \<lparr>cc_LivenessProbe := Some getDefaultAPMAgentLivenessProbe\<rparr>\<rparr>,
                             ov2\<lparr>apm_ContainerConfig := (apm_ContainerConfig ov2)
                                  \<lparr>cc_LivenessProbe := Some getDefaultAPMAgentLivenessProbe\<rparr>\<rparr>)
                       else (apm2, ov2));
                    (apm4, udsOverride) = DefaultDatadogAgentSpecAgentApmUDS apm3;
                    ov4 = (if udsOverride \<noteq> zeroAPMUnixDomainSocketSpec
                           then ov3\<lparr>apm_UnixDomainSocket := Some udsOverride\<rparr> else ov3)
                in (agents\<lparr>ag_Apm := Some apm4\<rparr>, ov4))))"

definition DefaultDatadogAgentSpecAgentSystemProbe ::
  "DatadogAgentSpecAgentSpec \<Rightarrow> DatadogAgentSpecAgentSpec \<times> SystemProbeSpec" where
  "DefaultDatadogAgentSpecAgentSystemProbe agents =
     (case ag_SystemProbe agents of
        None \<Rightarrow>
          (let sp = zeroSystemProbeSpec\<lparr>sp_Enabled := Some defaultSystemProbeEnabled\<rparr>
           in (agents\<lparr>ag_SystemProbe := Some sp\<rparr>, sp))
      | Some sp0 \<Rightarrow>
          (let ov0 = zeroSystemProbeSpec;
               (sp1, ov1) = (if sp_Enabled sp0 = None
                             then (sp0\<lparr>sp_Enabled := Some defaultSystemProbeEnabled\<rparr>,
                                   ov0\<lparr>sp_Enabled := Some defaultSystemProbeEnabled\<rparr>)
                             else (sp0, ov0))
           in if \<not> BoolValue (sp_Enabled sp1)
              then (agents\<lparr>ag_SystemProbe := Some sp1\<rparr>, ov1)
              else
               (let (sp2, ov2) =
                      (if sp_EnableOOMKill sp1 = None
                       then (sp1\<lparr>sp_EnableOOMKill := Some defaultSystemProbeOOMKillEnabled\<rparr>,
                             ov1\<lparr>sp_EnableOOMKill := Some defaultSystemProbeOOMKillEnabled\<rparr>)
                       else (sp1, ov1));
                    (sp3, ov3) =
                      (if sp_EnableTCPQueueLength sp2 = None
                       then (sp2\<lparr>sp_EnableTCPQueueLength :=
                                   Some defaultSystemProbeTCPQueueLengthEnabled\<rparr>,
                             ov2\<lparr>sp_EnableTCPQueueLength :=
                                   Some defaultSystemProbeTCPQueueLengthEnabled\<rparr>)
                       else (sp2, ov2));
                    (sp4, ov4) =
                      (if sp_BPFDebugEnabled sp3 = None
                       then (sp3\<lparr>sp_BPFDebugEnabled := Some defaultSystemProbeBPFDebugEnabled\<rparr>,
                             ov3\<lparr>sp_BPFDebugEnabled := Some defaultSystemProbeBPFDebugEnabled\<rparr>)
                       else (sp3, ov3));
                    (sp5, ov5) =
                      (if sp_CollectDNSStats sp4 = None
                       then (sp4\<lparr>sp_CollectDNSStats := Some defaultSystemProbeCollectDNSStats\<rparr>,
                             ov4\<lparr>sp_CollectDNSStats := Some defaultSystemProbeCollectDNSStats\<rparr>)
                       else (sp4, ov4));
                    (sp6, ov6) =
                      (if sp_ConntrackEnabled sp5 = None
                       then (sp5\<lparr>sp_ConntrackEnabled := Some defaultSystemProbeConntrackEnabled\<rparr>,
                             ov5\<lparr>sp_ConntrackEnabled := Some defaultSystemProbeConntrackEnabled\<rparr>)
                       else (sp5, ov5));
                    (sp7, ov7) =
                      (if sp_SecCompRootPath sp6 = []
                       then (sp6\<lparr>sp_SecCompRootPath := defaultSystemProbeSecCompRootPath\<rparr>,
                             ov6\<lparr>sp_SecCompRootPath := defaultSystemProbeSecCompRootPath\<rparr>)
                       else (sp6, ov6));
                    (sp8, ov8) =
                      (if sp_AppArmorProfileName sp7 = []
                       then (sp7\<lparr>sp_AppArmorProfileName := defaultAppArmorProfileName\<rparr>,
                             ov7\<lparr>sp_AppArmorProfileName := defaultAppArmorProfileName\<rparr>)
                       else (sp7, ov7));
                    (sp9, ov9) =
                      (if sp_SecCompProfileName sp8 = []
                       then (sp8\<lparr>sp_SecCompProfileName := DefaultSeccompProfileName\<rparr>,
                             ov8\<lparr>sp_SecCompProfileName := DefaultSeccompProfileName\<rparr>)
                       else (sp8, ov8))
                in (agents\<lparr>ag_SystemProbe := Some sp9\<rparr>, ov9))))"

text \<open>
  \<open>DefaultDatadogAgentSpecAgentSecurity\<close>. When the syscall monitor is nil, the source
  stores one new struct both in the spec and in the override, so the two share it and
  the later write of \<open>Enabled\<close> reaches both. When the syscall monitor is present with
  \<open>Enabled\<close> nil, the override has no syscall monitor and the write
  \<open>secOverride.Runtime.SyscallMonitor.Enabled = ...\<close> goes through a nil pointer.
\<close>

definition DefaultDatadogAgentSpecAgentSecurity ::
  "DatadogAgentSpecAgentSpec \<Rightarrow> default_error + (DatadogAgentSpecAgentSpec \<times> SecuritySpec)" where
  "DefaultDatadogAgentSpecAgentSecurity agents =
     (let ov0 = zeroSecuritySpec;
          sec0 = (case ag_Security agents of None \<Rightarrow> zeroSecuritySpec | Some s \<Rightarrow> s);
          (sec1, ov1) =
            (if compl_Enabled (sec_Compliance sec0) = None
             then (sec0\<lparr>sec_Compliance := (sec_Compliance sec0)
                        \<lparr>compl_Enabled := Some defaultSecurityComplianceEnabled\<rparr>\<rparr>,
                   ov0\<lparr>sec_Compliance := (sec_Compliance ov0)
                        \<lparr>compl_Enabled := Some defaultSecurityComplianceEnabled\<rparr>\<rparr>)
             else (sec0, ov0));
          (sec2, ov2) =
            (if rt_Enabled (sec_Runtime sec1) = None
             then (sec1\<lparr>sec_Runtime := (sec_Runtime sec1)
                        \<lparr>rt_Enabled := Some defaultSecurityRuntimeEnabled\<rparr>\<rparr>,
                   ov1\<lparr>sec_Runtime := (sec_Runtime ov1)
                        \<lparr>rt_Enabled := Some defaultSecurityRuntimeEnabled\<rparr>\<rparr>)
             else (sec1, ov1));
          (sec3, ov3) =
            (if rt_SyscallMonitor (sec_Runtime sec2) = None
             then (sec2\<lparr>sec_Runtime := (sec_Runtime sec2)
                        \<lparr>rt_SyscallMonitor := Some zeroSyscallMonitorSpec\<rparr>\<rparr>,
                   ov2\<lparr>sec_Runtime := (sec_Runtime ov2)
                        \<lparr>rt_SyscallMonitor := Some zeroSyscallMonitorSpec\<rparr>\<rparr>)
             else (sec2, ov2))
      in case rt_SyscallMonitor (sec_Runtime sec3) of
           None \<Rightarrow> Inl NilPointerDereference
         | Some sm \<Rightarrow>
            (if sm_Enabled sm = None
             then (case rt_SyscallMonitor (sec_Runtime ov3) of
                     None \<Rightarrow> Inl NilPointerDereference
                   | Some osm \<Rightarrow>
                       Inr (agents\<lparr>ag_Security := Some (sec3\<lparr>sec_Runtime := (sec_Runtime sec3)
                              \<lparr>rt_SyscallMonitor :=
                                 Some (sm\<lparr>sm_Enabled := Some defaultSecuritySyscallMonitorEnabled\<rparr>)\<rparr>\<rparr>)\<rparr>,
                            ov3\<lparr>sec_Runtime := (sec_Runtime ov3)
                              \<lparr>rt_SyscallMonitor :=
                                 Some (osm\<lparr>sm_Enabled := Some defaultSecuritySyscallMonitorEnabled\<rparr>)\<rparr>\<rparr>))
             else Inr (agents\<lparr>ag_Security := Some sec3\<rparr>, ov3)))"

definition DefaultDatadogAgentSpecAgentProcess ::
  "DatadogAgentSpecAgentSpec \<Rightarrow> DatadogAgentSpecAgentSpec \<times> ProcessSpec" where
  "DefaultDatadogAgentSpecAgentProcess agents =
     (case ag_Process agents of
        None \<Rightarrow>
          (let p = zeroProcessSpec\<lparr>proc_Enabled := Some defaultProcessEnabled\<rparr>
           in (agents\<lparr>ag_Process := Some p\<rparr>, p))
      | Some p0 \<Rightarrow>
          (let ov0 = zeroProcessSpec;
               (p1, ov1) = (if proc_Enabled p0 = None
                            then (p0\<lparr>proc_Enabled := Some defaultProcessEnabled\<rparr>,
                                  ov0\<lparr>proc_Enabled := Some defaultProcessEnabled\<rparr>)
                            else (p0, ov0))
           in if \<not> BoolValue (proc_Enabled p1)
              then (agents\<lparr>ag_Process := Some p1\<rparr>, ov1)
              else
               (let (p2, ov2) =
                      (if proc_ProcessCollectionEnabled p1 = None
                       then (p1\<lparr>proc_ProcessCollectionEnabled :=
                                  Some defaultProcessCollectionEnabled\<rparr>,
                             ov1\<lparr>proc_ProcessCollectionEnabled :=
                                  Some defaultProcessCollectionEnabled\<rparr>)
                       else (p1, ov1))
                in (agents\<lparr>ag_Process := Some p2\<rparr>, ov2))))"

text \<open>\<open>DefaultNetworkPolicy\<close>: as \<open>DefaultRbacConfig\<close>, a nil argument is replaced by a
  struct of the function's own.\<close>

definition DefaultNetworkPolicy ::
  "NetworkPolicySpec option \<Rightarrow> NetworkPolicySpec option \<times> NetworkPolicySpec" where
  "DefaultNetworkPolicy policy =
     (let p0 = (case policy of None \<Rightarrow> zeroNetworkPolicySpec | Some p \<Rightarrow> p);
          (p1, ov1) = (if np_Create p0 = None
                       then (p0\<lparr>np_Create := Some False\<rparr>,
                             zeroNetworkPolicySpec\<lparr>np_Create := Some False\<rparr>)
                       else (p0, zeroNetworkPolicySpec))
      in (case policy of None \<Rightarrow> None | Some _ \<Rightarrow> Some p1, ov1))"

definition DefaultAgentNetworkPolicy ::
  "DatadogAgentSpecAgentSpec \<Rightarrow> DatadogAgentSpecAgentSpec \<times> NetworkPolicySpec" where
  "DefaultAgentNetworkPolicy agent =
     (let p0 = (case ag_NetworkPolicy agent of
                  None \<Rightarrow> Some zeroNetworkPolicySpec | Some p \<Rightarrow> Some p);
          (p1, ov) = DefaultNetworkPolicy p0
      in (agent\<lparr>ag_NetworkPolicy := p1\<rparr>, ov))"

text \<open>
  \<open>DefaultDatadogAgentSpecAgent\<close>. On the empty struct the function sets \<open>Enabled\<close>
  before it creates the override, so that value is not recorded; the early return
  there hands back the spec itself.
\<close>

definition DefaultDatadogAgentSpecAgent ::
  "Collaborators \<Rightarrow> DatadogAgentSpecAgentSpec
   \<Rightarrow> default_error + (DatadogAgentSpecAgentSpec \<times> DatadogAgentSpecAgentSpec)" where
  "DefaultDatadogAgentSpecAgent ext daemonsetAgents =
     (let a0 = (if daemonsetAgents = zeroDatadogAgentSpecAgentSpec
                then daemonsetAgents\<lparr>ag_Enabled := Some defaultAgentEnabled\<rparr>
                else daemonsetAgents)
      in if daemonsetAgents = zeroDatadogAgentSpecAgentSpec \<and> \<not> BoolValue (ag_Enabled a0)
         then Inr (a0, a0)
         else
          (let ov0 = zeroDatadogAgentSpecAgentSpec;
               (a1, ov1) = (if ag_Enabled a0 = None
                            then (a0\<lparr>ag_Enabled := Some defaultAgentEnabled\<rparr>,
                                  ov0\<lparr>ag_Enabled := Some defaultAgentEnabled\<rparr>)
                            else (a0, ov0))
           in if \<not> BoolValue (ag_Enabled a1) then Inr (a1, ov1)
              else
               (let (a2, ov2) = (if ag_UseExtendedDaemonset a1 = None
                                 then (a1\<lparr>ag_UseExtendedDaemonset := Some False\<rparr>,
                                       ov1\<lparr>ag_UseExtendedDaemonset := Some False\<rparr>)
                                 else (a1, ov1));
                    (a3, img) = DefaultDatadogAgentSpecAgentImage a2
                                  defaultAgentImageName defaultAgentImageTag;
                    ov3 = (if img \<noteq> zeroImageConfig then ov2\<lparr>ag_Image := Some img\<rparr> else ov2)
                in case DefaultDatadogAgentSpecAgentConfig ext a3 of
                     Inl e \<Rightarrow> Inl e
                   | Inr (a4, cfg) \<Rightarrow>
                  (let ov4 = (if cfg \<noteq> zeroNodeAgentSpec then ov3\<lparr>ag_NodeAgent := Some cfg\<rparr>
                              else ov3);
                       (a5, rbac) = DefaultDatadogAgentSpecRbacConfig a4;
                       ov5 = (if rbac \<noteq> zeroRbacConfig then ov4\<lparr>ag_Rbac := Some rbac\<rparr> else ov4);
                       (a6, deployStrat) = DefaultDatadogAgentSpecDatadogAgentStrategy ext a5;
                       ov6 = (if deployStrat \<noteq> zeroDaemonSetDeploymentStrategy
                              then ov5\<lparr>ag_DeploymentStrategy := Some deployStrat\<rparr> else ov5);
                       (a7, apm) = DefaultDatadogAgentSpecAgentApm a6;
                       ov7 = (if apm \<noteq> zeroAPMSpec then ov6\<lparr>ag_Apm := Some apm\<rparr> else ov6);
                       (a8, sysProb) = DefaultDatadogAgentSpecAgentSystemProbe a7;
                       ov8 = (if sysProb \<noteq> zeroSystemProbeSpec
                              then ov7\<lparr>ag_SystemProbe := Some sysProb\<rparr> else ov7)
                   in case DefaultDatadogAgentSpecAgentSecurity a8 of
                        Inl e \<Rightarrow> Inl e
                      | Inr (a9, sec) \<Rightarrow>
                     (let ov9 = (if sec \<noteq> zeroSecuritySpec then ov8\<lparr>ag_Security := Some sec\<rparr>
                                 else ov8);
                          (a10, proc) = DefaultDatadogAgentSpecAgentProcess a9;
                          ov10 = (if proc \<noteq> zeroProcessSpec then ov9\<lparr>ag_Process := Some proc\<rparr>
                                  else ov9);
                          (a11, net) = DefaultAgentNetworkPolicy a10;
                          ov11 = (if net \<noteq> zeroNetworkPolicySpec
                                  then ov10\<lparr>ag_NetworkPolicy := Some net\<rparr> else ov10)
                      in Inr (a11, ov11))))))"

subsection \<open>The features\<close>

definition DefaultDatadogFeatureLogCollection ::
  "DatadogFeatures \<Rightarrow> DatadogFeatures \<times> LogCollectionConfig" where
  "DefaultDatadogFeatureLogCollection ft =
     (case ft_LogCollection ft of
        None \<Rightarrow>
          (let lc = zeroLogCollectionConfig\<lparr>log_Enabled := Some defaultLogEnabled\<rparr>
           in (ft\<lparr>ft_LogCollection := Some lc\<rparr>, lc))
      | Some lc0 \<Rightarrow>
          (let lc1 = (if log_Enabled lc0 = None then lc0\<lparr>log_Enabled := Some defaultLogEnabled\<rparr>
                      else lc0);
               ov1 = zeroLogCollectionConfig\<lparr>log_Enabled := log_Enabled lc1\<rparr>
           in if \<not> BoolValue (log_Enabled lc1)
              then (ft\<lparr>ft_LogCollection := Some lc1\<rparr>, ov1)
              else
               (let (lc2, ov2) =
                      (if log_LogsConfigContainerCollectAll lc1 = None
                       then (lc1\<lparr>log_LogsConfigContainerCollectAll :=
                                   Some defaultLogsConfigContainerCollectAll\<rparr>,
                             ov1\<lparr>log_LogsConfigContainerCollectAll :=
                                   Some defaultLogsConfigContainerCollectAll\<rparr>)
                       else (lc1, ov1));
                    (lc3, ov3) =
                      (if log_ContainerCollectUsingFiles lc2 = None
                       then (lc2\<lparr>log_ContainerCollectUsingFiles :=
                                   Some defaultLogsContainerCollectUsingFiles\<rparr>,
                             ov2\<lparr>log_ContainerCollectUsingFiles :=
                                   Some defaultLogsContainerCollectUsingFiles\<rparr>)
                       else (lc2, ov2));
                    (lc4, ov4) =
                      (if log_ContainerLogsPath lc3 = None
                       then (lc3\<lparr>log_ContainerLogsPath := Some defaultContainerLogsPath\<rparr>,
                             ov3\<lparr>log_ContainerLogsPath := Some defaultContainerLogsPath\<rparr>)
                       else (lc3, ov3));
                    (lc5, ov5) =
                      (if log_PodLogsPath lc4 = None
                       then (lc4\<lparr>log_PodLogsPath := Some defaultPodLogsPath\<rparr>,
                             ov4\<lparr>log_PodLogsPath := Some defaultPodLogsPath\<rparr>)
                       else (lc4, ov4));
                    (lc6, ov6) =
                      (if log_ContainerSymlinksPath lc5 = None
                       then (lc5\<lparr>log_ContainerSymlinksPath := Some defaultContainerSymlinksPath\<rparr>,
                             ov5\<lparr>log_ContainerSymlinksPath := Some defaultContainerSymlinksPath\<rparr>)
                       else (lc5, ov5));
                    (lc7, ov7) =
                      (if log_TempStoragePath lc6 = None
                       then (lc6\<lparr>log_TempStoragePath := Some defaultLogsTempStoragePath\<rparr>,
                             ov6\<lparr>log_TempStoragePath := Some defaultLogsTempStoragePath\<rparr>)
                       else (lc6, ov6));
                    (lc8, ov8) =
                      (if log_OpenFilesLimit lc7 = None
                       then (lc7\<lparr>log_OpenFilesLimit := Some defaultLogsOpenFilesLimit\<rparr>,
                             ov7\<lparr>log_OpenFilesLimit := Some defaultLogsOpenFilesLimit\<rparr>)
                       else (lc7, ov7))
                in (ft\<lparr>ft_LogCollection := Some lc8\<rparr>, ov8))))"

text \<open>Only the \<open>Spec\<close> of a \<open>DatadogAgent\<close> is read or written by the defaulting pass; the
  model passes the spec where the source passes the object.\<close>

definition clusterChecksRunnerEnabled :: "DatadogAgentSpec \<Rightarrow> bool" where
  "clusterChecksRunnerEnabled dda =
     (case clc_Enabled (spec_ClusterChecksRunner dda) of Some b \<Rightarrow> b | None \<Rightarrow> False)"

text \<open>
  \<open>defaultEnabledDatadogFeatureOrchestratorExplorer\<close>. When \<open>Scrubbing\<close> is nil, one new
  struct is stored both in the config and in the override. When \<open>Scrubbing\<close> is present
  with \<open>Containers\<close> nil, the override has no \<open>Scrubbing\<close> and the write
  \<open>explorerConfigOverride.Scrubbing.Containers = ...\<close> goes through a nil pointer.
\<close>

definition defaultEnabledDatadogFeatureOrchestratorExplorer ::
  "OrchestratorExplorerConfig \<Rightarrow> bool
   \<Rightarrow> default_error + (OrchestratorExplorerConfig \<times> OrchestratorExplorerConfig)" where
  "defaultEnabledDatadogFeatureOrchestratorExplorer config withClusterChecksRunner =
     (let ov0 = zeroOrchestratorExplorerConfig;
          (c1, ov1) = (if oe_Enabled config = None
                       then (config\<lparr>oe_Enabled := Some defaultOrchestratorExplorerEnabled\<rparr>,
                             ov0\<lparr>oe_Enabled := Some defaultOrchestratorExplorerEnabled\<rparr>)
                       else (config, ov0))
      in if BoolValue (oe_Enabled c1)
         then
          (let (c2, ov2) = (if oe_ClusterCheck c1 = None
                            then (c1\<lparr>oe_ClusterCheck := Some withClusterChecksRunner\<rparr>,
                                  ov1\<lparr>oe_ClusterCheck := Some withClusterChecksRunner\<rparr>)
                            else (c1, ov1));
               (c3, ov3) = (if oe_Scrubbing c2 = None
                            then (c2\<lparr>oe_Scrubbing := Some zeroScrubbing\<rparr>,
                                  ov2\<lparr>oe_Scrubbing := Some zeroScrubbing\<rparr>)
                            else (c2, ov2))
           in case oe_Scrubbing c3 of
                None \<Rightarrow> Inl NilPointerDereference
              | Some scr \<Rightarrow>
                 (if scr_Containers scr = None
                  then (case oe_Scrubbing ov3 of
                          None \<Rightarrow> Inl NilPointerDereference
                        | Some oscr \<Rightarrow>
                            Inr (c3\<lparr>oe_Scrubbing := Some (scr\<lparr>scr_Containers :=
                                    Some defaultOrchestratorExplorerContainerScrubbingEnabled\<rparr>)\<rparr>,
                                 ov3\<lparr>oe_Scrubbing := Some (oscr\<lparr>scr_Containers :=
                                    Some defaultOrchestratorExplorerContainerScrubbingEnabled\<rparr>)\<rparr>))
                  else Inr (c3, ov3)))
         else Inr (c1, ov1\<lparr>oe_Enabled := Some False\<rparr>))"

definition DefaultDatadogFeatureOrchestratorExplorer ::
  "DatadogFeatures \<Rightarrow> bool \<Rightarrow> default_error + (DatadogFeatures \<times> OrchestratorExplorerConfig)" where
  "DefaultDatadogFeatureOrchestratorExplorer ft withClusterChecksRunner =
     (let config = (case ft_OrchestratorExplorer ft of
                      None \<Rightarrow> zeroOrchestratorExplorerConfig | Some c \<Rightarrow> c)
      in case defaultEnabledDatadogFeatureOrchestratorExplorer config withClusterChecksRunner of
           Inl e \<Rightarrow> Inl e
         | Inr (c, ov) \<Rightarrow> Inr (ft\<lparr>ft_OrchestratorExplorer := Some c\<rparr>, ov))"

definition DefaultDatadogFeatureKubeStateMetricsCore ::
  "DatadogFeatures \<Rightarrow> bool \<Rightarrow> DatadogFeatures \<times> KubeStateMetricsCore" where
  "DefaultDatadogFeatureKubeStateMetricsCore ft withClusterChecksRunner =
     (case ft_KubeStateMetricsCore ft of
        None \<Rightarrow>
          (let ksm = \<lparr>ksm_Enabled = Some defaultKubeStateMetricsCoreEnabled,
                      ksm_ClusterCheck = Some withClusterChecksRunner\<rparr>
           in (ft\<lparr>ft_KubeStateMetricsCore := Some ksm\<rparr>, ksm))
      | Some k0 \<Rightarrow>
          (let k1 = (if ksm_Enabled k0 = None
                     then k0\<lparr>ksm_Enabled := Some defaultKubeStateMetricsCoreEnabled\<rparr> else k0);
               k2 = (if ksm_ClusterCheck k1 = None
                     then k1\<lparr>ksm_ClusterCheck := Some withClusterChecksRunner\<rparr> else k1)
           in (ft\<lparr>ft_KubeStateMetricsCore := Some k2\<rparr>,
               \<lparr>ksm_Enabled = ksm_Enabled k2, ksm_ClusterCheck = ksm_ClusterCheck k2\<rparr>)))"

definition DefaultDatadogFeaturePrometheusScrape ::
  "DatadogFeatures \<Rightarrow> DatadogFeatures \<times> PrometheusScrapeConfig" where
  "DefaultDatadogFeaturePrometheusScrape ft =
     (let p0 = (case ft_PrometheusScrape ft of
                  None \<Rightarrow> zeroPrometheusScrapeConfig\<lparr>prom_Enabled :=
                            Some defaultPrometheusScrapeEnabled\<rparr>
                | Some p \<Rightarrow> p);
          p1 = (if prom_Enabled p0 = None
                then p0\<lparr>prom_Enabled := Some defaultPrometheusScrapeEnabled\<rparr> else p0);
          ov1 = zeroPrometheusScrapeConfig\<lparr>prom_Enabled := prom_Enabled p1\<rparr>
      in if \<not> BoolValue (prom_Enabled p1)
         then (ft\<lparr>ft_PrometheusScrape := Some p1\<rparr>, ov1)
         else
          (let (p2, ov2) =
                 (if prom_ServiceEndpoints p1 = None
                  then (p1\<lparr>prom_ServiceEndpoints := Some defaultPrometheusScrapeServiceEndpoints\<rparr>,
                        ov1\<lparr>prom_ServiceEndpoints := Some defaultPrometheusScrapeServiceEndpoints\<rparr>)
                  else (p1, ov1))
           in (ft\<lparr>ft_PrometheusScrape := Some p2\<rparr>, ov2)))"

definition DefaultDatadogFeatureNetworkMonitoring ::
  "DatadogFeatures \<Rightarrow> DatadogFeatures \<times> NetworkMonitoringConfig" where
  "DefaultDatadogFeatureNetworkMonitoring ft =
     (let n0 = (case ft_NetworkMonitoring ft of
                  None \<Rightarrow> \<lparr>nm_Enabled = Some False\<rparr> | Some n \<Rightarrow> n)
      in if ft_NetworkMonitoring ft = None \<and> \<not> BoolValue (nm_Enabled n0)
         then (ft\<lparr>ft_NetworkMonitoring := Some n0\<rparr>, n0)
         else
          (let n1 = (if nm_Enabled n0 = None then n0\<lparr>nm_Enabled := Some False\<rparr> else n0)
           in (ft\<lparr>ft_NetworkMonitoring := Some n1\<rparr>, \<lparr>nm_Enabled = nm_Enabled n1\<rparr>)))"

definition DefaultFeatures ::
  "DatadogAgentSpec \<Rightarrow> default_error + (DatadogAgentSpec \<times> DatadogFeatures)" where
  "DefaultFeatures dda =
     (let ft0 = spec_Features dda;
          ov0 = zeroDatadogFeatures;
          clusterCheckEnabled = clusterChecksRunnerEnabled dda
      in case DefaultDatadogFeatureOrchestratorExplorer ft0 clusterCheckEnabled of
           Inl e \<Rightarrow> Inl e
         | Inr (ft1, orch) \<Rightarrow>
          (let ov1 = (if orch \<noteq> zeroOrchestratorExplorerConfig
                      then ov0\<lparr>ft_OrchestratorExplorer := Some orch\<rparr> else ov0);
               (ft2, ksm) = DefaultDatadogFeatureKubeStateMetricsCore ft1 clusterCheckEnabled;
               ov2 = (if ksm \<noteq> zeroKubeStateMetricsCore
                      then ov1\<lparr>ft_KubeStateMetricsCore := Some ksm\<rparr> else ov1);
               (ft3, promScrape) = DefaultDatadogFeaturePrometheusScrape ft2;
               ov3 = (if promScrape \<noteq> zeroPrometheusScrapeConfig
                      then ov2\<lparr>ft_PrometheusScrape := Some promScrape\<rparr> else ov2);
               (ft4, logColl) = DefaultDatadogFeatureLogCollection ft3;
               ov4 = (if logColl \<noteq> zeroLogCollectionConfig
                      then ov3\<lparr>ft_LogCollection := Some logColl\<rparr> else ov3);
               (ft5, net) = DefaultDatadogFeatureNetworkMonitoring ft4;
               ov5 = (if net \<noteq> zeroNetworkMonitoringConfig
                      then ov4\<lparr>ft_NetworkMonitoring := Some net\<rparr> else ov4)
           in Inr (dda\<lparr>spec_Features := ft5\<rparr>, ov5)))"

subsection \<open>The cluster agent\<close>

definition DefaultExternalMetrics ::
  "FeaturesConfigClusterAgent \<Rightarrow> FeaturesConfigClusterAgent \<times> ExternalMetricsConfig" where
  "DefaultExternalMetrics conf =
     (let em0 = (case fca_ExternalMetrics conf of
                   None \<Rightarrow> \<lparr>em_Enabled = Some defaultExternalMetricsEnabled, em_Port = None\<rparr>
                 | Some e \<Rightarrow> e)
      in if fca_ExternalMetrics conf = None \<and> \<not> BoolValue (em_Enabled em0)
         then (conf\<lparr>fca_ExternalMetrics := Some em0\<rparr>, em0)
         else
          (let ov0 = zeroExternalMetricsConfig;
               (em1, ov1) = (if em_Enabled em0 = None
                             then (em0\<lparr>em_Enabled := Some True\<rparr>, ov0\<lparr>em_Enabled := Some True\<rparr>)
                             else (em0, ov0));
               (em2, ov2) = (if em_Port em1 = None \<and> BoolValue (em_Enabled em1)
                             then (em1\<lparr>em_Port := Some defaultMetricsProviderPort\<rparr>,
                                   ov1\<lparr>em_Port := Some defaultMetricsProviderPort\<rparr>)
                             else (em1, ov1))
           in (conf\<lparr>fca_ExternalMetrics := Some em2\<rparr>, ov2)))"

definition DefaultAdmissionController ::
  "FeaturesConfigClusterAgent \<Rightarrow> FeaturesConfigClusterAgent \<times> AdmissionControllerConfig" where
  "DefaultAdmissionController conf =
     (let ac0 = (case fca_AdmissionController conf of
                   None \<Rightarrow> zeroAdmissionControllerConfig\<lparr>ac_Enabled :=
                             Some defaultAdmissionControllerEnabled\<rparr>
                 | Some a \<Rightarrow> a)
      in if fca_AdmissionController conf = None \<and> \<not> BoolValue (ac_Enabled ac0)
         then (conf\<lparr>fca_AdmissionController := Some ac0\<rparr>, ac0)
         else
          (let ov0 = zeroAdmissionControllerConfig;
               (ac1, ov1) = (if ac_Enabled ac0 = None
                             then (ac0\<lparr>ac_Enabled := Some defaultAdmissionControllerEnabled\<rparr>,
                                   ov0\<lparr>ac_Enabled := Some defaultAdmissionControllerEnabled\<rparr>)
                             else (ac0, ov0));
               (ac2, ov2) = (if ac_MutateUnlabelled ac1 = None
                             then (ac1\<lparr>ac_MutateUnlabelled := Some defaultMutateUnlabelled\<rparr>,
                                   ov1\<lparr>ac_MutateUnlabelled := Some defaultMutateUnlabelled\<rparr>)
                             else (ac1, ov1));
               (ac3, ov3) = (if ac_ServiceName ac2 = None
                             then (ac2\<lparr>ac_ServiceName := Some DefaultAdmissionServiceName\<rparr>,
                                   ov2\<lparr>ac_ServiceName := Some DefaultAdmissionServiceName\<rparr>)
                             else (ac2, ov2))
           in (conf\<lparr>fca_AdmissionController := Some ac3\<rparr>, ov3)))"

text \<open>
  \<open>DefaultDatadogAgentSpecClusterAgentConfig\<close>. The source tests \<open>dca.CustomConfig\<close>
  for nil before it replaces \<open>dca.Config\<close> by an empty struct (line 982), and then
  enters \<open>dca.Config\<close>: with a custom config and no config this is a nil pointer. The
  source passes \<open>dca.Config.Features\<close> to functions that take a pointer and also writes
  \<open>configOverride.Features\<close> fields of a fresh struct; \<open>Features\<close> is held by value
  and passed by address.
\<close>

definition DefaultDatadogAgentSpecClusterAgentConfig ::
  "DatadogAgentSpecClusterAgentSpec
   \<Rightarrow> default_error + (DatadogAgentSpecClusterAgentSpec \<times> ClusterAgentConfig)" where
  "DefaultDatadogAgentSpecClusterAgentConfig dca =
     (let ov0 = zeroClusterAgentConfig;
          dca1 = (if ca_CustomConfig dca = None then dca\<lparr>ca_Config := Some zeroClusterAgentConfig\<rparr>
                  else dca)
      in case ca_Config dca1 of
           None \<Rightarrow> Inl NilPointerDereference
         | Some c0 \<Rightarrow>
          (let (c1, ov1) =
                 (if cc_LogLevel (cac_ContainerConfig c0) = None
                  then (c0\<lparr>cac_ContainerConfig := (cac_ContainerConfig c0)
                             \<lparr>cc_LogLevel := Some defaultLogLevel\<rparr>\<rparr>,
                        ov0\<lparr>cac_ContainerConfig := (cac_ContainerConfig ov0)
                             \<lparr>cc_LogLevel := Some defaultLogLevel\<rparr>\<rparr>)
                  else (c0, ov0));
               (f2, extMetricsOverride) = DefaultExternalMetrics (cac_Features c1);
               c2 = c1\<lparr>cac_Features := f2\<rparr>;
               ov2 = (if extMetricsOverride \<noteq> zeroExternalMetricsConfig
                      then ov1\<lparr>cac_Features := (cac_Features ov1)
                             \<lparr>fca_ExternalMetrics := Some extMetricsOverride\<rparr>\<rparr>
                      else ov1);
               (c3, ov3) =
                 (if fca_ClusterChecksEnabled (cac_Features c2) = None
                  then (c2\<lparr>cac_Features := (cac_Features c2)
                             \<lparr>fca_ClusterChecksEnabled := Some defaultClusterChecksEnabled\<rparr>\<rparr>,
                        ov2\<lparr>cac_Features := (cac_Features ov2)
                             \<lparr>fca_ClusterChecksEnabled := Some defaultClusterChecksEnabled\<rparr>\<rparr>)
                  else (c2, ov2));
               (c4, ov4) =
                 (if fca_CollectEvents (cac_Features c3) = None
                  then (c3\<lparr>cac_Features := (cac_Features c3)
                             \<lparr>fca_CollectEvents := Some defaultCollectEvents\<rparr>\<rparr>,
                        ov3\<lparr>cac_Features := (cac_Features ov3)
                             \<lparr>fca_CollectEvents := Some defaultCollectEvents\<rparr>\<rparr>)
                  else (c3, ov3));
               (f5, admCtrlOverride) = DefaultAdmissionController (cac_Features c4);
               c5 = c4\<lparr>cac_Features := f5\<rparr>;
               ov5 = (if admCtrlOverride \<noteq> zeroAdmissionControllerConfig
                      then ov4\<lparr>cac_Features := (cac_Features ov4)
                             \<lparr>fca_AdmissionController := Some admCtrlOverride\<rparr>\<rparr>
                      else ov4);
               c6 = (if cc_Resources (cac_ContainerConfig c5) = None
                     then c5\<lparr>cac_ContainerConfig := (cac_ContainerConfig c5)
                            \<lparr>cc_Resources := Some zeroResourceRequirements\<rparr>\<rparr>
                     else c5);
               (c7, ov7) =
                 (if cc_HealthPort (cac_ContainerConfig c6) = None
                  then (c6\<lparr>cac_ContainerConfig := (cac_ContainerConfig c6)
                             \<lparr>cc_HealthPort := Some defaultAgentHealthPort\<rparr>\<rparr>,
                        ov5\<lparr>cac_ContainerConfig := (cac_ContainerConfig ov5)
                             \<lparr>cc_HealthPort := Some defaultAgentHealthPort\<rparr>\<rparr>)
                  else (c6, ov5))
           in Inr (dca1\<lparr>ca_Config := Some c7\<rparr>, ov7)))"

definition DefaultDatadogClusterAgentImage ::
  "DatadogAgentSpecClusterAgentSpec \<Rightarrow> string \<Rightarrow> string
   \<Rightarrow> DatadogAgentSpecClusterAgentSpec \<times> ImageConfig" where
  "DefaultDatadogClusterAgentImage dca name tag =
     (let img0 = (case ca_Image dca of None \<Rightarrow> zeroImageConfig | Some i \<Rightarrow> i);
          ov0 = zeroImageConfig;
          (img1, ov1) = (if img_Name img0 = []
                         then (img0\<lparr>img_Name := name\<rparr>, ov0\<lparr>img_Name := name\<rparr>)
                         else (img0, ov0));
          (img2, ov2) = (if img_Tag img1 = []
                         then (img1\<lparr>img_Tag := tag\<rparr>, ov1\<lparr>img_Tag := tag\<rparr>)
                         else (img1, ov1));
          (img3, ov3) = (if img_PullPolicy img2 = None
                         then (img2\<lparr>img_PullPolicy := Some defaultImagePullPolicy\<rparr>,
                               ov2\<lparr>img_PullPolicy := Some defaultImagePullPolicy\<rparr>)
                         else (img2, ov2));
          img4 = (if img_PullSecrets img3 = None then img3\<lparr>img_PullSecrets := Some []\<rparr>
                  else img3)
      in (dca\<lparr>ca_Image := Some img4\<rparr>, ov3))"

definition DefaultDatadogClusterAgentSpecRbacConfig ::
  "DatadogAgentSpecClusterAgentSpec \<Rightarrow> DatadogAgentSpecClusterAgentSpec \<times> RbacConfig" where
  "DefaultDatadogClusterAgentSpecRbacConfig dca =
     (let r0 = (case ca_Rbac dca of None \<Rightarrow> Some zeroRbacConfig | Some r \<Rightarrow> Some r);
          (r1, ov) = DefaultRbacConfig r0
      in (dca\<lparr>ca_Rbac := r1\<rparr>, ov))"

definition DefaultClusterAgentNetworkPolicy ::
  "DatadogAgentSpecClusterAgentSpec \<Rightarrow> DatadogAgentSpecClusterAgentSpec \<times> NetworkPolicySpec" where
  "DefaultClusterAgentNetworkPolicy dca =
     (let p0 = (case ca_NetworkPolicy dca of
                  None \<Rightarrow> Some zeroNetworkPolicySpec | Some p \<Rightarrow> Some p);
          (p1, ov) = DefaultNetworkPolicy p0
      in (dca\<lparr>ca_NetworkPolicy := p1\<rparr>, ov))"

definition DefaultDatadogAgentSpecClusterAgent ::
  "DatadogAgentSpecClusterAgentSpec
   \<Rightarrow> default_error + (DatadogAgentSpecClusterAgentSpec \<times> DatadogAgentSpecClusterAgentSpec)" where
  "DefaultDatadogAgentSpecClusterAgent clusterAgent =
     (let a0 = (if clusterAgent = zeroDatadogAgentSpecClusterAgentSpec
                then clusterAgent\<lparr>ca_Enabled := Some defaultClusterAgentEnabled\<rparr>
                else clusterAgent)
      in if clusterAgent = zeroDatadogAgentSpecClusterAgentSpec \<and> \<not> BoolValue (ca_Enabled a0)
         then Inr (a0, a0)
         else
          (let ov0 = zeroDatadogAgentSpecClusterAgentSpec;
               (a1, ov1) = (if ca_Enabled a0 = None
                            then (a0\<lparr>ca_Enabled := Some defaultClusterAgentEnabled\<rparr>,
                                  ov0\<lparr>ca_Enabled := Some defaultClusterAgentEnabled\<rparr>)
                            else (a0, ov0))
           in if \<not> BoolValue (ca_Enabled a1) then Inr (a1, ov1)
              else
               (let a2 = (if ca_Image a1 = None then a1\<lparr>ca_Image := Some zeroImageConfig\<rparr>
                          else a1);
                    (a3, img) = DefaultDatadogClusterAgentImage a2
                                  defaultClusterAgentImageName defaultClusterAgentImageTag;
                    ov3 = (if img \<noteq> zeroImageConfig then ov1\<lparr>ca_Image := Some img\<rparr> else ov1)
                in case DefaultDatadogAgentSpecClusterAgentConfig a3 of
                     Inl e \<Rightarrow> Inl e
                   | Inr (a4, cfg) \<Rightarrow>
                  (let ov4 = (if cfg \<noteq> zeroClusterAgentConfig then ov3\<lparr>ca_Config := Some cfg\<rparr>
                              else ov3);
                       (a5, rbac) = DefaultDatadogClusterAgentSpecRbacConfig a4;
                       ov5 = (if rbac \<noteq> zeroRbacConfig then ov4\<lparr>ca_Rbac := Some rbac\<rparr> else ov4);
                       (a6, net) = DefaultClusterAgentNetworkPolicy a5;
                       ov6 = (if net \<noteq> zeroNetworkPolicySpec
                              then ov5\<lparr>ca_NetworkPolicy := Some net\<rparr> else ov5)
                   in Inr (a6, ov6)))))"

subsection \<open>The cluster-checks runner\<close>

definition DefaultDatadogAgentSpecClusterChecksRunnerImage ::
  "DatadogAgentSpecClusterChecksRunnerSpec \<Rightarrow> string \<Rightarrow> string
   \<Rightarrow> DatadogAgentSpecClusterChecksRunnerSpec \<times> ImageConfig" where
  "DefaultDatadogAgentSpecClusterChecksRunnerImage clc name tag =
     (let img0 = (case clc_Image clc of None \<Rightarrow> zeroImageConfig | Some i \<Rightarrow> i);
          ov0 = zeroImageConfig;
          (img1, ov1) = (if img_Name img0 = []
                         then (img0\<lparr>img_Name := name\<rparr>, ov0\<lparr>img_Name := name\<rparr>)
                         else (img0, ov0));
          (img2, ov2) = (if img_Tag img1 = []
                         then (img1\<lparr>img_Tag := tag\<rparr>, ov1\<lparr>img_Tag := tag\<rparr>)
                         else (img1, ov1));
          (img3, ov3) = (if img_PullPolicy img2 = None
                         then (img2\<lparr>img_PullPolicy := Some defaultImagePullPolicy\<rparr>,
                               ov2\<lparr>img_PullPolicy := Some defaultImagePullPolicy\<rparr>)
                         else (img2, ov2));
          img4 = (if img_PullSecrets img3 = None then img3\<lparr>img_PullSecrets := Some []\<rparr>
                  else img3)
      in (clc\<lparr>clc_Image := Some img4\<rparr>, ov3))"

definition DefaultDatadogAgentSpecClusterChecksRunnerConfig ::
  "DatadogAgentSpecClusterChecksRunnerSpec
   \<Rightarrow> DatadogAgentSpecClusterChecksRunnerSpec \<times> DatadogAgentGenericContainerConfig" where
  "DefaultDatadogAgentSpecClusterChecksRunnerConfig clc =
     (let ov0 = zeroDatadogAgentGenericContainerConfig;
          c0 = (case clc_ContainerConfig clc of
                  None \<Rightarrow> zeroDatadogAgentGenericContainerConfig | Some c \<Rightarrow> c);
          (c1, ov1) = (if cc_LogLevel c0 = None
                       then (c0\<lparr>cc_LogLevel := Some defaultLogLevel\<rparr>,
                             ov0\<lparr>cc_LogLevel := Some defaultLogLevel\<rparr>)
                       else (c0, ov0));
          (c2, ov2) = (if cc_LivenessProbe c1 = None
                       then (c1\<lparr>cc_LivenessProbe := Some GetDefaultLivenessProbe\<rparr>,
                             ov1\<lparr>cc_LivenessProbe := Some GetDefaultLivenessProbe\<rparr>)
                       else (c1, ov1));
          (c3, ov3) = (if cc_ReadinessProbe c2 = None
                       then (c2\<lparr>cc_ReadinessProbe := Some GetDefaultReadinessProbe\<rparr>,
                             ov2\<lparr>cc_ReadinessProbe := Some GetDefaultReadinessProbe\<rparr>)
                       else (c2, ov2));
          (c4, ov4) = (if cc_HealthPort c3 = None
                       then (c3\<lparr>cc_HealthPort := Some defaultAgentHealthPort\<rparr>,
                             ov3\<lparr>cc_HealthPort := Some defaultAgentHealthPort\<rparr>)
                       else (c3, ov3));
          c5 = (if cc_Resources c4 = None then c4\<lparr>cc_Resources := Some zeroResourceRequirements\<rparr>
                else c4)
      in (clc\<lparr>clc_ContainerConfig := Some c5\<rparr>, ov4))"

definition DefaultDatadogClusterCheckRunnerSpecRbacConfig ::
  "DatadogAgentSpecClusterChecksRunnerSpec
   \<Rightarrow> DatadogAgentSpecClusterChecksRunnerSpec \<times> RbacConfig" where
  "DefaultDatadogClusterCheckRunnerSpecRbacConfig clc =
     (let r0 = (case clc_Rbac clc of None \<Rightarrow> Some zeroRbacConfig | Some r \<Rightarrow> Some r);
          (r1, ov) = DefaultRbacConfig r0
      in (clc\<lparr>clc_Rbac := r1\<rparr>, ov))"

definition DefaultClusterCheckRunnerNetworkPolicy ::
  "DatadogAgentSpecClusterChecksRunnerSpec
   \<Rightarrow> DatadogAgentSpecClusterChecksRunnerSpec \<times> NetworkPolicySpec" where
  "DefaultClusterCheckRunnerNetworkPolicy clc =
     (let p0 = (case clc_NetworkPolicy clc of
                  None \<Rightarrow> Some zeroNetworkPolicySpec | Some p \<Rightarrow> Some p);
          (p1, ov) = DefaultNetworkPolicy p0
      in (clc\<lparr>clc_NetworkPolicy := p1\<rparr>, ov))"

definition DefaultDatadogAgentSpecClusterChecksRunner ::
  "DatadogAgentSpecClusterChecksRunnerSpec
   \<Rightarrow> DatadogAgentSpecClusterChecksRunnerSpec \<times> DatadogAgentSpecClusterChecksRunnerSpec" where
  "DefaultDatadogAgentSpecClusterChecksRunner clusterChecksRunner =
     (let c0 = (if clusterChecksRunner = zeroDatadogAgentSpecClusterChecksRunnerSpec
                then clusterChecksRunner\<lparr>clc_Enabled := Some defaultClusterChecksRunnerEnabled\<rparr>
                else clusterChecksRunner)
      in if clusterChecksRunner = zeroDatadogAgentSpecClusterChecksRunnerSpec
            \<and> \<not> BoolValue (clc_Enabled c0)
         then (c0, c0)
         else
          (let ov0 = zeroDatadogAgentSpecClusterChecksRunnerSpec;
               (c1, ov1) = (if clc_Enabled c0 = None
                            then (c0\<lparr>clc_Enabled := Some True\<rparr>, ov0\<lparr>clc_Enabled := Some True\<rparr>)
                            else (c0, ov0));
               (c2, img) = DefaultDatadogAgentSpecClusterChecksRunnerImage c1
                             defaultAgentImageName defaultAgentImageTag;
               ov2 = (if img \<noteq> zeroImageConfig then ov1\<lparr>clc_Image := Some img\<rparr> else ov1);
               (c3, cfg) = DefaultDatadogAgentSpecClusterChecksRunnerConfig c2;
               ov3 = (if cfg \<noteq> zeroDatadogAgentGenericContainerConfig
                      then ov2\<lparr>clc_ContainerConfig := Some cfg\<rparr> else ov2);
               (c4, rbac) = DefaultDatadogClusterCheckRunnerSpecRbacConfig c3;
               ov4 = (if rbac \<noteq> zeroRbacConfig then ov3\<lparr>clc_Rbac := Some rbac\<rparr> else ov3);
               (c5, net) = DefaultClusterCheckRunnerNetworkPolicy c4;
               ov5 = (if net \<noteq> zeroNetworkPolicySpec
                      then ov4\<lparr>clc_NetworkPolicy := Some net\<rparr> else ov4)
           in (c5, ov5)))"

subsection \<open>The whole pass\<close>

text \<open>
  \<open>FeatureOverride\<close>. Under each feature test, the source enters
  \<open>dda.Agent.SystemProbe\<close> (respectively \<open>dda.Agent.Process\<close>) when the agent is not
  enabled or the subtree is present: with the agent not enabled and the subtree absent,
  the write goes through a nil pointer.
\<close>

definition FeatureOverride ::
  "DatadogAgentSpec \<Rightarrow> DatadogAgentSpec
   \<Rightarrow> default_error + (DatadogAgentSpec \<times> DatadogAgentSpec)" where
  "FeatureOverride dda dso =
     (let r1 =
        (if (case ft_NetworkMonitoring (spec_Features dda) of
               None \<Rightarrow> False | Some nm \<Rightarrow> BoolValue (nm_Enabled nm))
         then
           (if \<not> BoolValue (ag_Enabled (spec_Agent dda)) \<or> ag_SystemProbe (spec_Agent dda) \<noteq> None
            then (case ag_SystemProbe (spec_Agent dda) of
                    None \<Rightarrow> Inl NilPointerDereference
                  | Some sp \<Rightarrow>
                     (let agent1 = (spec_Agent dda)\<lparr>ag_SystemProbe :=
                                      Some (sp\<lparr>sp_Enabled := Some True\<rparr>)\<rparr>;
                          (agent2, sysOverride) = DefaultDatadogAgentSpecAgentSystemProbe agent1
                      in Inr (dda\<lparr>spec_Agent := agent2\<rparr>,
                              dso\<lparr>spec_Agent := (spec_Agent dso)\<lparr>ag_SystemProbe :=
                                     Some (sysOverride\<lparr>sp_Enabled := Some True\<rparr>)\<rparr>\<rparr>)))
            else Inr (dda, dso))
         else Inr (dda, dso))
      in case r1 of
           Inl e \<Rightarrow> Inl e
         | Inr (dda1, dso1) \<Rightarrow>
            (if (case ft_OrchestratorExplorer (spec_Features dda1) of
                   None \<Rightarrow> False | Some oe \<Rightarrow> BoolValue (oe_Enabled oe))
             then
               (if \<not> BoolValue (ag_Enabled (spec_Agent dda1)) \<or> ag_Process (spec_Agent dda1) \<noteq> None
                then (case ag_Process (spec_Agent dda1) of
                        None \<Rightarrow> Inl NilPointerDereference
                      | Some p \<Rightarrow>
                         (let agent1 = (spec_Agent dda1)\<lparr>ag_Process :=
                                          Some (p\<lparr>proc_Enabled := Some True\<rparr>)\<rparr>;
                              (agent2, procOverride) = DefaultDatadogAgentSpecAgentProcess agent1
                          in Inr (dda1\<lparr>spec_Agent := agent2\<rparr>,
                                  dso1\<lparr>spec_Agent := (spec_Agent dso1)\<lparr>ag_Process :=
                                         Some (procOverride\<lparr>proc_Enabled := Some True\<rparr>)\<rparr>\<rparr>)))
                else Inr (dda1, dso1))
             else Inr (dda1, dso1)))"

text \<open>
  \<open>DefaultDatadogAgent\<close> returns the spec after the pass and the \<open>DefaultOverride\<close> of
  the status it returns. Each of the four assignments \<open>dso.DefaultOverride.X = ...\<close>
  replaces the whole subtree \<open>X\<close> of the override, also what \<open>FeatureOverride\<close> had
  written under \<open>Agent\<close>.
\<close>

definition DefaultDatadogAgent ::
  "Collaborators \<Rightarrow> DatadogAgentSpec \<Rightarrow> default_error + (DatadogAgentSpec \<times> DatadogAgentSpec)" where
  "DefaultDatadogAgent ext dda =
     (case FeatureOverride dda zeroDatadogAgentSpec of
        Inl e \<Rightarrow> Inl e
      | Inr (dda1, dso1) \<Rightarrow>
     (case DefaultFeatures dda1 of
        Inl e \<Rightarrow> Inl e
      | Inr (dda2, ft) \<Rightarrow>
     (case DefaultDatadogAgentSpecClusterAgent (spec_ClusterAgent dda2) of
        Inl e \<Rightarrow> Inl e
      | Inr (ca, caOverride) \<Rightarrow>
     (case DefaultDatadogAgentSpecAgent ext (spec_Agent dda2) of
        Inl e \<Rightarrow> Inl e
      | Inr (ag, agOverride) \<Rightarrow>
         (let (clc, clcOverride) =
                DefaultDatadogAgentSpecClusterChecksRunner (spec_ClusterChecksRunner dda2);
              dda5 = dda2\<lparr>spec_ClusterAgent := ca, spec_Agent := ag,
                          spec_ClusterChecksRunner := clc\<rparr>;
              dso5 = dso1\<lparr>spec_Features := ft, spec_ClusterAgent := caOverride,
                          spec_Agent := agOverride, spec_ClusterChecksRunner := clcOverride\<rparr>;
              cred0 = (case spec_Credentials dda5 of
                         None \<Rightarrow> zeroAgentCredentials | Some c \<Rightarrow> c)
          in if cred_UseSecretBackend cred0 = None
             then Inr (dda5\<lparr>spec_Credentials :=
                              Some (cred0\<lparr>cred_UseSecretBackend := Some False\<rparr>)\<rparr>,
                       dso5\<lparr>spec_Credentials :=
                              Some (zeroAgentCredentials\<lparr>cred_UseSecretBackend := Some False\<rparr>)\<rparr>)
             else Inr (dda5\<lparr>spec_Credentials := Some cred0\<rparr>, dso5))))))"

subsection \<open>The recurring defaulting block\<close>

text \<open>
  Most blocks of the source have one of two shapes. Either the unset field is assigned
  in the spec and the assigned value is stored in the override,
  \<^verbatim>\<open>if x.F == nil { x.F = d; override.F = x.F }\<close>, or the field is assigned in the spec only,
  \<^verbatim>\<open>if x.F == nil { x.F = d }\<close>. The two combinators below name these shapes; the
  functions of the model spell every block out, and each has its chain of blocks restated
  with the combinators as a lemma (\<open>..._steps\<close>).
\<close>

definition defaultAndRecord :: "('s \<Rightarrow> bool) \<Rightarrow> ('s \<Rightarrow> 's) \<Rightarrow> 's \<times> 's \<Rightarrow> 's \<times> 's" where
  "defaultAndRecord unset assign p =
     (if unset (fst p) then (assign (fst p), assign (snd p)) else p)"

definition defaultOnly :: "('s \<Rightarrow> bool) \<Rightarrow> ('s \<Rightarrow> 's) \<Rightarrow> 's \<Rightarrow> 's" where
  "defaultOnly unset assign s = (if unset s then assign s else s)"

subsection \<open>Inputs used to run the model\<close>

text \<open>A spec in which only network monitoring is requested, and one in which only the
  orchestrator explorer is requested.\<close>

definition networkMonitoringOnly :: DatadogAgentSpec where
  "networkMonitoringOnly =
     zeroDatadogAgentSpec\<lparr>spec_Features :=
       zeroDatadogFeatures\<lparr>ft_NetworkMonitoring := Some \<lparr>nm_Enabled = Some True\<rparr>\<rparr>\<rparr>"

definition orchestratorExplorerOnly :: DatadogAgentSpec where
  "orchestratorExplorerOnly =
     zeroDatadogAgentSpec\<lparr>spec_Features :=
       zeroDatadogFeatures\<lparr>ft_OrchestratorExplorer :=
         Some (zeroOrchestratorExplorerConfig\<lparr>oe_Enabled := Some True\<rparr>)\<rparr>\<rparr>"

text \<open>The same request for network monitoring, with the node agent explicitly enabled.\<close>

definition networkMonitoringAgentEnabled :: DatadogAgentSpec where
  "networkMonitoringAgentEnabled =
     networkMonitoringOnly\<lparr>spec_Agent :=
       zeroDatadogAgentSpecAgentSpec\<lparr>ag_Enabled := Some True\<rparr>\<rparr>"

subsection \<open>The version gate of the CRI socket default\<close>

text \<open>The tag that \<open>DefaultDatadogAgentSpecAgentConfig\<close> compares (its local \<open>agentTag\<close>)
  and the condition under which it leaves the CRI socket alone.\<close>

definition agentTag :: "Collaborators \<Rightarrow> ImageConfig \<Rightarrow> string" where
  "agentTag ext img = TrimSuffix (GetTagFromImageName ext (img_Name img)) ''-jmx''"

definition socketDefaultSkipped :: "Collaborators \<Rightarrow> string \<Rightarrow> bool" where
  "socketDefaultSkipped ext tag =
     (tag = ''latest'' \<or> IsAboveMinVersion ext tag ''7.27.0-0''
      \<or> IsAboveMinVersion ext tag ''6.27.0-0'')"

text \<open>The CRI socket and the Docker socket path of a node agent spec, \<open>None\<close> when a
  pointer on the way is nil.\<close>

definition criSocketOf :: "DatadogAgentSpecAgentSpec \<Rightarrow> CRISocketConfig option" where
  "criSocketOf agents = (case ag_NodeAgent agents of None \<Rightarrow> None | Some na \<Rightarrow> na_CriSocket na)"

definition dockerSocketPathOf :: "DatadogAgentSpecAgentSpec \<Rightarrow> string option" where
  "dockerSocketPathOf agents =
     (case criSocketOf agents of None \<Rightarrow> None | Some sock \<Rightarrow> cri_DockerSocketPath sock)"

text \<open>
  Modelled from the spec: \<open>IsAboveMinVersion(tag, minTag) -> bool\<close>, the version
  comparison of section 6, which is outside the sources at hand. Sections 4.1 and 7 say
  that a tag at or above the minimum is above it and that a tag that fails to parse is
  treated as below the minimum. The specification gives neither the syntax of versions
  nor their order: the parser, into any linear order, is a parameter.
\<close>

definition IsAboveMinVersionSpec ::
  "(string \<Rightarrow> ('v::linorder) option) \<Rightarrow> string \<Rightarrow> string \<Rightarrow> bool" where
  "IsAboveMinVersionSpec parse tag minTag =
     (case parse tag of
        None \<Rightarrow> False
      | Some v \<Rightarrow> (case parse minTag of None \<Rightarrow> False | Some m \<Rightarrow> m \<le> v))"

text \<open>
  Collaborators used to run the model: versions are read from a table, major, minor and
  patch number compared in this order; the tag of an image name is what follows its
  colon, "latest" when it has none; the default canary strategy is an empty one.
\<close>

definition exampleParse :: "string \<Rightarrow> nat list option" where
  "exampleParse = map_of
     [(''7.27.0-0'', [7, 27, 0]), (''6.27.0-0'', [6, 27, 0]),
      (''7.28.0'', [7, 28, 0]), (''7.26.0'', [7, 26, 0]), (''6.20.0'', [6, 20, 0])]"

definition exampleGetTag :: "string \<Rightarrow> string" where
  "exampleGetTag imageName =
     (if CHR '':'' \<in> set imageName then tl (dropWhile (\<lambda>c. c \<noteq> CHR '':'') imageName)
      else ''latest'')"

definition exampleCollaborators :: Collaborators where
  "exampleCollaborators =
     \<lparr>GetTagFromImageName = exampleGetTag,
      IsAboveMinVersion = IsAboveMinVersionSpec exampleParse,
      DefaultExtendedDaemonSetSpecStrategyCanary = CanaryStrategy []\<rparr>"

text \<open>A node agent spec whose image is given by its full name.\<close>

definition agentWithImage :: "string \<Rightarrow> DatadogAgentSpecAgentSpec" where
  "agentWithImage name =
     zeroDatadogAgentSpecAgentSpec\<lparr>ag_Enabled := Some True,
       ag_Image := Some (zeroImageConfig\<lparr>img_Name := name\<rparr>)\<rparr>"

subsection \<open>What a second run of the feature defaulting reports\<close>

text \<open>
  The override that \<open>DefaultFeatures\<close> returns on a features subtree that it has
  defaulted already: each feature function reports the \<open>Enabled\<close> flag again (the
  orchestrator explorer only when it is disabled; the kube-state-metrics core with its
  \<open>ClusterCheck\<close> flag).
\<close>

definition repeatedFlags :: "DatadogFeatures \<Rightarrow> DatadogFeatures" where
  "repeatedFlags ft =
     \<lparr>ft_OrchestratorExplorer =
        (case ft_OrchestratorExplorer ft of
           None \<Rightarrow> None
         | Some oe \<Rightarrow> if BoolValue (oe_Enabled oe) then None
                      else Some (zeroOrchestratorExplorerConfig\<lparr>oe_Enabled := Some False\<rparr>)),
      ft_KubeStateMetricsCore =
        (case ft_KubeStateMetricsCore ft of
           None \<Rightarrow> None
         | Some k \<Rightarrow> Some \<lparr>ksm_Enabled = ksm_Enabled k, ksm_ClusterCheck = ksm_ClusterCheck k\<rparr>),
      ft_PrometheusScrape =
        (case ft_PrometheusScrape ft of
           None \<Rightarrow> None
         | Some p \<Rightarrow> Some (zeroPrometheusScrapeConfig\<lparr>prom_Enabled := prom_Enabled p\<rparr>)),
      ft_LogCollection =
        (case ft_LogCollection ft of
           None \<Rightarrow> None
         | Some l \<Rightarrow> Some (zeroLogCollectionConfig\<lparr>log_Enabled := log_Enabled l\<rparr>)),
      ft_NetworkMonitoring =
        (case ft_NetworkMonitoring ft of
           None \<Rightarrow> None
         | Some n \<Rightarrow> Some \<lparr>nm_Enabled = nm_Enabled n\<rparr>)\<rparr>"

text \<open>The spec that one run of the pass leaves of the empty spec, with the collaborators
  above (the image name "agent" has no tag of its own, so the tag compared is "latest").\<close>

definition defaultedEmptySpec :: DatadogAgentSpec where
  "defaultedEmptySpec =
     \<lparr>spec_Credentials =
          Some \<lparr>cred_UseSecretBackend = Some False, cred_OtherFields = []\<rparr>,
          spec_Features =
            \<lparr>ft_OrchestratorExplorer =
               Some
                \<lparr>oe_Enabled = Some True, oe_ClusterCheck = Some False,
                   oe_Scrubbing = Some \<lparr>scr_Containers = Some True\<rparr>\<rparr>,
               ft_KubeStateMetricsCore =
                 Some
                  \<lparr>ksm_Enabled = Some False, ksm_ClusterCheck = Some False\<rparr>,
               ft_PrometheusScrape =
                 Some
                  \<lparr>prom_Enabled = Some False, prom_ServiceEndpoints = None\<rparr>,
               ft_LogCollection =
                 Some
                  \<lparr>log_Enabled = Some False,
                     log_LogsConfigContainerCollectAll = None,
                     log_ContainerCollectUsingFiles = None,
                     log_ContainerLogsPath = None, log_PodLogsPath = None,
                     log_ContainerSymlinksPath = None,
                     log_TempStoragePath = None, log_OpenFilesLimit = None\<rparr>,
               ft_NetworkMonitoring = Some \<lparr>nm_Enabled = Some False\<rparr>\<rparr>,
          spec_Agent =
            \<lparr>ag_Enabled = Some True, ag_UseExtendedDaemonset = Some False,
               ag_Image =
                 Some
                  \<lparr>img_Name = ''agent'', img_Tag = ''7.28.0'',
                     img_PullPolicy = Some ''IfNotPresent'',
                     img_PullSecrets = Some []\<rparr>,
               ag_NodeAgent =
                 Some
                  \<lparr>na_ContainerConfig =
                     \<lparr>cc_LogLevel = Some ''INFO'',
                        cc_LivenessProbe =
                          Some
                           \<lparr>probe_InitialDelaySeconds = 15,
                              probe_PeriodSeconds = 15,
                              probe_TimeoutSeconds = 5,
                              probe_SuccessThreshold = 1,
                              probe_FailureThreshold = 6,
                              probe_HTTPGet =
                                Some
                                 \<lparr>http_Path = ''/live'',
                                    http_Port = IntVal 5555\<rparr>,
                              probe_TCPSocket = None\<rparr>,
                        cc_ReadinessProbe =
                          Some
                           \<lparr>probe_InitialDelaySeconds = 15,
                              probe_PeriodSeconds = 15,
                              probe_TimeoutSeconds = 5,
                              probe_SuccessThreshold = 1,
                              probe_FailureThreshold = 6,
                              probe_HTTPGet =
                                Some
                                 \<lparr>http_Path = ''/ready'',
                                    http_Port = IntVal 5555\<rparr>,
                              probe_TCPSocket = None\<rparr>,
                        cc_HealthPort = Some 5555,
                        cc_Resources =
                          Some \<lparr>res_Limits = [], res_Requests = []\<rparr>\<rparr>,
                     na_CollectEvents = Some False,
                     na_LeaderElection = Some False, na_CriSocket = None,
                     na_Dogstatsd =
                       Some
                        \<lparr>dsd_DogstatsdOriginDetection = Some False,
                           dsd_UnixDomainSocket =
                             Some
                              \<lparr>dsduds_Enabled = Some False,
                                 dsduds_HostFilepath =
                                   Some ''/var/run/datadog/statsd.sock''\<rparr>\<rparr>,
                     na_PodLabelsAsTags = Some [],
                     na_PodAnnotationsAsTags = Some [], na_Tags = Some []\<rparr>,
               ag_Rbac = Some \<lparr>rbac_Create = Some True\<rparr>,
               ag_DeploymentStrategy =
                 Some
                  \<lparr>ds_UpdateStrategyType = Some ''RollingUpdate'',
                     ds_RollingUpdate =
                       \<lparr>ru_MaxUnavailable = Some (StrVal ''10%''),
                          ru_MaxPodSchedulerFailure = Some (StrVal ''10%''),
                          ru_MaxParallelPodCreation = Some 250,
                          ru_SlowStartIntervalDuration = Some 60000000000,
                          ru_SlowStartAdditiveIncrease =
                            Some (StrVal ''5'')\<rparr>,
                     ds_Canary = Some (CanaryStrategy []),
                     ds_ReconcileFrequency = Some 10000000000\<rparr>,
               ag_Apm =
                 Some
                  \<lparr>apm_Enabled = Some False, apm_HostPort = None,
                     apm_ContainerConfig =
                       \<lparr>cc_LogLevel = None, cc_LivenessProbe = None,
                          cc_ReadinessProbe = None, cc_HealthPort = None,
                          cc_Resources = None\<rparr>,
                     apm_UnixDomainSocket = None\<rparr>,
               ag_SystemProbe =
                 Some
                  \<lparr>sp_Enabled = Some False, sp_EnableOOMKill = None,
                     sp_EnableTCPQueueLength = None,
                     sp_BPFDebugEnabled = None, sp_CollectDNSStats = None,
                     sp_ConntrackEnabled = None, sp_SecCompRootPath = [],
                     sp_AppArmorProfileName = [],
                     sp_SecCompProfileName = []\<rparr>,
               ag_Security =
                 Some
                  \<lparr>sec_Compliance = \<lparr>compl_Enabled = Some False\<rparr>,
                     sec_Runtime =
                       \<lparr>rt_Enabled = Some False,
                          rt_SyscallMonitor =
                            Some \<lparr>sm_Enabled = Some False\<rparr>\<rparr>\<rparr>,
               ag_Process =
                 Some
                  \<lparr>proc_Enabled = Some False,
                     proc_ProcessCollectionEnabled = None\<rparr>,
               ag_NetworkPolicy = Some \<lparr>np_Create = Some False\<rparr>,
               ag_OtherFields = []\<rparr>,
          spec_ClusterAgent =
            \<lparr>ca_Enabled = Some True,
               ca_Image =
                 Some
                  \<lparr>img_Name = ''cluster-agent'', img_Tag = ''1.12.0'',
                     img_PullPolicy = Some ''IfNotPresent'',
                     img_PullSecrets = Some []\<rparr>,
               ca_Config =
                 Some
                  \<lparr>cac_ContainerConfig =
                     \<lparr>cc_LogLevel = Some ''INFO'', cc_LivenessProbe = None,
                        cc_ReadinessProbe = None, cc_HealthPort = Some 5555,
                        cc_Resources =
                          Some \<lparr>res_Limits = [], res_Requests = []\<rparr>\<rparr>,
                     cac_Features =
                       \<lparr>fca_ExternalMetrics =
                          Some \<lparr>em_Enabled = Some False, em_Port = None\<rparr>,
                          fca_ClusterChecksEnabled = Some False,
                          fca_CollectEvents = Some False,
                          fca_AdmissionController =
                            Some
                             \<lparr>ac_Enabled = Some False,
                                ac_MutateUnlabelled = None,
                                ac_ServiceName = None\<rparr>\<rparr>\<rparr>,
               ca_CustomConfig = None,
               ca_Rbac = Some \<lparr>rbac_Create = Some True\<rparr>,
               ca_NetworkPolicy = Some \<lparr>np_Create = Some False\<rparr>,
               ca_OtherFields = []\<rparr>,
          spec_ClusterChecksRunner =
            \<lparr>clc_Enabled = Some False, clc_Image = None,
               clc_ContainerConfig = None, clc_Rbac = None,
               clc_NetworkPolicy = None, clc_OtherFields = []\<rparr>\<rparr>"

text \<open>The spec and the override of a run, \<open>None\<close> when the run panics.\<close>

definition specOf ::
  "default_error + (DatadogAgentSpec \<times> DatadogAgentSpec) \<Rightarrow> DatadogAgentSpec option" where
  "specOf r = (case r of Inl e \<Rightarrow> None | Inr (s, sh) \<Rightarrow> Some s)"

definition shadowOf ::
  "default_error + (DatadogAgentSpec \<times> DatadogAgentSpec) \<Rightarrow> DatadogAgentSpec option" where
  "shadowOf r = (case r of Inl e \<Rightarrow> None | Inr (s, sh) \<Rightarrow> Some sh)"

section \<open>Theorems\<close>


text \<open>
  C9. For every registry and identifier, \<open>Register\<close> returns the duplicate-identifier
  error and leaves the registry unchanged when the identifier is registered already, and
  otherwise stores the constructor under the identifier and returns no error.
\<close>

theorem Register_duplicate_or_stored:
  "(featureBuilders ident \<noteq> None \<longrightarrow>
      Register featureBuilders ident buildFunc =
        (Some (FeatureRegisteredAlready ident), featureBuilders))
   \<and> (featureBuilders ident = None \<longrightarrow>
      Register featureBuilders ident buildFunc = (None, featureBuilders(ident \<mapsto> buildFunc)))"
  by (auto simp: Register_def split: option.splits)

theorem Register_duplicate_or_stored_witness:
  "Register [''apm'' \<mapsto> (1::nat)] ''apm'' 2
     = (Some (FeatureRegisteredAlready ''apm''), [''apm'' \<mapsto> 1])
   \<and> Register Map.empty ''apm'' (2::nat) = (None, [''apm'' \<mapsto> 2])"
  using Register_duplicate_or_stored [of "[''apm'' \<mapsto> (1::nat)]" "''apm''" 2]
    Register_duplicate_or_stored [of Map.empty "''apm''" "2::nat"]
  by simp

subsection \<open>The merge of required components\<close>

lemma mergeEnabled_commute: "mergeEnabled a b = mergeEnabled b a"
  by (auto simp: mergeEnabled_def)

lemma mergeEnabled_assoc: "mergeEnabled (mergeEnabled a b) c = mergeEnabled a (mergeEnabled b c)"
  by (auto simp: mergeEnabled_def)

lemma mergeEnabled_cases:
  "(mergeEnabled a b = Some True \<longleftrightarrow> a = Some True \<or> b = Some True)
   \<and> (mergeEnabled a b = Some False
        \<longleftrightarrow> (a = Some False \<or> b = Some False) \<and> a \<noteq> Some True \<and> b \<noteq> Some True)
   \<and> (mergeEnabled a b = None \<longleftrightarrow> a = None \<and> b = None)"
  by (cases a; cases b) (auto simp: mergeEnabled_def)

lemma componentMerge_commute: "componentMerge a b = componentMerge b a"
  by (auto simp: componentMerge_def mergeEnabled_commute)

lemma componentMerge_assoc:
  "componentMerge (componentMerge a b) c = componentMerge a (componentMerge b c)"
  by (simp add: componentMerge_def mergeEnabled_assoc)

lemma componentOf_Merge:
  "componentOf k (Merge A B) = componentMerge (componentOf k A) (componentOf k B)"
  by (cases k) (simp_all add: Merge_def)

text \<open>
  C6. The merge of required components is associative and commutative; per component
  kind the merged tri-state is true if either side is true, false only if at least one
  side is explicitly false and neither is true, unspecified only if both sides are
  unspecified, and privileged is true if either side is; so a component that is enabled
  or privileged in the accumulator stays so after any later merge.
\<close>

theorem Merge_commutative_associative_monotone:
  "Merge (Merge A B) C = Merge A (Merge B C)
   \<and> Merge A B = Merge B A
   \<and> (enabled (componentOf k (Merge A B)) = Some True
        \<longleftrightarrow> enabled (componentOf k A) = Some True \<or> enabled (componentOf k B) = Some True)
   \<and> (enabled (componentOf k (Merge A B)) = Some False
        \<longleftrightarrow> (enabled (componentOf k A) = Some False \<or> enabled (componentOf k B) = Some False)
            \<and> enabled (componentOf k A) \<noteq> Some True \<and> enabled (componentOf k B) \<noteq> Some True)
   \<and> (enabled (componentOf k (Merge A B)) = None
        \<longleftrightarrow> enabled (componentOf k A) = None \<and> enabled (componentOf k B) = None)
   \<and> (privileged (componentOf k (Merge A B))
        \<longleftrightarrow> privileged (componentOf k A) \<or> privileged (componentOf k B))
   \<and> (IsEnabled (componentOf k A) \<longrightarrow> IsEnabled (componentOf k (Merge A B)))
   \<and> (IsPrivileged (componentOf k A) \<longrightarrow> IsPrivileged (componentOf k (Merge A B)))"
proof -
  have assoc: "Merge (Merge A B) C = Merge A (Merge B C)"
    by (simp add: Merge_def componentMerge_assoc)
  have comm: "Merge A B = Merge B A"
    by (simp add: Merge_def componentMerge_commute [of "Agent A"]
        componentMerge_commute [of "ClusterAgent A"]
        componentMerge_commute [of "ClusterChecksRunner A"])
  have en: "enabled (componentOf k (Merge A B))
      = mergeEnabled (enabled (componentOf k A)) (enabled (componentOf k B))"
    by (simp add: componentOf_Merge componentMerge_def)
  have pr: "privileged (componentOf k (Merge A B))
      = (privileged (componentOf k A) \<or> privileged (componentOf k B))"
    by (simp add: componentOf_Merge componentMerge_def)
  show ?thesis
    unfolding en pr IsEnabled_def IsPrivileged_def
    using assoc comm mergeEnabled_cases [of "enabled (componentOf k A)" "enabled (componentOf k B)"]
    by blast
qed

theorem Merge_commutative_associative_monotone_witness:
  "IsEnabled (componentOf NodeAgent
       \<lparr>Agent = \<lparr>enabled = Some True, privileged = True\<rparr>,
        ClusterAgent = zeroRequiredComponent, ClusterChecksRunner = zeroRequiredComponent\<rparr>)
   \<and> IsPrivileged (componentOf NodeAgent
       \<lparr>Agent = \<lparr>enabled = Some True, privileged = True\<rparr>,
        ClusterAgent = zeroRequiredComponent, ClusterChecksRunner = zeroRequiredComponent\<rparr>)
   \<and> IsEnabled (componentOf NodeAgent
       (Merge \<lparr>Agent = \<lparr>enabled = Some True, privileged = True\<rparr>,
               ClusterAgent = zeroRequiredComponent, ClusterChecksRunner = zeroRequiredComponent\<rparr>
              \<lparr>Agent = \<lparr>enabled = Some False, privileged = False\<rparr>,
               ClusterAgent = zeroRequiredComponent, ClusterChecksRunner = zeroRequiredComponent\<rparr>))
   \<and> IsPrivileged (componentOf NodeAgent
       (Merge \<lparr>Agent = \<lparr>enabled = Some True, privileged = True\<rparr>,
               ClusterAgent = zeroRequiredComponent, ClusterChecksRunner = zeroRequiredComponent\<rparr>
              \<lparr>Agent = \<lparr>enabled = Some False, privileged = False\<rparr>,
               ClusterAgent = zeroRequiredComponent, ClusterChecksRunner = zeroRequiredComponent\<rparr>))"
  using Merge_commutative_associative_monotone
    [of "\<lparr>Agent = \<lparr>enabled = Some True, privileged = True\<rparr>,
          ClusterAgent = zeroRequiredComponent, ClusterChecksRunner = zeroRequiredComponent\<rparr>"
        "\<lparr>Agent = \<lparr>enabled = Some False, privileged = False\<rparr>,
          ClusterAgent = zeroRequiredComponent, ClusterChecksRunner = zeroRequiredComponent\<rparr>"
        zeroRequiredComponents NodeAgent]
  by (simp add: IsEnabled_def IsPrivileged_def Merge_def componentMerge_def mergeEnabled_def)

subsection \<open>The iteration order\<close>

lemma sort_enumeration:
  assumes "distinct xs" "distinct ys" "set xs = set ys"
  shows "sort xs = sort ys"
proof -
  have "sort xs = sorted_list_of_set (set xs)" using assms(1)
    by (simp add: sorted_list_of_set_sort_remdups distinct_remdups_id)
  moreover have "sort ys = sorted_list_of_set (set ys)" using assms(2)
    by (simp add: sorted_list_of_set_sort_remdups distinct_remdups_id)
  ultimately show ?thesis using assms(3) by simp
qed

lemma privileged_after:
  assumes "\<forall>x \<in> set xs. x \<notin> set ps"
    and "i < length (xs @ ps)" "j < length (xs @ ps)"
    and "(xs @ ps) ! i \<notin> set ps" "(xs @ ps) ! j \<in> set ps"
  shows "i < j"
proof -
  have "i < length xs"
  proof (rule ccontr)
    assume "\<not> i < length xs"
    then have "(xs @ ps) ! i = ps ! (i - length xs)" "i - length xs < length ps"
      using assms(2) by (auto simp: nth_append)
    then show False using assms(4) by simp
  qed
  moreover have "\<not> j < length xs"
  proof
    assume "j < length xs"
    then have "(xs @ ps) ! j \<in> set xs" by (simp add: nth_append)
    then show False using assms(1,5) by blast
  qed
  ultimately show ?thesis by simp
qed

lemma examplePrivilegedFeatures_unsorted: "\<not> sorted examplePrivilegedFeatures"
  by code_simp

text \<open>
  C5, as the code has it. Without multi-process mode the order is the registered
  identifiers sorted into one ascending sequence. With multi-process mode it is the
  registered identifiers that are not privileged, sorted, followed by the list
  \<open>privilegedFeatures\<close> as a trailing block in the order of its declaration; so every
  privileged identifier comes after every identifier that is not privileged. The order
  does not depend on the order in which the map is enumerated.
\<close>

theorem getSortedFeatureIDs_order:
  "getSortedFeatureIDs privilegedFeatures keys False = sort keys
   \<and> sorted (getSortedFeatureIDs privilegedFeatures keys False)
   \<and> set (getSortedFeatureIDs privilegedFeatures keys False) = set keys
   \<and> getSortedFeatureIDs privilegedFeatures keys True
       = sort (filter (\<lambda>key. key \<notin> set privilegedFeatures) keys) @ privilegedFeatures
   \<and> sorted (sort (filter (\<lambda>key. key \<notin> set privilegedFeatures) keys))
   \<and> (\<forall>i j. i < length (getSortedFeatureIDs privilegedFeatures keys True)
          \<and> j < length (getSortedFeatureIDs privilegedFeatures keys True)
          \<and> getSortedFeatureIDs privilegedFeatures keys True ! i \<notin> set privilegedFeatures
          \<and> getSortedFeatureIDs privilegedFeatures keys True ! j \<in> set privilegedFeatures
          \<longrightarrow> i < j)
   \<and> (distinct keys \<and> distinct keys' \<and> set keys = set keys'
        \<longrightarrow> getSortedFeatureIDs privilegedFeatures keys multi
            = getSortedFeatureIDs privilegedFeatures keys' multi)"
proof -
  let ?np = "filter (\<lambda>key. key \<notin> set privilegedFeatures) keys"
  have multi: "getSortedFeatureIDs privilegedFeatures keys True = sort ?np @ privilegedFeatures"
    by (simp add: getSortedFeatureIDs_def)
  have pos: "\<forall>i j. i < length (sort ?np @ privilegedFeatures)
          \<and> j < length (sort ?np @ privilegedFeatures)
          \<and> (sort ?np @ privilegedFeatures) ! i \<notin> set privilegedFeatures
          \<and> (sort ?np @ privilegedFeatures) ! j \<in> set privilegedFeatures
          \<longrightarrow> i < j"
    using privileged_after [of "sort ?np" privilegedFeatures] by auto
  have det: "getSortedFeatureIDs privilegedFeatures keys multi
            = getSortedFeatureIDs privilegedFeatures keys' multi"
    if "distinct keys" "distinct keys'" "set keys = set keys'"
  proof -
    have "sort keys = sort keys'" using that by (rule sort_enumeration)
    moreover have "sort (filter (\<lambda>key. key \<notin> set privilegedFeatures) keys)
        = sort (filter (\<lambda>key. key \<notin> set privilegedFeatures) keys')"
      using that by (intro sort_enumeration) auto
    ultimately show ?thesis by (simp add: getSortedFeatureIDs_def)
  qed
  show ?thesis
    unfolding multi using pos det by (simp add: getSortedFeatureIDs_def)
qed


theorem getSortedFeatureIDs_order_witness:
  "getSortedFeatureIDs examplePrivilegedFeatures exampleKeys True
     = [''apm'', ''dogstatsd'', ''npm'',
        ''ebpf_check'', ''cws'', ''cspm'', ''oom_kill'', ''tcp_queue_length'', ''usm'']
   \<and> getSortedFeatureIDs examplePrivilegedFeatures exampleKeys True ! 2
       \<notin> set examplePrivilegedFeatures
   \<and> getSortedFeatureIDs examplePrivilegedFeatures exampleKeys True ! 3
       \<in> set examplePrivilegedFeatures
   \<and> (2::nat) < 3
   \<and> distinct exampleKeys \<and> distinct (rev exampleKeys) \<and> set exampleKeys = set (rev exampleKeys)
   \<and> getSortedFeatureIDs examplePrivilegedFeatures exampleKeys True
       = getSortedFeatureIDs examplePrivilegedFeatures (rev exampleKeys) True"
proof -
  have val: "getSortedFeatureIDs examplePrivilegedFeatures exampleKeys True
     = [''apm'', ''dogstatsd'', ''npm'',
        ''ebpf_check'', ''cws'', ''cspm'', ''oom_kill'', ''tcp_queue_length'', ''usm'']"
    by code_simp
  have np: "getSortedFeatureIDs examplePrivilegedFeatures exampleKeys True ! 2
       \<notin> set examplePrivilegedFeatures"
    unfolding val by (simp add: examplePrivilegedFeatures_def)
  have pr: "getSortedFeatureIDs examplePrivilegedFeatures exampleKeys True ! 3
       \<in> set examplePrivilegedFeatures"
    unfolding val by (simp add: examplePrivilegedFeatures_def)
  have d: "distinct exampleKeys"
    by (simp add: exampleKeys_def)
  have d': "distinct (rev exampleKeys)"
    using d by simp
  have st: "set exampleKeys = set (rev exampleKeys)"
    by simp
  have det: "getSortedFeatureIDs examplePrivilegedFeatures exampleKeys True
       = getSortedFeatureIDs examplePrivilegedFeatures (rev exampleKeys) True"
    using getSortedFeatureIDs_order
      [of examplePrivilegedFeatures exampleKeys "rev exampleKeys" True] d d' st
    by blast
  have pos: "(2::nat) < 3"
    using getSortedFeatureIDs_order
      [of examplePrivilegedFeatures exampleKeys "rev exampleKeys" True] np pr
    by (simp add: val)
  show ?thesis using val np pr pos d d' st det by blast
qed

text \<open>
  C5, as the claim states it, fails: the trailing block is not sorted within itself. With
  the identifiers named as below, the block is \<open>privilegedFeatures\<close> in the order of its
  declaration, which is not ascending.
\<close>

theorem privileged_block_not_sorted:
  "\<not> (\<exists>block. getSortedFeatureIDs examplePrivilegedFeatures exampleKeys True
         = sort (filter (\<lambda>key. key \<notin> set examplePrivilegedFeatures) exampleKeys) @ block
       \<and> sorted block)"
proof
  assume "\<exists>block. getSortedFeatureIDs examplePrivilegedFeatures exampleKeys True
         = sort (filter (\<lambda>key. key \<notin> set examplePrivilegedFeatures) exampleKeys) @ block
       \<and> sorted block"
  then obtain block where b: "getSortedFeatureIDs examplePrivilegedFeatures exampleKeys True
      = sort (filter (\<lambda>key. key \<notin> set examplePrivilegedFeatures) exampleKeys) @ block"
    and s: "sorted block"
    by blast
  from b have "block = examplePrivilegedFeatures"
    by (simp add: getSortedFeatureIDs_def)
  with s examplePrivilegedFeatures_unsorted show False by simp
qed

subsection \<open>The multi-process flag in BuildFeatures\<close>

lemma buildStep_calls:
  "buildStep fb Configure dda options st ident = Inr st'
   \<Longrightarrow> configureCalls st' = configureCalls st @ [(ident, useMultiProcessContainer st)]"
  by (auto simp: buildStep_def Let_def split: option.splits)

lemma buildStep_flag:
  "buildStep fb Configure dda options st ident = Inr st'
   \<Longrightarrow> useMultiProcessContainer st' \<Longrightarrow> useMultiProcessContainer st"
  by (auto simp: buildStep_def Let_def split: option.splits if_splits)

lemma buildStep_clears:
  "buildStep fb Configure dda options st ident = Inr st'
   \<Longrightarrow> useMultiProcessContainer st \<Longrightarrow> fb ident = Some buildFunc
   \<Longrightarrow> shouldDisableMultiProcessContainer (Configure (buildFunc options) dda True)
   \<Longrightarrow> \<not> useMultiProcessContainer st'"
  by (auto simp: buildStep_def Let_def split: option.splits if_splits)

lemma buildStep_inv:
  assumes step: "buildStep fb Configure dda options st ident = Inr st'"
    and inv: "buildInv fb Configure dda options st"
  shows "buildInv fb Configure dda options st'"
proof -
  let ?f = "useMultiProcessContainer st"
  let ?cs = "configureCalls st"
  have cs': "configureCalls st' = ?cs @ [(ident, ?f)]" using step by (rule buildStep_calls)
  have mono: "useMultiProcessContainer st' \<Longrightarrow> ?f" using step by (rule buildStep_flag)
  from inv have a1: "\<forall>c \<in> set ?cs. ?f \<longrightarrow> snd c"
    and a2: "flagsAntitone ?cs"
    and a3: "clearedAfter fb Configure dda options ?cs"
    and a4: "\<forall>c \<in> set ?cs. \<forall>buildFunc. snd c \<and> fb (fst c) = Some buildFunc
            \<and> shouldDisableMultiProcessContainer (Configure (buildFunc options) dda True)
          \<longrightarrow> \<not> ?f"
    by (auto simp: buildInv_def)
  have b1: "\<forall>c \<in> set (configureCalls st'). useMultiProcessContainer st' \<longrightarrow> snd c"
    using a1 mono by (auto simp: cs')
  have b2: "flagsAntitone (configureCalls st')"
    unfolding flagsAntitone_def cs'
  proof (intro allI impI)
    fix i j assume h: "i < j \<and> j < length (?cs @ [(ident, ?f)]) \<and> snd ((?cs @ [(ident, ?f)]) ! j)"
    show "snd ((?cs @ [(ident, ?f)]) ! i)"
    proof (cases "j < length ?cs")
      case True
      then show ?thesis using h a2 by (auto simp: flagsAntitone_def nth_append)
    next
      case False
      then have "j = length ?cs" using h by simp
      then have "?f" "i < length ?cs" using h by auto
      then show ?thesis using a1 by (auto simp: nth_append)
    qed
  qed
  have b3: "clearedAfter fb Configure dda options (configureCalls st')"
    unfolding clearedAfter_def cs'
  proof (intro allI impI)
    fix i j buildFunc
    assume h: "i < j \<and> j < length (?cs @ [(ident, ?f)]) \<and> snd ((?cs @ [(ident, ?f)]) ! i)
         \<and> fb (fst ((?cs @ [(ident, ?f)]) ! i)) = Some buildFunc
         \<and> shouldDisableMultiProcessContainer (Configure (buildFunc options) dda True)"
    show "\<not> snd ((?cs @ [(ident, ?f)]) ! j)"
    proof (cases "j < length ?cs")
      case True
      then have "i < j \<and> j < length ?cs \<and> snd (?cs ! i) \<and> fb (fst (?cs ! i)) = Some buildFunc
          \<and> shouldDisableMultiProcessContainer (Configure (buildFunc options) dda True)"
        using h by (auto simp: nth_append)
      then have "\<not> snd (?cs ! j)" using a3 unfolding clearedAfter_def by blast
      then show ?thesis using True by (simp add: nth_append)
    next
      case False
      then have j: "j = length ?cs" using h by simp
      then have i: "i < length ?cs" using h by simp
      then have "?cs ! i \<in> set ?cs" by simp
      moreover have "snd (?cs ! i)" "fb (fst (?cs ! i)) = Some buildFunc"
        using h i by (auto simp: nth_append)
      ultimately have "\<not> ?f" using a4 h by blast
      then show ?thesis using j by simp
    qed
  qed
  have b4: "\<forall>c \<in> set (configureCalls st'). \<forall>buildFunc. snd c \<and> fb (fst c) = Some buildFunc
            \<and> shouldDisableMultiProcessContainer (Configure (buildFunc options) dda True)
          \<longrightarrow> \<not> useMultiProcessContainer st'"
  proof (intro ballI allI impI)
    fix c buildFunc
    assume c: "c \<in> set (configureCalls st')"
      and h: "snd c \<and> fb (fst c) = Some buildFunc
            \<and> shouldDisableMultiProcessContainer (Configure (buildFunc options) dda True)"
    show "\<not> useMultiProcessContainer st'"
    proof (cases "c \<in> set ?cs")
      case True
      then have "\<not> ?f" using a4 h by blast
      then show ?thesis using mono by blast
    next
      case False
      then have "c = (ident, ?f)" using c by (simp add: cs')
      then show ?thesis using h buildStep_clears [OF step] by auto
    qed
  qed
  show ?thesis unfolding buildInv_def using b1 b2 b3 b4 by blast
qed

lemma buildLoop_inv:
  "buildLoop fb Configure dda options st ids = Inr st'
   \<Longrightarrow> buildInv fb Configure dda options st
   \<Longrightarrow> buildInv fb Configure dda options st'"
proof (induction ids arbitrary: st)
  case Nil
  then show ?case by simp
next
  case (Cons ident ids)
  then show ?case
    by (auto split: sum.splits dest: buildStep_inv)
qed

lemma buildLoop_calls:
  "buildLoop fb Configure dda options st ids = Inr st'
   \<Longrightarrow> map fst (configureCalls st') = map fst (configureCalls st) @ ids"
proof (induction ids arbitrary: st)
  case Nil
  then show ?case by simp
next
  case (Cons ident ids)
  then show ?case
    by (auto split: sum.splits dest!: buildStep_calls)
qed

lemma buildLoop_flag:
  "buildLoop fb Configure dda options st ids = Inr st'
   \<Longrightarrow> useMultiProcessContainer st' \<Longrightarrow> useMultiProcessContainer st"
proof (induction ids arbitrary: st)
  case Nil
  then show ?case by simp
next
  case (Cons ident ids)
  then show ?case
    by (auto split: sum.splits dest: buildStep_flag)
qed

lemma buildLoop_bounded:
  "buildLoop fb Configure dda options st ids = Inr st'
   \<Longrightarrow> (useMultiProcessContainer st \<longrightarrow> r) \<Longrightarrow> (\<forall>c \<in> set (configureCalls st). snd c \<longrightarrow> r)
   \<Longrightarrow> (\<forall>c \<in> set (configureCalls st'). snd c \<longrightarrow> r)"
proof (induction ids arbitrary: st)
  case Nil
  then show ?case by simp
next
  case (Cons ident ids)
  from Cons.prems(1) obtain st1 where s1: "buildStep fb Configure dda options st ident = Inr st1"
    and l1: "buildLoop fb Configure dda options st1 ids = Inr st'"
    by (auto split: sum.splits)
  have "useMultiProcessContainer st1 \<longrightarrow> r"
    using buildStep_flag [OF s1] Cons.prems(2) by blast
  moreover have "\<forall>c \<in> set (configureCalls st1). snd c \<longrightarrow> r"
    using buildStep_calls [OF s1] Cons.prems(2,3) by auto
  ultimately show ?case using Cons.IH [OF l1] by blast
qed

text \<open>
  C4, as the code has it. When \<open>BuildFeatures\<close> returns, the identifiers were visited
  in the order computed once from the flag as requested; the flag seen by the successive
  calls of \<open>Configure\<close> only goes from on to off; and a call that saw the flag on and
  whose own requirement has the node agent enabled and privileged is followed only by
  calls that see the flag off. The test reads the requirement returned by that call, not
  the merged accumulator.
\<close>

theorem BuildFeatures_flag_cleared_forward:
  assumes "BuildFeatures privilegedFeatures featureBuilders keys Configure requested dda options = Inr st"
  shows "map fst (configureCalls st) = getSortedFeatureIDs privilegedFeatures keys requested
   \<and> (\<forall>i j. i < j \<and> j < length (configureCalls st) \<and> snd (configureCalls st ! j)
          \<longrightarrow> snd (configureCalls st ! i))
   \<and> (\<forall>i j buildFunc. i < j \<and> j < length (configureCalls st) \<and> snd (configureCalls st ! i)
          \<and> featureBuilders (fst (configureCalls st ! i)) = Some buildFunc
          \<and> shouldDisableMultiProcessContainer (Configure (buildFunc options) dda True)
        \<longrightarrow> \<not> snd (configureCalls st ! j))
   \<and> (\<forall>c \<in> set (configureCalls st). snd c \<longrightarrow> requested)
   \<and> (useMultiProcessContainer st \<longrightarrow> requested)"
proof -
  let ?init = "\<lparr>useMultiProcessContainer = requested, outputFeatures = [],
        requiredComponents = zeroRequiredComponents, configureCalls = []\<rparr>"
  have loop: "buildLoop featureBuilders Configure dda options ?init
       (getSortedFeatureIDs privilegedFeatures keys requested) = Inr st"
    using assms by (simp add: BuildFeatures_def)
  have "buildInv featureBuilders Configure dda options ?init"
    by (simp add: buildInv_def flagsAntitone_def clearedAfter_def)
  with loop have inv: "buildInv featureBuilders Configure dda options st"
    by (rule buildLoop_inv)
  have order: "map fst (configureCalls st) = getSortedFeatureIDs privilegedFeatures keys requested"
    using buildLoop_calls [OF loop] by simp
  have fin: "useMultiProcessContainer st \<longrightarrow> requested"
    using buildLoop_flag [OF loop] by auto
  have first: "\<forall>c \<in> set (configureCalls st). snd c \<longrightarrow> requested"
    using buildLoop_bounded [OF loop, of requested] by simp
  show ?thesis
    using inv order fin first unfolding buildInv_def flagsAntitone_def clearedAfter_def by blast
qed


theorem BuildFeatures_flag_cleared_forward_witness:
  "BuildFeatures examplePrivilegedFeatures exampleBuilders exampleKeys clearingConfigure True () ()
     = Inr \<lparr>useMultiProcessContainer = False, outputFeatures = [''dogstatsd''],
            requiredComponents = agentOnly (Some True) True,
            configureCalls = [(''apm'', True), (''dogstatsd'', True), (''npm'', False),
              (''ebpf_check'', False), (''cws'', False), (''cspm'', False),
              (''oom_kill'', False), (''tcp_queue_length'', False), (''usm'', False)]\<rparr>
   \<and> map fst [(''apm'', True), (''dogstatsd'', True), (''npm'', False),
              (''ebpf_check'', False), (''cws'', False), (''cspm'', False),
              (''oom_kill'', False), (''tcp_queue_length'', False), (''usm'', False)]
       = getSortedFeatureIDs examplePrivilegedFeatures exampleKeys True"
proof -
  have run: "BuildFeatures examplePrivilegedFeatures exampleBuilders exampleKeys
       clearingConfigure True () ()
     = Inr \<lparr>useMultiProcessContainer = False, outputFeatures = [''dogstatsd''],
            requiredComponents = agentOnly (Some True) True,
            configureCalls = [(''apm'', True), (''dogstatsd'', True), (''npm'', False),
              (''ebpf_check'', False), (''cws'', False), (''cspm'', False),
              (''oom_kill'', False), (''tcp_queue_length'', False), (''usm'', False)]\<rparr>"
    by code_simp
  from BuildFeatures_flag_cleared_forward [OF run]
  have "map fst [(''apm'', True), (''dogstatsd'', True), (''npm'', False),
              (''ebpf_check'', False), (''cws'', False), (''cspm'', False),
              (''oom_kill'', False), (''tcp_queue_length'', False), (''usm'', False)]
       = getSortedFeatureIDs examplePrivilegedFeatures exampleKeys True"
    by simp
  with run show ?thesis by blast
qed

text \<open>
  C4, as the claim states it, fails: after the requirement of \<open>dogstatsd\<close> is merged, the
  node agent is enabled and privileged in the accumulator, and yet every later call of
  \<open>Configure\<close> sees the flag on, and the flag is on at the end.
\<close>

theorem BuildFeatures_accumulator_not_tested:
  "BuildFeatures examplePrivilegedFeatures exampleBuilders exampleKeys splitConfigure True () ()
     = Inr \<lparr>useMultiProcessContainer = True, outputFeatures = [''apm''],
            requiredComponents = agentOnly (Some True) True,
            configureCalls = [(''apm'', True), (''dogstatsd'', True), (''npm'', True),
              (''ebpf_check'', True), (''cws'', True), (''cspm'', True),
              (''oom_kill'', True), (''tcp_queue_length'', True), (''usm'', True)]\<rparr>
   \<and> shouldDisableMultiProcessContainer
        (Merge (Merge zeroRequiredComponents (splitConfigure ''apm'' () True))
               (splitConfigure ''dogstatsd'' () True))"
  by code_simp
subsection \<open>Running the defaulting pass\<close>

lemmas zero_defs = zeroDatadogAgentGenericContainerConfig_def zeroResourceRequirements_def
  zeroImageConfig_def zeroCRISocketConfig_def zeroDSDUnixDomainSocketSpec_def
  zeroDogstatsdConfig_def zeroNodeAgentSpec_def zeroRbacConfig_def zeroNetworkPolicySpec_def
  zeroDaemonSetRollingUpdateSpec_def zeroDaemonSetDeploymentStrategy_def
  zeroAPMUnixDomainSocketSpec_def zeroAPMSpec_def zeroSystemProbeSpec_def
  zeroSyscallMonitorSpec_def zeroSecuritySpec_def zeroProcessSpec_def
  zeroDatadogAgentSpecAgentSpec_def zeroExternalMetricsConfig_def
  zeroAdmissionControllerConfig_def zeroFeaturesConfigClusterAgent_def
  zeroClusterAgentConfig_def zeroDatadogAgentSpecClusterAgentSpec_def
  zeroDatadogAgentSpecClusterChecksRunnerSpec_def zeroScrubbing_def
  zeroOrchestratorExplorerConfig_def zeroKubeStateMetricsCore_def
  zeroPrometheusScrapeConfig_def zeroLogCollectionConfig_def zeroNetworkMonitoringConfig_def
  zeroDatadogFeatures_def zeroAgentCredentials_def zeroDatadogAgentSpec_def

lemmas const_defs = defaultLogLevel_def defaultAgentImageTag_def defaultClusterAgentImageTag_def
  defaultAgentImageName_def defaultClusterAgentImageName_def defaultCollectEvents_def
  defaultLeaderElection_def defaultDockerSocketPath_def defaultDogstatsdOriginDetection_def
  defaultUseDogStatsDSocketVolume_def defaultHostDogstatsdSocketName_def
  defaultHostDogstatsdSocketPath_def defaultAgentEnabled_def defaultClusterAgentEnabled_def
  defaultClusterChecksRunnerEnabled_def defaultApmEnabled_def defaultApmHostPort_def
  defaultExternalMetricsEnabled_def defaultSystemProbeEnabled_def
  defaultSystemProbeOOMKillEnabled_def defaultSystemProbeTCPQueueLengthEnabled_def
  defaultSystemProbeConntrackEnabled_def defaultSystemProbeCollectDNSStats_def
  defaultSystemProbeBPFDebugEnabled_def defaultSystemProbeSecCompRootPath_def
  defaultAppArmorProfileName_def DefaultSeccompProfileName_def defaultSecurityRuntimeEnabled_def
  defaultSecurityComplianceEnabled_def defaultSecuritySyscallMonitorEnabled_def
  defaultHostApmSocketName_def defaultHostApmSocketPath_def defaultLogEnabled_def
  defaultLogsConfigContainerCollectAll_def defaultLogsContainerCollectUsingFiles_def
  defaultContainerLogsPath_def defaultPodLogsPath_def defaultContainerSymlinksPath_def
  defaultLogsTempStoragePath_def defaultLogsOpenFilesLimit_def defaultProcessEnabled_def
  defaultProcessCollectionEnabled_def defaultOrchestratorExplorerEnabled_def
  defaultOrchestratorExplorerContainerScrubbingEnabled_def defaultMetricsProviderPort_def
  defaultClusterChecksEnabled_def defaultKubeStateMetricsCoreEnabled_def
  defaultPrometheusScrapeEnabled_def defaultPrometheusScrapeServiceEndpoints_def
  defaultRollingUpdateMaxUnavailable_def defaultUpdateStrategy_def
  defaultRollingUpdateMaxPodSchedulerFailure_def defaultRollingUpdateMaxParallelPodCreation_def
  defaultRollingUpdateSlowStartIntervalDuration_def
  defaultRollingUpdateSlowStartAdditiveIncrease_def defaultReconcileFrequency_def
  defaultRbacCreate_def defaultMutateUnlabelled_def DefaultAdmissionServiceName_def
  defaultAdmissionControllerEnabled_def defaultLivenessProbeInitialDelaySeconds_def
  defaultLivenessProbePeriodSeconds_def defaultLivenessProbeTimeoutSeconds_def
  defaultLivenessProbeSuccessThreshold_def defaultLivenessProbeFailureThreshold_def
  defaultAgentHealthPort_def defaultLivenessProbeHTTPPath_def
  defaultReadinessProbeInitialDelaySeconds_def defaultReadinessProbePeriodSeconds_def
  defaultReadinessProbeTimeoutSeconds_def defaultReadinessProbeSuccessThreshold_def
  defaultReadinessProbeFailureThreshold_def defaultReadinessProbeHTTPPath_def
  defaultImagePullPolicy_def

lemmas fun_defs = BoolValue_def DefaultDatadogAgentSpecAgentImage_def
  GetDefaultLivenessProbe_def GetDefaultReadinessProbe_def DefaultContainerSocket_def
  DefaultConfigDogstatsdUDS_def DefaultConfigDogstatsd_def DefaultDatadogAgentSpecAgentConfig_def
  DefaultRbacConfig_def DefaultDatadogAgentSpecRbacConfig_def
  DefaultDatadogAgentSpecDatadogAgentStrategy_def getDefaultAPMAgentLivenessProbe_def
  DefaultDatadogAgentSpecAgentApmUDS_def DefaultDatadogAgentSpecAgentApm_def
  DefaultDatadogAgentSpecAgentSystemProbe_def DefaultDatadogAgentSpecAgentSecurity_def
  DefaultDatadogAgentSpecAgentProcess_def DefaultNetworkPolicy_def DefaultAgentNetworkPolicy_def
  DefaultDatadogAgentSpecAgent_def DefaultDatadogFeatureLogCollection_def
  clusterChecksRunnerEnabled_def defaultEnabledDatadogFeatureOrchestratorExplorer_def
  DefaultDatadogFeatureOrchestratorExplorer_def DefaultDatadogFeatureKubeStateMetricsCore_def
  DefaultDatadogFeaturePrometheusScrape_def DefaultDatadogFeatureNetworkMonitoring_def
  DefaultFeatures_def DefaultExternalMetrics_def DefaultAdmissionController_def
  DefaultDatadogAgentSpecClusterAgentConfig_def DefaultDatadogClusterAgentImage_def
  DefaultDatadogClusterAgentSpecRbacConfig_def DefaultClusterAgentNetworkPolicy_def
  DefaultDatadogAgentSpecClusterAgent_def DefaultDatadogAgentSpecClusterChecksRunnerImage_def
  DefaultDatadogAgentSpecClusterChecksRunnerConfig_def
  DefaultDatadogClusterCheckRunnerSpecRbacConfig_def DefaultClusterCheckRunnerNetworkPolicy_def
  DefaultDatadogAgentSpecClusterChecksRunner_def FeatureOverride_def DefaultDatadogAgent_def

text \<open>
  C1. For the empty desired-state spec, \<open>DefaultDatadogAgent\<close> returns, whatever the
  collaborators are, and in the spec after the pass: the node agent is enabled, with
  image name "agent", image tag "7.28.0", health port 5555, liveness probe HTTP path
  "/live" and readiness probe HTTP path "/ready"; the cluster agent is enabled, with image
  name "cluster-agent" and tag "1.12.0"; the cluster-checks runner is disabled.
\<close>

theorem DefaultDatadogAgent_empty_spec:
  "\<exists>s sh img na live ready liveGet readyGet caImg.
     DefaultDatadogAgent ext zeroDatadogAgentSpec = Inr (s, sh)
     \<and> ag_Enabled (spec_Agent s) = Some True
     \<and> ag_Image (spec_Agent s) = Some img
     \<and> img_Name img = ''agent'' \<and> img_Tag img = ''7.28.0''
     \<and> ag_NodeAgent (spec_Agent s) = Some na
     \<and> cc_HealthPort (na_ContainerConfig na) = Some 5555
     \<and> cc_LivenessProbe (na_ContainerConfig na) = Some live
     \<and> probe_HTTPGet live = Some liveGet \<and> http_Path liveGet = ''/live''
     \<and> cc_ReadinessProbe (na_ContainerConfig na) = Some ready
     \<and> probe_HTTPGet ready = Some readyGet \<and> http_Path readyGet = ''/ready''
     \<and> ca_Enabled (spec_ClusterAgent s) = Some True
     \<and> ca_Image (spec_ClusterAgent s) = Some caImg
     \<and> img_Name caImg = ''cluster-agent'' \<and> img_Tag caImg = ''1.12.0''
     \<and> clc_Enabled (spec_ClusterChecksRunner s) = Some False"
  by (simp add: fun_defs zero_defs const_defs Let_def)

text \<open>
  C2, on the code. With network monitoring enabled and the system-probe subtree absent,
  \<open>FeatureOverride\<close> does not force the system probe on: when the node agent's
  \<open>Enabled\<close> flag is unset it writes through the nil \<open>SystemProbe\<close> pointer, and when
  the node agent is explicitly enabled it leaves the spec and the shadow as they are,
  the system probe still absent.
\<close>

theorem FeatureOverride_system_probe_absent:
  "FeatureOverride networkMonitoringOnly zeroDatadogAgentSpec = Inl NilPointerDereference
   \<and> FeatureOverride networkMonitoringAgentEnabled zeroDatadogAgentSpec
       = Inr (networkMonitoringAgentEnabled, zeroDatadogAgentSpec)
   \<and> ag_SystemProbe (spec_Agent networkMonitoringAgentEnabled) = None"
  by (simp add: FeatureOverride_def networkMonitoringOnly_def networkMonitoringAgentEnabled_def
      BoolValue_def zero_defs)

text \<open>
  C10, on the code. \<open>DefaultDatadogAgent\<close> does not return on every input: with only
  network monitoring enabled, or with only the orchestrator explorer enabled, the node
  agent's \<open>Enabled\<close> flag is unset and the subtree (\<open>SystemProbe\<close>, \<open>Process\<close>) is
  absent, and the pass ends in a nil pointer dereference in \<open>FeatureOverride\<close>.
\<close>

theorem DefaultDatadogAgent_nil_dereference:
  "DefaultDatadogAgent ext networkMonitoringOnly = Inl NilPointerDereference
   \<and> DefaultDatadogAgent ext orchestratorExplorerOnly = Inl NilPointerDereference"
  by (simp add: DefaultDatadogAgent_def FeatureOverride_def networkMonitoringOnly_def
      orchestratorExplorerOnly_def BoolValue_def zero_defs)

theorem FeatureOverride_system_probe_absent_witness:
  "FeatureOverride networkMonitoringOnly zeroDatadogAgentSpec = Inl NilPointerDereference
   \<and> BoolValue (ag_Enabled (spec_Agent networkMonitoringAgentEnabled))
   \<and> FeatureOverride networkMonitoringAgentEnabled zeroDatadogAgentSpec
       = Inr (networkMonitoringAgentEnabled, zeroDatadogAgentSpec)"
  using FeatureOverride_system_probe_absent
  by (simp add: networkMonitoringAgentEnabled_def BoolValue_def)

subsection \<open>The functions as chains of blocks\<close>

text \<open>Each function of the defaulting pass, with its blocks named by the two combinators.
  The proofs only unfold the combinators.\<close>

lemma TrimSuffix_steps:
  "TrimSuffix s suffix = defaultOnly
                  (\<lambda>s. length suffix \<le> length s \<and> drop (length s - length suffix) s = suffix)
                  (\<lambda>s. take (length s - length suffix) s) s"
  by (simp only: TrimSuffix_def defaultAndRecord_def defaultOnly_def fst_conv snd_conv)

lemma DefaultDatadogAgentSpecAgentImage_steps:
  "DefaultDatadogAgentSpecAgentImage agent name tag =
     (let img0 = (case ag_Image agent of None \<Rightarrow> zeroImageConfig | Some i \<Rightarrow> i);
          ov0 = zeroImageConfig;
          (img1, ov1) = defaultAndRecord (\<lambda>s. img_Name s = [])
            (\<lambda>s. s\<lparr>img_Name := name\<rparr>) (img0, ov0);
          (img2, ov2) = defaultAndRecord (\<lambda>s. img_Tag s = [])
            (\<lambda>s. s\<lparr>img_Tag := tag\<rparr>) (img1, ov1);
          (img3, ov3) = defaultAndRecord (\<lambda>s. img_PullPolicy s = None)
            (\<lambda>s. s\<lparr>img_PullPolicy := Some defaultImagePullPolicy\<rparr>)
            (img2, ov2);
          img4 = defaultOnly (\<lambda>s. img_PullSecrets s = None)
            (\<lambda>s. s\<lparr>img_PullSecrets := Some []\<rparr>) img3
      in (agent\<lparr>ag_Image := Some img4\<rparr>, ov3))"
  by (simp only: DefaultDatadogAgentSpecAgentImage_def defaultAndRecord_def defaultOnly_def fst_conv snd_conv)

lemma DefaultConfigDogstatsdUDS_steps:
  "DefaultConfigDogstatsdUDS dsd =
     (let uds0 = (case dsd_UnixDomainSocket dsd of
                    None \<Rightarrow> zeroDSDUnixDomainSocketSpec | Some u \<Rightarrow> u);
          ov0 = zeroDSDUnixDomainSocketSpec;
          (uds1, ov1) = defaultAndRecord (\<lambda>s. dsduds_Enabled s = None)
            (\<lambda>s. s\<lparr>dsduds_Enabled := Some defaultUseDogStatsDSocketVolume\<rparr>)
            (uds0, ov0);
          socketPath = defaultHostDogstatsdSocketPath @ ''/'' @ defaultHostDogstatsdSocketName;
          (uds2, ov2) = defaultAndRecord (\<lambda>s. dsduds_HostFilepath s = None)
            (\<lambda>s. s\<lparr>dsduds_HostFilepath := Some socketPath\<rparr>) (uds1, ov1)
      in (dsd\<lparr>dsd_UnixDomainSocket := Some uds2\<rparr>, ov2))"
  by (simp only: DefaultConfigDogstatsdUDS_def defaultAndRecord_def defaultOnly_def fst_conv snd_conv)

lemma DefaultConfigDogstatsd_steps:
  "DefaultConfigDogstatsd config =
     (let dsd0 = (case na_Dogstatsd config of None \<Rightarrow> zeroDogstatsdConfig | Some d \<Rightarrow> d);
          ov0 = zeroDogstatsdConfig;
          (dsd1, ov1) = defaultAndRecord (\<lambda>s. dsd_DogstatsdOriginDetection s = None)
            (\<lambda>s. s\<lparr>dsd_DogstatsdOriginDetection := Some defaultDogstatsdOriginDetection\<rparr>)
            (dsd0, ov0);
          (dsd2, uds) = DefaultConfigDogstatsdUDS dsd1;
          ov2 = defaultOnly (\<lambda>s. uds \<noteq> zeroDSDUnixDomainSocketSpec)
            (\<lambda>s. s\<lparr>dsd_UnixDomainSocket := Some uds\<rparr>) ov1
      in (config\<lparr>na_Dogstatsd := Some dsd2\<rparr>, ov2))"
  by (simp only: DefaultConfigDogstatsd_def defaultAndRecord_def defaultOnly_def fst_conv snd_conv)

lemma DefaultDatadogAgentSpecAgentConfig_steps:
  "DefaultDatadogAgentSpecAgentConfig ext agents =
     (let ov0 = zeroNodeAgentSpec;
          na0 = (case ag_NodeAgent agents of None \<Rightarrow> zeroNodeAgentSpec | Some n \<Rightarrow> n);
          na1 = defaultOnly (\<lambda>s. cc_LogLevel (na_ContainerConfig s) = None)
            (\<lambda>s. s\<lparr>na_ContainerConfig := (na_ContainerConfig s)\<lparr>cc_LogLevel := Some defaultLogLevel\<rparr>\<rparr>)
            na0;
          (na2, ov2) = defaultAndRecord (\<lambda>s. na_CollectEvents s = None)
            (\<lambda>s. s\<lparr>na_CollectEvents := Some defaultCollectEvents\<rparr>)
            (na1, ov0);
          (na3, ov3) = defaultAndRecord (\<lambda>s. na_LeaderElection s = None)
            (\<lambda>s. s\<lparr>na_LeaderElection := Some defaultLeaderElection\<rparr>)
            (na2, ov2)
      in case ag_Image agents of
           None \<Rightarrow> Inl NilPointerDereference
         | Some img \<Rightarrow>
          (let agentTag = TrimSuffix (GetTagFromImageName ext (img_Name img)) ''-jmx'';
               (na4, ov4) =
                 (if \<not> (agentTag = ''latest'' \<or> IsAboveMinVersion ext agentTag ''7.27.0-0''
                         \<or> IsAboveMinVersion ext agentTag ''6.27.0-0'')
                  then (let (na, socketOverride) = DefaultContainerSocket na3
                        in (na, if socketOverride \<noteq> zeroCRISocketConfig
                                then ov3\<lparr>na_CriSocket := Some socketOverride\<rparr> else ov3))
                  else (na3, ov3));
               (na5, dsdOverride) = DefaultConfigDogstatsd na4;
               ov5 = defaultOnly (\<lambda>s. dsdOverride \<noteq> zeroDogstatsdConfig)
                 (\<lambda>s. s\<lparr>na_Dogstatsd := Some dsdOverride\<rparr>) ov4;
               na6 = defaultOnly (\<lambda>s. cc_Resources (na_ContainerConfig s) = None)
                 (\<lambda>s. s\<lparr>na_ContainerConfig := (na_ContainerConfig s)\<lparr>cc_Resources := Some zeroResourceRequirements\<rparr>\<rparr>)
                 na5;
               na7 = defaultOnly (\<lambda>s. na_PodLabelsAsTags s = None)
                 (\<lambda>s. s\<lparr>na_PodLabelsAsTags := Some []\<rparr>) na6;
               na8 = defaultOnly (\<lambda>s. na_PodAnnotationsAsTags s = None)
                 (\<lambda>s. s\<lparr>na_PodAnnotationsAsTags := Some []\<rparr>) na7;
               na9 = defaultOnly (\<lambda>s. na_Tags s = None)
                 (\<lambda>s. s\<lparr>na_Tags := Some []\<rparr>) na8;
               (na10, ov10) = defaultAndRecord (\<lambda>s. cc_LivenessProbe (na_ContainerConfig s) = None)
                 (\<lambda>s. s\<lparr>na_ContainerConfig := (na_ContainerConfig s)\<lparr>cc_LivenessProbe := Some GetDefaultLivenessProbe\<rparr>\<rparr>)
                 (na9, ov5);
               (na11, ov11) = defaultAndRecord (\<lambda>s. cc_ReadinessProbe (na_ContainerConfig s) = None)
                 (\<lambda>s. s\<lparr>na_ContainerConfig := (na_ContainerConfig s)\<lparr>cc_ReadinessProbe := Some GetDefaultReadinessProbe\<rparr>\<rparr>)
                 (na10, ov10);
               (na12, ov12) = defaultAndRecord (\<lambda>s. cc_HealthPort (na_ContainerConfig s) = None)
                 (\<lambda>s. s\<lparr>na_ContainerConfig := (na_ContainerConfig s)\<lparr>cc_HealthPort := Some defaultAgentHealthPort\<rparr>\<rparr>)
                 (na11, ov11)
           in Inr (agents\<lparr>ag_NodeAgent := Some na12\<rparr>, ov12)))"
  by (simp only: DefaultDatadogAgentSpecAgentConfig_def defaultAndRecord_def defaultOnly_def fst_conv snd_conv)

lemma DefaultRbacConfig_steps:
  "DefaultRbacConfig rbac =
     (let r0 = (case rbac of None \<Rightarrow> zeroRbacConfig | Some r \<Rightarrow> r);
          (r1, ov1) = defaultAndRecord (\<lambda>s. rbac_Create s = None)
            (\<lambda>s. s\<lparr>rbac_Create := Some defaultRbacCreate\<rparr>)
            (r0, zeroRbacConfig)
      in (case rbac of None \<Rightarrow> None | Some _ \<Rightarrow> Some r1, ov1))"
  by (simp only: DefaultRbacConfig_def defaultAndRecord_def defaultOnly_def fst_conv snd_conv)

lemma DefaultDatadogAgentSpecDatadogAgentStrategy_steps:
  "DefaultDatadogAgentSpecDatadogAgentStrategy ext agents =
     (let ov0 = zeroDaemonSetDeploymentStrategy;
          s0 = (case ag_DeploymentStrategy agents of
                  None \<Rightarrow> zeroDaemonSetDeploymentStrategy | Some s \<Rightarrow> s);
          (s1, ov1) = defaultAndRecord (\<lambda>s. ds_UpdateStrategyType s = None)
            (\<lambda>s. s\<lparr>ds_UpdateStrategyType := Some defaultUpdateStrategy\<rparr>)
            (s0, ov0);
          (s2, ov2) = defaultAndRecord (\<lambda>s. ru_MaxUnavailable (ds_RollingUpdate s) = None)
            (\<lambda>s. s\<lparr>ds_RollingUpdate := (ds_RollingUpdate s) \<lparr>ru_MaxUnavailable := Some (StrVal defaultRollingUpdateMaxUnavailable)\<rparr>\<rparr>)
            (s1, ov1);
          (s3, ov3) = defaultAndRecord (\<lambda>s. ru_MaxPodSchedulerFailure (ds_RollingUpdate s) = None)
            (\<lambda>s. s\<lparr>ds_RollingUpdate := (ds_RollingUpdate s) \<lparr>ru_MaxPodSchedulerFailure := Some (StrVal defaultRollingUpdateMaxPodSchedulerFailure)\<rparr>\<rparr>)
            (s2, ov2);
          (s4, ov4) = defaultAndRecord (\<lambda>s. ru_MaxParallelPodCreation (ds_RollingUpdate s) = None)
            (\<lambda>s. s\<lparr>ds_RollingUpdate := (ds_RollingUpdate s) \<lparr>ru_MaxParallelPodCreation := Some defaultRollingUpdateMaxParallelPodCreation\<rparr>\<rparr>)
            (s3, ov3);
          (s5, ov5) = defaultAndRecord
            (\<lambda>s. ru_SlowStartIntervalDuration (ds_RollingUpdate s) = None)
            (\<lambda>s. s\<lparr>ds_RollingUpdate := (ds_RollingUpdate s) \<lparr>ru_SlowStartIntervalDuration := Some defaultRollingUpdateSlowStartIntervalDuration\<rparr>\<rparr>)
            (s4, ov4);
          (s6, ov6) = defaultAndRecord
            (\<lambda>s. ru_SlowStartAdditiveIncrease (ds_RollingUpdate s) = None)
            (\<lambda>s. s\<lparr>ds_RollingUpdate := (ds_RollingUpdate s) \<lparr>ru_SlowStartAdditiveIncrease := Some (StrVal defaultRollingUpdateSlowStartAdditiveIncrease)\<rparr>\<rparr>)
            (s5, ov5);
          (s7, ov7) = defaultAndRecord (\<lambda>s. ds_Canary s = None)
            (\<lambda>s. s\<lparr>ds_Canary := Some (DefaultExtendedDaemonSetSpecStrategyCanary ext)\<rparr>)
            (s6, ov6);
          (s8, ov8) = defaultAndRecord (\<lambda>s. ds_ReconcileFrequency s = None)
            (\<lambda>s. s\<lparr>ds_ReconcileFrequency := Some defaultReconcileFrequency\<rparr>)
            (s7, ov7)
      in (agents\<lparr>ag_DeploymentStrategy := Some s8\<rparr>, ov8))"
  by (simp only: DefaultDatadogAgentSpecDatadogAgentStrategy_def defaultAndRecord_def defaultOnly_def fst_conv snd_conv)

lemma DefaultDatadogAgentSpecAgentApmUDS_steps:
  "DefaultDatadogAgentSpecAgentApmUDS apm =
     (case apm_UnixDomainSocket apm of
        None \<Rightarrow>
          (let uds = \<lparr>apmuds_Enabled = Some False, apmuds_HostFilepath = None\<rparr>
           in (apm\<lparr>apm_UnixDomainSocket := Some uds\<rparr>, uds))
      | Some uds0 \<Rightarrow>
          (let ov0 = zeroAPMUnixDomainSocketSpec;
               (uds1, ov1) = defaultAndRecord (\<lambda>s. apmuds_Enabled s = None)
                 (\<lambda>s. s\<lparr>apmuds_Enabled := Some False\<rparr>) (uds0, ov0)
           in if \<not> BoolValue (apmuds_Enabled uds1)
              then (apm\<lparr>apm_UnixDomainSocket := Some uds1\<rparr>, ov1)
              else
               (let socketPath = defaultHostApmSocketPath @ ''/'' @ defaultHostApmSocketName;
                    (uds2, ov2) = defaultAndRecord (\<lambda>s. apmuds_HostFilepath s = None)
                      (\<lambda>s. s\<lparr>apmuds_HostFilepath := Some socketPath\<rparr>)
                      (uds1, ov1)
                in (apm\<lparr>apm_UnixDomainSocket := Some uds2\<rparr>, ov2))))"
  by (simp only: DefaultDatadogAgentSpecAgentApmUDS_def defaultAndRecord_def defaultOnly_def fst_conv snd_conv)

lemma DefaultDatadogAgentSpecAgentApm_steps:
  "DefaultDatadogAgentSpecAgentApm agents =
     (case ag_Apm agents of
        None \<Rightarrow>
          (let apm = zeroAPMSpec\<lparr>apm_Enabled := Some defaultApmEnabled\<rparr>
           in (agents\<lparr>ag_Apm := Some apm\<rparr>, apm))
      | Some apm0 \<Rightarrow>
          (let ov0 = zeroAPMSpec;
               (apm1, ov1) = defaultAndRecord (\<lambda>s. apm_Enabled s = None)
                 (\<lambda>s. s\<lparr>apm_Enabled := Some defaultApmEnabled\<rparr>)
                 (apm0, ov0)
           in if \<not> BoolValue (apm_Enabled apm1)
              then (agents\<lparr>ag_Apm := Some apm1\<rparr>, ov1)
              else
               (let (apm2, ov2) = defaultAndRecord (\<lambda>s. apm_HostPort s = None)
                      (\<lambda>s. s\<lparr>apm_HostPort := Some defaultApmHostPort\<rparr>)
                      (apm1, ov1);
                    (apm3, ov3) = defaultAndRecord (\<lambda>s. cc_LivenessProbe (apm_ContainerConfig s) = None)
                      (\<lambda>s. s\<lparr>apm_ContainerConfig := (apm_ContainerConfig s) \<lparr>cc_LivenessProbe := Some getDefaultAPMAgentLivenessProbe\<rparr>\<rparr>)
                      (apm2, ov2);
                    (apm4, udsOverride) = DefaultDatadogAgentSpecAgentApmUDS apm3;
                    ov4 = defaultOnly (\<lambda>s. udsOverride \<noteq> zeroAPMUnixDomainSocketSpec)
                      (\<lambda>s. s\<lparr>apm_UnixDomainSocket := Some udsOverride\<rparr>)
                      ov3
                in (agents\<lparr>ag_Apm := Some apm4\<rparr>, ov4))))"
  by (simp only: DefaultDatadogAgentSpecAgentApm_def defaultAndRecord_def defaultOnly_def fst_conv snd_conv)

lemma DefaultDatadogAgentSpecAgentSystemProbe_steps:
  "DefaultDatadogAgentSpecAgentSystemProbe agents =
     (case ag_SystemProbe agents of
        None \<Rightarrow>
          (let sp = zeroSystemProbeSpec\<lparr>sp_Enabled := Some defaultSystemProbeEnabled\<rparr>
           in (agents\<lparr>ag_SystemProbe := Some sp\<rparr>, sp))
      | Some sp0 \<Rightarrow>
          (let ov0 = zeroSystemProbeSpec;
               (sp1, ov1) = defaultAndRecord (\<lambda>s. sp_Enabled s = None)
                 (\<lambda>s. s\<lparr>sp_Enabled := Some defaultSystemProbeEnabled\<rparr>)
                 (sp0, ov0)
           in if \<not> BoolValue (sp_Enabled sp1)
              then (agents\<lparr>ag_SystemProbe := Some sp1\<rparr>, ov1)
              else
               (let (sp2, ov2) = defaultAndRecord (\<lambda>s. sp_EnableOOMKill s = None)
                      (\<lambda>s. s\<lparr>sp_EnableOOMKill := Some defaultSystemProbeOOMKillEnabled\<rparr>)
                      (sp1, ov1);
                    (sp3, ov3) = defaultAndRecord (\<lambda>s. sp_EnableTCPQueueLength s = None)
                      (\<lambda>s. s\<lparr>sp_EnableTCPQueueLength := Some defaultSystemProbeTCPQueueLengthEnabled\<rparr>)
                      (sp2, ov2);
                    (sp4, ov4) = defaultAndRecord (\<lambda>s. sp_BPFDebugEnabled s = None)
                      (\<lambda>s. s\<lparr>sp_BPFDebugEnabled := Some defaultSystemProbeBPFDebugEnabled\<rparr>)
                      (sp3, ov3);
                    (sp5, ov5) = defaultAndRecord (\<lambda>s. sp_CollectDNSStats s = None)
                      (\<lambda>s. s\<lparr>sp_CollectDNSStats := Some defaultSystemProbeCollectDNSStats\<rparr>)
                      (sp4, ov4);
                    (sp6, ov6) = defaultAndRecord (\<lambda>s. sp_ConntrackEnabled s = None)
                      (\<lambda>s. s\<lparr>sp_ConntrackEnabled := Some defaultSystemProbeConntrackEnabled\<rparr>)
                      (sp5, ov5);
                    (sp7, ov7) = defaultAndRecord (\<lambda>s. sp_SecCompRootPath s = [])
                      (\<lambda>s. s\<lparr>sp_SecCompRootPath := defaultSystemProbeSecCompRootPath\<rparr>)
                      (sp6, ov6);
                    (sp8, ov8) = defaultAndRecord (\<lambda>s. sp_AppArmorProfileName s = [])
                      (\<lambda>s. s\<lparr>sp_AppArmorProfileName := defaultAppArmorProfileName\<rparr>)
                      (sp7, ov7);
                    (sp9, ov9) = defaultAndRecord (\<lambda>s. sp_SecCompProfileName s = [])
                      (\<lambda>s. s\<lparr>sp_SecCompProfileName := DefaultSeccompProfileName\<rparr>)
                      (sp8, ov8)
                in (agents\<lparr>ag_SystemProbe := Some sp9\<rparr>, ov9))))"
  by (simp only: DefaultDatadogAgentSpecAgentSystemProbe_def defaultAndRecord_def defaultOnly_def fst_conv snd_conv)

lemma DefaultDatadogAgentSpecAgentSecurity_steps:
  "DefaultDatadogAgentSpecAgentSecurity agents =
     (let ov0 = zeroSecuritySpec;
          sec0 = (case ag_Security agents of None \<Rightarrow> zeroSecuritySpec | Some s \<Rightarrow> s);
          (sec1, ov1) = defaultAndRecord (\<lambda>s. compl_Enabled (sec_Compliance s) = None)
            (\<lambda>s. s\<lparr>sec_Compliance := (sec_Compliance s) \<lparr>compl_Enabled := Some defaultSecurityComplianceEnabled\<rparr>\<rparr>)
            (sec0, ov0);
          (sec2, ov2) = defaultAndRecord (\<lambda>s. rt_Enabled (sec_Runtime s) = None)
            (\<lambda>s. s\<lparr>sec_Runtime := (sec_Runtime s) \<lparr>rt_Enabled := Some defaultSecurityRuntimeEnabled\<rparr>\<rparr>)
            (sec1, ov1);
          (sec3, ov3) = defaultAndRecord (\<lambda>s. rt_SyscallMonitor (sec_Runtime s) = None)
            (\<lambda>s. s\<lparr>sec_Runtime := (sec_Runtime s) \<lparr>rt_SyscallMonitor := Some zeroSyscallMonitorSpec\<rparr>\<rparr>)
            (sec2, ov2)
      in case rt_SyscallMonitor (sec_Runtime sec3) of
           None \<Rightarrow> Inl NilPointerDereference
         | Some sm \<Rightarrow>
            (if sm_Enabled sm = None
             then (case rt_SyscallMonitor (sec_Runtime ov3) of
                     None \<Rightarrow> Inl NilPointerDereference
                   | Some osm \<Rightarrow>
                       Inr (agents\<lparr>ag_Security := Some (sec3\<lparr>sec_Runtime := (sec_Runtime sec3)
                              \<lparr>rt_SyscallMonitor :=
                                 Some (sm\<lparr>sm_Enabled := Some defaultSecuritySyscallMonitorEnabled\<rparr>)\<rparr>\<rparr>)\<rparr>,
                            ov3\<lparr>sec_Runtime := (sec_Runtime ov3)
                              \<lparr>rt_SyscallMonitor :=
                                 Some (osm\<lparr>sm_Enabled := Some defaultSecuritySyscallMonitorEnabled\<rparr>)\<rparr>\<rparr>))
             else Inr (agents\<lparr>ag_Security := Some sec3\<rparr>, ov3)))"
  by (simp only: DefaultDatadogAgentSpecAgentSecurity_def defaultAndRecord_def defaultOnly_def fst_conv snd_conv)

lemma DefaultDatadogAgentSpecAgentProcess_steps:
  "DefaultDatadogAgentSpecAgentProcess agents =
     (case ag_Process agents of
        None \<Rightarrow>
          (let p = zeroProcessSpec\<lparr>proc_Enabled := Some defaultProcessEnabled\<rparr>
           in (agents\<lparr>ag_Process := Some p\<rparr>, p))
      | Some p0 \<Rightarrow>
          (let ov0 = zeroProcessSpec;
               (p1, ov1) = defaultAndRecord (\<lambda>s. proc_Enabled s = None)
                 (\<lambda>s. s\<lparr>proc_Enabled := Some defaultProcessEnabled\<rparr>)
                 (p0, ov0)
           in if \<not> BoolValue (proc_Enabled p1)
              then (agents\<lparr>ag_Process := Some p1\<rparr>, ov1)
              else
               (let (p2, ov2) = defaultAndRecord (\<lambda>s. proc_ProcessCollectionEnabled s = None)
                      (\<lambda>s. s\<lparr>proc_ProcessCollectionEnabled := Some defaultProcessCollectionEnabled\<rparr>)
                      (p1, ov1)
                in (agents\<lparr>ag_Process := Some p2\<rparr>, ov2))))"
  by (simp only: DefaultDatadogAgentSpecAgentProcess_def defaultAndRecord_def defaultOnly_def fst_conv snd_conv)

lemma DefaultNetworkPolicy_steps:
  "DefaultNetworkPolicy policy =
     (let p0 = (case policy of None \<Rightarrow> zeroNetworkPolicySpec | Some p \<Rightarrow> p);
          (p1, ov1) = defaultAndRecord (\<lambda>s. np_Create s = None)
            (\<lambda>s. s\<lparr>np_Create := Some False\<rparr>) (p0, zeroNetworkPolicySpec)
      in (case policy of None \<Rightarrow> None | Some _ \<Rightarrow> Some p1, ov1))"
  by (simp only: DefaultNetworkPolicy_def defaultAndRecord_def defaultOnly_def fst_conv snd_conv)

lemma DefaultDatadogAgentSpecAgent_steps:
  "DefaultDatadogAgentSpecAgent ext daemonsetAgents =
     (let a0 = defaultOnly (\<lambda>s. s = zeroDatadogAgentSpecAgentSpec)
            (\<lambda>s. s\<lparr>ag_Enabled := Some defaultAgentEnabled\<rparr>)
            daemonsetAgents
      in if daemonsetAgents = zeroDatadogAgentSpecAgentSpec \<and> \<not> BoolValue (ag_Enabled a0)
         then Inr (a0, a0)
         else
          (let ov0 = zeroDatadogAgentSpecAgentSpec;
               (a1, ov1) = defaultAndRecord (\<lambda>s. ag_Enabled s = None)
                 (\<lambda>s. s\<lparr>ag_Enabled := Some defaultAgentEnabled\<rparr>) (a0, ov0)
           in if \<not> BoolValue (ag_Enabled a1) then Inr (a1, ov1)
              else
               (let (a2, ov2) = defaultAndRecord (\<lambda>s. ag_UseExtendedDaemonset s = None)
                      (\<lambda>s. s\<lparr>ag_UseExtendedDaemonset := Some False\<rparr>)
                      (a1, ov1);
                    (a3, img) = DefaultDatadogAgentSpecAgentImage a2
                                  defaultAgentImageName defaultAgentImageTag;
                    ov3 = defaultOnly (\<lambda>s. img \<noteq> zeroImageConfig)
                      (\<lambda>s. s\<lparr>ag_Image := Some img\<rparr>) ov2
                in case DefaultDatadogAgentSpecAgentConfig ext a3 of
                     Inl e \<Rightarrow> Inl e
                   | Inr (a4, cfg) \<Rightarrow>
                  (let ov4 = defaultOnly (\<lambda>s. cfg \<noteq> zeroNodeAgentSpec)
                         (\<lambda>s. s\<lparr>ag_NodeAgent := Some cfg\<rparr>) ov3;
                       (a5, rbac) = DefaultDatadogAgentSpecRbacConfig a4;
                       ov5 = defaultOnly (\<lambda>s. rbac \<noteq> zeroRbacConfig)
                         (\<lambda>s. s\<lparr>ag_Rbac := Some rbac\<rparr>) ov4;
                       (a6, deployStrat) = DefaultDatadogAgentSpecDatadogAgentStrategy ext a5;
                       ov6 = defaultOnly (\<lambda>s. deployStrat \<noteq> zeroDaemonSetDeploymentStrategy)
                         (\<lambda>s. s\<lparr>ag_DeploymentStrategy := Some deployStrat\<rparr>)
                         ov5;
                       (a7, apm) = DefaultDatadogAgentSpecAgentApm a6;
                       ov7 = defaultOnly (\<lambda>s. apm \<noteq> zeroAPMSpec)
                         (\<lambda>s. s\<lparr>ag_Apm := Some apm\<rparr>) ov6;
                       (a8, sysProb) = DefaultDatadogAgentSpecAgentSystemProbe a7;
                       ov8 = defaultOnly (\<lambda>s. sysProb \<noteq> zeroSystemProbeSpec)
                         (\<lambda>s. s\<lparr>ag_SystemProbe := Some sysProb\<rparr>) ov7
                   in case DefaultDatadogAgentSpecAgentSecurity a8 of
                        Inl e \<Rightarrow> Inl e
                      | Inr (a9, sec) \<Rightarrow>
                     (let ov9 = defaultOnly (\<lambda>s. sec \<noteq> zeroSecuritySpec)
                            (\<lambda>s. s\<lparr>ag_Security := Some sec\<rparr>) ov8;
                          (a10, proc) = DefaultDatadogAgentSpecAgentProcess a9;
                          ov10 = defaultOnly (\<lambda>s. proc \<noteq> zeroProcessSpec)
                            (\<lambda>s. s\<lparr>ag_Process := Some proc\<rparr>) ov9;
                          (a11, net) = DefaultAgentNetworkPolicy a10;
                          ov11 = defaultOnly (\<lambda>s. net \<noteq> zeroNetworkPolicySpec)
                            (\<lambda>s. s\<lparr>ag_NetworkPolicy := Some net\<rparr>) ov10
                      in Inr (a11, ov11))))))"
  by (simp only: DefaultDatadogAgentSpecAgent_def defaultAndRecord_def defaultOnly_def fst_conv snd_conv)

lemma DefaultDatadogFeatureLogCollection_steps:
  "DefaultDatadogFeatureLogCollection ft =
     (case ft_LogCollection ft of
        None \<Rightarrow>
          (let lc = zeroLogCollectionConfig\<lparr>log_Enabled := Some defaultLogEnabled\<rparr>
           in (ft\<lparr>ft_LogCollection := Some lc\<rparr>, lc))
      | Some lc0 \<Rightarrow>
          (let lc1 = defaultOnly (\<lambda>s. log_Enabled s = None)
                 (\<lambda>s. s\<lparr>log_Enabled := Some defaultLogEnabled\<rparr>) lc0;
               ov1 = zeroLogCollectionConfig\<lparr>log_Enabled := log_Enabled lc1\<rparr>
           in if \<not> BoolValue (log_Enabled lc1)
              then (ft\<lparr>ft_LogCollection := Some lc1\<rparr>, ov1)
              else
               (let (lc2, ov2) = defaultAndRecord (\<lambda>s. log_LogsConfigContainerCollectAll s = None)
                      (\<lambda>s. s\<lparr>log_LogsConfigContainerCollectAll := Some defaultLogsConfigContainerCollectAll\<rparr>)
                      (lc1, ov1);
                    (lc3, ov3) = defaultAndRecord (\<lambda>s. log_ContainerCollectUsingFiles s = None)
                      (\<lambda>s. s\<lparr>log_ContainerCollectUsingFiles := Some defaultLogsContainerCollectUsingFiles\<rparr>)
                      (lc2, ov2);
                    (lc4, ov4) = defaultAndRecord (\<lambda>s. log_ContainerLogsPath s = None)
                      (\<lambda>s. s\<lparr>log_ContainerLogsPath := Some defaultContainerLogsPath\<rparr>)
                      (lc3, ov3);
                    (lc5, ov5) = defaultAndRecord (\<lambda>s. log_PodLogsPath s = None)
                      (\<lambda>s. s\<lparr>log_PodLogsPath := Some defaultPodLogsPath\<rparr>)
                      (lc4, ov4);
                    (lc6, ov6) = defaultAndRecord (\<lambda>s. log_ContainerSymlinksPath s = None)
                      (\<lambda>s. s\<lparr>log_ContainerSymlinksPath := Some defaultContainerSymlinksPath\<rparr>)
                      (lc5, ov5);
                    (lc7, ov7) = defaultAndRecord (\<lambda>s. log_TempStoragePath s = None)
                      (\<lambda>s. s\<lparr>log_TempStoragePath := Some defaultLogsTempStoragePath\<rparr>)
                      (lc6, ov6);
                    (lc8, ov8) = defaultAndRecord (\<lambda>s. log_OpenFilesLimit s = None)
                      (\<lambda>s. s\<lparr>log_OpenFilesLimit := Some defaultLogsOpenFilesLimit\<rparr>)
                      (lc7, ov7)
                in (ft\<lparr>ft_LogCollection := Some lc8\<rparr>, ov8))))"
  by (simp only: DefaultDatadogFeatureLogCollection_def defaultAndRecord_def defaultOnly_def fst_conv snd_conv)

lemma defaultEnabledDatadogFeatureOrchestratorExplorer_steps:
  "defaultEnabledDatadogFeatureOrchestratorExplorer config withClusterChecksRunner =
     (let ov0 = zeroOrchestratorExplorerConfig;
          (c1, ov1) = defaultAndRecord (\<lambda>s. oe_Enabled s = None)
            (\<lambda>s. s\<lparr>oe_Enabled := Some defaultOrchestratorExplorerEnabled\<rparr>)
            (config, ov0)
      in if BoolValue (oe_Enabled c1)
         then
          (let (c2, ov2) = defaultAndRecord (\<lambda>s. oe_ClusterCheck s = None)
                 (\<lambda>s. s\<lparr>oe_ClusterCheck := Some withClusterChecksRunner\<rparr>)
                 (c1, ov1);
               (c3, ov3) = defaultAndRecord (\<lambda>s. oe_Scrubbing s = None)
                 (\<lambda>s. s\<lparr>oe_Scrubbing := Some zeroScrubbing\<rparr>) (c2, ov2)
           in case oe_Scrubbing c3 of
                None \<Rightarrow> Inl NilPointerDereference
              | Some scr \<Rightarrow>
                 (if scr_Containers scr = None
                  then (case oe_Scrubbing ov3 of
                          None \<Rightarrow> Inl NilPointerDereference
                        | Some oscr \<Rightarrow>
                            Inr (c3\<lparr>oe_Scrubbing := Some (scr\<lparr>scr_Containers :=
                                    Some defaultOrchestratorExplorerContainerScrubbingEnabled\<rparr>)\<rparr>,
                                 ov3\<lparr>oe_Scrubbing := Some (oscr\<lparr>scr_Containers :=
                                    Some defaultOrchestratorExplorerContainerScrubbingEnabled\<rparr>)\<rparr>))
                  else Inr (c3, ov3)))
         else Inr (c1, ov1\<lparr>oe_Enabled := Some False\<rparr>))"
  by (simp only: defaultEnabledDatadogFeatureOrchestratorExplorer_def defaultAndRecord_def defaultOnly_def fst_conv snd_conv)

lemma DefaultDatadogFeatureKubeStateMetricsCore_steps:
  "DefaultDatadogFeatureKubeStateMetricsCore ft withClusterChecksRunner =
     (case ft_KubeStateMetricsCore ft of
        None \<Rightarrow>
          (let ksm = \<lparr>ksm_Enabled = Some defaultKubeStateMetricsCoreEnabled,
                      ksm_ClusterCheck = Some withClusterChecksRunner\<rparr>
           in (ft\<lparr>ft_KubeStateMetricsCore := Some ksm\<rparr>, ksm))
      | Some k0 \<Rightarrow>
          (let k1 = defaultOnly (\<lambda>s. ksm_Enabled s = None)
                 (\<lambda>s. s\<lparr>ksm_Enabled := Some defaultKubeStateMetricsCoreEnabled\<rparr>)
                 k0;
               k2 = defaultOnly (\<lambda>s. ksm_ClusterCheck s = None)
                 (\<lambda>s. s\<lparr>ksm_ClusterCheck := Some withClusterChecksRunner\<rparr>)
                 k1
           in (ft\<lparr>ft_KubeStateMetricsCore := Some k2\<rparr>,
               \<lparr>ksm_Enabled = ksm_Enabled k2, ksm_ClusterCheck = ksm_ClusterCheck k2\<rparr>)))"
  by (simp only: DefaultDatadogFeatureKubeStateMetricsCore_def defaultAndRecord_def defaultOnly_def fst_conv snd_conv)

lemma DefaultDatadogFeaturePrometheusScrape_steps:
  "DefaultDatadogFeaturePrometheusScrape ft =
     (let p0 = (case ft_PrometheusScrape ft of
                  None \<Rightarrow> zeroPrometheusScrapeConfig\<lparr>prom_Enabled :=
                            Some defaultPrometheusScrapeEnabled\<rparr>
                | Some p \<Rightarrow> p);
          p1 = defaultOnly (\<lambda>s. prom_Enabled s = None)
            (\<lambda>s. s\<lparr>prom_Enabled := Some defaultPrometheusScrapeEnabled\<rparr>)
            p0;
          ov1 = zeroPrometheusScrapeConfig\<lparr>prom_Enabled := prom_Enabled p1\<rparr>
      in if \<not> BoolValue (prom_Enabled p1)
         then (ft\<lparr>ft_PrometheusScrape := Some p1\<rparr>, ov1)
         else
          (let (p2, ov2) = defaultAndRecord (\<lambda>s. prom_ServiceEndpoints s = None)
                 (\<lambda>s. s\<lparr>prom_ServiceEndpoints := Some defaultPrometheusScrapeServiceEndpoints\<rparr>)
                 (p1, ov1)
           in (ft\<lparr>ft_PrometheusScrape := Some p2\<rparr>, ov2)))"
  by (simp only: DefaultDatadogFeaturePrometheusScrape_def defaultAndRecord_def defaultOnly_def fst_conv snd_conv)

lemma DefaultDatadogFeatureNetworkMonitoring_steps:
  "DefaultDatadogFeatureNetworkMonitoring ft =
     (let n0 = (case ft_NetworkMonitoring ft of
                  None \<Rightarrow> \<lparr>nm_Enabled = Some False\<rparr> | Some n \<Rightarrow> n)
      in if ft_NetworkMonitoring ft = None \<and> \<not> BoolValue (nm_Enabled n0)
         then (ft\<lparr>ft_NetworkMonitoring := Some n0\<rparr>, n0)
         else
          (let n1 = defaultOnly (\<lambda>s. nm_Enabled s = None)
                 (\<lambda>s. s\<lparr>nm_Enabled := Some False\<rparr>) n0
           in (ft\<lparr>ft_NetworkMonitoring := Some n1\<rparr>, \<lparr>nm_Enabled = nm_Enabled n1\<rparr>)))"
  by (simp only: DefaultDatadogFeatureNetworkMonitoring_def defaultAndRecord_def defaultOnly_def fst_conv snd_conv)

lemma DefaultFeatures_steps:
  "DefaultFeatures dda =
     (let ft0 = spec_Features dda;
          ov0 = zeroDatadogFeatures;
          clusterCheckEnabled = clusterChecksRunnerEnabled dda
      in case DefaultDatadogFeatureOrchestratorExplorer ft0 clusterCheckEnabled of
           Inl e \<Rightarrow> Inl e
         | Inr (ft1, orch) \<Rightarrow>
          (let ov1 = defaultOnly (\<lambda>s. orch \<noteq> zeroOrchestratorExplorerConfig)
                 (\<lambda>s. s\<lparr>ft_OrchestratorExplorer := Some orch\<rparr>) ov0;
               (ft2, ksm) = DefaultDatadogFeatureKubeStateMetricsCore ft1 clusterCheckEnabled;
               ov2 = defaultOnly (\<lambda>s. ksm \<noteq> zeroKubeStateMetricsCore)
                 (\<lambda>s. s\<lparr>ft_KubeStateMetricsCore := Some ksm\<rparr>) ov1;
               (ft3, promScrape) = DefaultDatadogFeaturePrometheusScrape ft2;
               ov3 = defaultOnly (\<lambda>s. promScrape \<noteq> zeroPrometheusScrapeConfig)
                 (\<lambda>s. s\<lparr>ft_PrometheusScrape := Some promScrape\<rparr>) ov2;
               (ft4, logColl) = DefaultDatadogFeatureLogCollection ft3;
               ov4 = defaultOnly (\<lambda>s. logColl \<noteq> zeroLogCollectionConfig)
                 (\<lambda>s. s\<lparr>ft_LogCollection := Some logColl\<rparr>) ov3;
               (ft5, net) = DefaultDatadogFeatureNetworkMonitoring ft4;
               ov5 = defaultOnly (\<lambda>s. net \<noteq> zeroNetworkMonitoringConfig)
                 (\<lambda>s. s\<lparr>ft_NetworkMonitoring := Some net\<rparr>) ov4
           in Inr (dda\<lparr>spec_Features := ft5\<rparr>, ov5)))"
  by (simp only: DefaultFeatures_def defaultAndRecord_def defaultOnly_def fst_conv snd_conv)

lemma DefaultExternalMetrics_steps:
  "DefaultExternalMetrics conf =
     (let em0 = (case fca_ExternalMetrics conf of
                   None \<Rightarrow> \<lparr>em_Enabled = Some defaultExternalMetricsEnabled, em_Port = None\<rparr>
                 | Some e \<Rightarrow> e)
      in if fca_ExternalMetrics conf = None \<and> \<not> BoolValue (em_Enabled em0)
         then (conf\<lparr>fca_ExternalMetrics := Some em0\<rparr>, em0)
         else
          (let ov0 = zeroExternalMetricsConfig;
               (em1, ov1) = defaultAndRecord (\<lambda>s. em_Enabled s = None)
                 (\<lambda>s. s\<lparr>em_Enabled := Some True\<rparr>) (em0, ov0);
               (em2, ov2) = defaultAndRecord (\<lambda>s. em_Port s = None \<and> BoolValue (em_Enabled s))
                 (\<lambda>s. s\<lparr>em_Port := Some defaultMetricsProviderPort\<rparr>)
                 (em1, ov1)
           in (conf\<lparr>fca_ExternalMetrics := Some em2\<rparr>, ov2)))"
  by (simp only: DefaultExternalMetrics_def defaultAndRecord_def defaultOnly_def fst_conv snd_conv)

lemma DefaultAdmissionController_steps:
  "DefaultAdmissionController conf =
     (let ac0 = (case fca_AdmissionController conf of
                   None \<Rightarrow> zeroAdmissionControllerConfig\<lparr>ac_Enabled :=
                             Some defaultAdmissionControllerEnabled\<rparr>
                 | Some a \<Rightarrow> a)
      in if fca_AdmissionController conf = None \<and> \<not> BoolValue (ac_Enabled ac0)
         then (conf\<lparr>fca_AdmissionController := Some ac0\<rparr>, ac0)
         else
          (let ov0 = zeroAdmissionControllerConfig;
               (ac1, ov1) = defaultAndRecord (\<lambda>s. ac_Enabled s = None)
                 (\<lambda>s. s\<lparr>ac_Enabled := Some defaultAdmissionControllerEnabled\<rparr>)
                 (ac0, ov0);
               (ac2, ov2) = defaultAndRecord (\<lambda>s. ac_MutateUnlabelled s = None)
                 (\<lambda>s. s\<lparr>ac_MutateUnlabelled := Some defaultMutateUnlabelled\<rparr>)
                 (ac1, ov1);
               (ac3, ov3) = defaultAndRecord (\<lambda>s. ac_ServiceName s = None)
                 (\<lambda>s. s\<lparr>ac_ServiceName := Some DefaultAdmissionServiceName\<rparr>)
                 (ac2, ov2)
           in (conf\<lparr>fca_AdmissionController := Some ac3\<rparr>, ov3)))"
  by (simp only: DefaultAdmissionController_def defaultAndRecord_def defaultOnly_def fst_conv snd_conv)

lemma DefaultDatadogAgentSpecClusterAgentConfig_steps:
  "DefaultDatadogAgentSpecClusterAgentConfig dca =
     (let ov0 = zeroClusterAgentConfig;
          dca1 = defaultOnly (\<lambda>s. ca_CustomConfig s = None)
            (\<lambda>s. s\<lparr>ca_Config := Some zeroClusterAgentConfig\<rparr>) dca
      in case ca_Config dca1 of
           None \<Rightarrow> Inl NilPointerDereference
         | Some c0 \<Rightarrow>
          (let (c1, ov1) = defaultAndRecord (\<lambda>s. cc_LogLevel (cac_ContainerConfig s) = None)
                 (\<lambda>s. s\<lparr>cac_ContainerConfig := (cac_ContainerConfig s) \<lparr>cc_LogLevel := Some defaultLogLevel\<rparr>\<rparr>)
                 (c0, ov0);
               (f2, extMetricsOverride) = DefaultExternalMetrics (cac_Features c1);
               c2 = c1\<lparr>cac_Features := f2\<rparr>;
               ov2 = defaultOnly (\<lambda>s. extMetricsOverride \<noteq> zeroExternalMetricsConfig)
                 (\<lambda>s. s\<lparr>cac_Features := (cac_Features s) \<lparr>fca_ExternalMetrics := Some extMetricsOverride\<rparr>\<rparr>)
                 ov1;
               (c3, ov3) = defaultAndRecord (\<lambda>s. fca_ClusterChecksEnabled (cac_Features s) = None)
                 (\<lambda>s. s\<lparr>cac_Features := (cac_Features s) \<lparr>fca_ClusterChecksEnabled := Some defaultClusterChecksEnabled\<rparr>\<rparr>)
                 (c2, ov2);
               (c4, ov4) = defaultAndRecord (\<lambda>s. fca_CollectEvents (cac_Features s) = None)
                 (\<lambda>s. s\<lparr>cac_Features := (cac_Features s) \<lparr>fca_CollectEvents := Some defaultCollectEvents\<rparr>\<rparr>)
                 (c3, ov3);
               (f5, admCtrlOverride) = DefaultAdmissionController (cac_Features c4);
               c5 = c4\<lparr>cac_Features := f5\<rparr>;
               ov5 = defaultOnly (\<lambda>s. admCtrlOverride \<noteq> zeroAdmissionControllerConfig)
                 (\<lambda>s. s\<lparr>cac_Features := (cac_Features s) \<lparr>fca_AdmissionController := Some admCtrlOverride\<rparr>\<rparr>)
                 ov4;
               c6 = defaultOnly (\<lambda>s. cc_Resources (cac_ContainerConfig s) = None)
                 (\<lambda>s. s\<lparr>cac_ContainerConfig := (cac_ContainerConfig s) \<lparr>cc_Resources := Some zeroResourceRequirements\<rparr>\<rparr>)
                 c5;
               (c7, ov7) = defaultAndRecord (\<lambda>s. cc_HealthPort (cac_ContainerConfig s) = None)
                 (\<lambda>s. s\<lparr>cac_ContainerConfig := (cac_ContainerConfig s) \<lparr>cc_HealthPort := Some defaultAgentHealthPort\<rparr>\<rparr>)
                 (c6, ov5)
           in Inr (dca1\<lparr>ca_Config := Some c7\<rparr>, ov7)))"
  by (simp only: DefaultDatadogAgentSpecClusterAgentConfig_def defaultAndRecord_def defaultOnly_def fst_conv snd_conv)

lemma DefaultDatadogClusterAgentImage_steps:
  "DefaultDatadogClusterAgentImage dca name tag =
     (let img0 = (case ca_Image dca of None \<Rightarrow> zeroImageConfig | Some i \<Rightarrow> i);
          ov0 = zeroImageConfig;
          (img1, ov1) = defaultAndRecord (\<lambda>s. img_Name s = [])
            (\<lambda>s. s\<lparr>img_Name := name\<rparr>) (img0, ov0);
          (img2, ov2) = defaultAndRecord (\<lambda>s. img_Tag s = [])
            (\<lambda>s. s\<lparr>img_Tag := tag\<rparr>) (img1, ov1);
          (img3, ov3) = defaultAndRecord (\<lambda>s. img_PullPolicy s = None)
            (\<lambda>s. s\<lparr>img_PullPolicy := Some defaultImagePullPolicy\<rparr>)
            (img2, ov2);
          img4 = defaultOnly (\<lambda>s. img_PullSecrets s = None)
            (\<lambda>s. s\<lparr>img_PullSecrets := Some []\<rparr>) img3
      in (dca\<lparr>ca_Image := Some img4\<rparr>, ov3))"
  by (simp only: DefaultDatadogClusterAgentImage_def defaultAndRecord_def defaultOnly_def fst_conv snd_conv)

lemma DefaultDatadogAgentSpecClusterAgent_steps:
  "DefaultDatadogAgentSpecClusterAgent clusterAgent =
     (let a0 = defaultOnly (\<lambda>s. s = zeroDatadogAgentSpecClusterAgentSpec)
            (\<lambda>s. s\<lparr>ca_Enabled := Some defaultClusterAgentEnabled\<rparr>)
            clusterAgent
      in if clusterAgent = zeroDatadogAgentSpecClusterAgentSpec \<and> \<not> BoolValue (ca_Enabled a0)
         then Inr (a0, a0)
         else
          (let ov0 = zeroDatadogAgentSpecClusterAgentSpec;
               (a1, ov1) = defaultAndRecord (\<lambda>s. ca_Enabled s = None)
                 (\<lambda>s. s\<lparr>ca_Enabled := Some defaultClusterAgentEnabled\<rparr>)
                 (a0, ov0)
           in if \<not> BoolValue (ca_Enabled a1) then Inr (a1, ov1)
              else
               (let a2 = defaultOnly (\<lambda>s. ca_Image s = None)
                      (\<lambda>s. s\<lparr>ca_Image := Some zeroImageConfig\<rparr>) a1;
                    (a3, img) = DefaultDatadogClusterAgentImage a2
                                  defaultClusterAgentImageName defaultClusterAgentImageTag;
                    ov3 = defaultOnly (\<lambda>s. img \<noteq> zeroImageConfig)
                      (\<lambda>s. s\<lparr>ca_Image := Some img\<rparr>) ov1
                in case DefaultDatadogAgentSpecClusterAgentConfig a3 of
                     Inl e \<Rightarrow> Inl e
                   | Inr (a4, cfg) \<Rightarrow>
                  (let ov4 = defaultOnly (\<lambda>s. cfg \<noteq> zeroClusterAgentConfig)
                         (\<lambda>s. s\<lparr>ca_Config := Some cfg\<rparr>) ov3;
                       (a5, rbac) = DefaultDatadogClusterAgentSpecRbacConfig a4;
                       ov5 = defaultOnly (\<lambda>s. rbac \<noteq> zeroRbacConfig)
                         (\<lambda>s. s\<lparr>ca_Rbac := Some rbac\<rparr>) ov4;
                       (a6, net) = DefaultClusterAgentNetworkPolicy a5;
                       ov6 = defaultOnly (\<lambda>s. net \<noteq> zeroNetworkPolicySpec)
                         (\<lambda>s. s\<lparr>ca_NetworkPolicy := Some net\<rparr>) ov5
                   in Inr (a6, ov6)))))"
  by (simp only: DefaultDatadogAgentSpecClusterAgent_def defaultAndRecord_def defaultOnly_def fst_conv snd_conv)

lemma DefaultDatadogAgentSpecClusterChecksRunnerImage_steps:
  "DefaultDatadogAgentSpecClusterChecksRunnerImage clc name tag =
     (let img0 = (case clc_Image clc of None \<Rightarrow> zeroImageConfig | Some i \<Rightarrow> i);
          ov0 = zeroImageConfig;
          (img1, ov1) = defaultAndRecord (\<lambda>s. img_Name s = [])
            (\<lambda>s. s\<lparr>img_Name := name\<rparr>) (img0, ov0);
          (img2, ov2) = defaultAndRecord (\<lambda>s. img_Tag s = [])
            (\<lambda>s. s\<lparr>img_Tag := tag\<rparr>) (img1, ov1);
          (img3, ov3) = defaultAndRecord (\<lambda>s. img_PullPolicy s = None)
            (\<lambda>s. s\<lparr>img_PullPolicy := Some defaultImagePullPolicy\<rparr>)
            (img2, ov2);
          img4 = defaultOnly (\<lambda>s. img_PullSecrets s = None)
            (\<lambda>s. s\<lparr>img_PullSecrets := Some []\<rparr>) img3
      in (clc\<lparr>clc_Image := Some img4\<rparr>, ov3))"
  by (simp only: DefaultDatadogAgentSpecClusterChecksRunnerImage_def defaultAndRecord_def defaultOnly_def fst_conv snd_conv)

lemma DefaultDatadogAgentSpecClusterChecksRunnerConfig_steps:
  "DefaultDatadogAgentSpecClusterChecksRunnerConfig clc =
     (let ov0 = zeroDatadogAgentGenericContainerConfig;
          c0 = (case clc_ContainerConfig clc of
                  None \<Rightarrow> zeroDatadogAgentGenericContainerConfig | Some c \<Rightarrow> c);
          (c1, ov1) = defaultAndRecord (\<lambda>s. cc_LogLevel s = None)
            (\<lambda>s. s\<lparr>cc_LogLevel := Some defaultLogLevel\<rparr>) (c0, ov0);
          (c2, ov2) = defaultAndRecord (\<lambda>s. cc_LivenessProbe s = None)
            (\<lambda>s. s\<lparr>cc_LivenessProbe := Some GetDefaultLivenessProbe\<rparr>)
            (c1, ov1);
          (c3, ov3) = defaultAndRecord (\<lambda>s. cc_ReadinessProbe s = None)
            (\<lambda>s. s\<lparr>cc_ReadinessProbe := Some GetDefaultReadinessProbe\<rparr>)
            (c2, ov2);
          (c4, ov4) = defaultAndRecord (\<lambda>s. cc_HealthPort s = None)
            (\<lambda>s. s\<lparr>cc_HealthPort := Some defaultAgentHealthPort\<rparr>)
            (c3, ov3);
          c5 = defaultOnly (\<lambda>s. cc_Resources s = None)
            (\<lambda>s. s\<lparr>cc_Resources := Some zeroResourceRequirements\<rparr>) c4
      in (clc\<lparr>clc_ContainerConfig := Some c5\<rparr>, ov4))"
  by (simp only: DefaultDatadogAgentSpecClusterChecksRunnerConfig_def defaultAndRecord_def defaultOnly_def fst_conv snd_conv)

lemma DefaultDatadogAgentSpecClusterChecksRunner_steps:
  "DefaultDatadogAgentSpecClusterChecksRunner clusterChecksRunner =
     (let c0 = defaultOnly (\<lambda>s. s = zeroDatadogAgentSpecClusterChecksRunnerSpec)
            (\<lambda>s. s\<lparr>clc_Enabled := Some defaultClusterChecksRunnerEnabled\<rparr>)
            clusterChecksRunner
      in if clusterChecksRunner = zeroDatadogAgentSpecClusterChecksRunnerSpec
            \<and> \<not> BoolValue (clc_Enabled c0)
         then (c0, c0)
         else
          (let ov0 = zeroDatadogAgentSpecClusterChecksRunnerSpec;
               (c1, ov1) = defaultAndRecord (\<lambda>s. clc_Enabled s = None)
                 (\<lambda>s. s\<lparr>clc_Enabled := Some True\<rparr>) (c0, ov0);
               (c2, img) = DefaultDatadogAgentSpecClusterChecksRunnerImage c1
                             defaultAgentImageName defaultAgentImageTag;
               ov2 = defaultOnly (\<lambda>s. img \<noteq> zeroImageConfig)
                 (\<lambda>s. s\<lparr>clc_Image := Some img\<rparr>) ov1;
               (c3, cfg) = DefaultDatadogAgentSpecClusterChecksRunnerConfig c2;
               ov3 = defaultOnly (\<lambda>s. cfg \<noteq> zeroDatadogAgentGenericContainerConfig)
                 (\<lambda>s. s\<lparr>clc_ContainerConfig := Some cfg\<rparr>) ov2;
               (c4, rbac) = DefaultDatadogClusterCheckRunnerSpecRbacConfig c3;
               ov4 = defaultOnly (\<lambda>s. rbac \<noteq> zeroRbacConfig)
                 (\<lambda>s. s\<lparr>clc_Rbac := Some rbac\<rparr>) ov3;
               (c5, net) = DefaultClusterCheckRunnerNetworkPolicy c4;
               ov5 = defaultOnly (\<lambda>s. net \<noteq> zeroNetworkPolicySpec)
                 (\<lambda>s. s\<lparr>clc_NetworkPolicy := Some net\<rparr>) ov4
           in (c5, ov5)))"
  by (simp only: DefaultDatadogAgentSpecClusterChecksRunner_def defaultAndRecord_def defaultOnly_def fst_conv snd_conv)

subsection \<open>What a block leaves alone\<close>

lemma defaultAndRecord_frame_fst:
  "(\<And>s. g (assign s) = g s) \<Longrightarrow> g (fst (defaultAndRecord unset assign p)) = g (fst p)"
  by (simp add: defaultAndRecord_def)

lemma defaultAndRecord_frame_snd:
  "(\<And>s. g (assign s) = g s) \<Longrightarrow> g (snd (defaultAndRecord unset assign p)) = g (snd p)"
  by (simp add: defaultAndRecord_def)

lemma defaultOnly_frame:
  "(\<And>s. g (assign s) = g s) \<Longrightarrow> g (defaultOnly unset assign s) = g s"
  by (simp add: defaultOnly_def)

lemma defaultAndRecord_hit_fst:
  "g (fst (defaultAndRecord unset assign p))
     = (if unset (fst p) then g (assign (fst p)) else g (fst p))"
  by (simp add: defaultAndRecord_def)

lemma defaultAndRecord_hit_snd:
  "g (snd (defaultAndRecord unset assign p))
     = (if unset (fst p) then g (assign (snd p)) else g (snd p))"
  by (simp add: defaultAndRecord_def)

lemma defaultOnly_hit:
  "g (defaultOnly unset assign s) = (if unset s then g (assign s) else g s)"
  by (simp add: defaultOnly_def)

subsection \<open>The version gate of the CRI socket default\<close>

lemma DefaultConfigDogstatsd_CriSocket:
  "na_CriSocket (fst (DefaultConfigDogstatsd config)) = na_CriSocket config"
  by (simp add: DefaultConfigDogstatsd_steps Let_def split_def)

lemma DefaultDatadogAgentSpecAgentConfig_CriSocket:
  assumes "ag_Image agents = Some img"
  shows "\<exists>a' ov na'. DefaultDatadogAgentSpecAgentConfig ext agents = Inr (a', ov)
     \<and> ag_NodeAgent a' = Some na'
     \<and> (if socketDefaultSkipped ext (agentTag ext img)
         then na_CriSocket na' = criSocketOf agents \<and> na_CriSocket ov = None
         else na_CriSocket na' = Some \<lparr>cri_DockerSocketPath =
                  Some (case dockerSocketPathOf agents of
                          None \<Rightarrow> defaultDockerSocketPath | Some p \<Rightarrow> p)\<rparr>
              \<and> na_CriSocket ov = (case dockerSocketPathOf agents of
                          None \<Rightarrow> Some \<lparr>cri_DockerSocketPath = Some defaultDockerSocketPath\<rparr>
                        | Some p \<Rightarrow> None))"
  using assms
  apply (simp add: DefaultDatadogAgentSpecAgentConfig_steps Let_def split_def
      socketDefaultSkipped_def agentTag_def DefaultConfigDogstatsd_CriSocket
      defaultAndRecord_frame_fst [of na_CriSocket] defaultAndRecord_frame_snd [of na_CriSocket]
      defaultOnly_frame [of na_CriSocket])
  apply (auto simp: criSocketOf_def dockerSocketPathOf_def DefaultContainerSocket_def
      zeroCRISocketConfig_def zeroNodeAgentSpec_def Let_def
      defaultAndRecord_frame_fst [of na_CriSocket] defaultAndRecord_frame_snd [of na_CriSocket]
      defaultOnly_frame [of na_CriSocket]
      split: option.splits)
  done

text \<open>
  C8. \<open>DefaultDatadogAgentSpecAgentConfig\<close> takes the tag from the image name with the
  tag-extraction utility, without a "-jmx" suffix. It returns on every node agent spec
  that has an image. The CRI socket is left as it was, and nothing is recorded for it,
  exactly when the tag is "latest" or the version comparison puts it at or above
  7.27.0-0 or 6.27.0-0; otherwise the Docker socket path is defaulted (and recorded when
  it was unset). With the version comparison of the specification, a tag that does not
  parse is below the minimum, so the default is applied and no error is raised; a tag at
  or above the threshold, and the tag "latest", skip it.
\<close>

theorem CriSocket_default_version_gated:
  assumes "ag_Image agents = Some img"
  shows "(\<exists>a' ov na'. DefaultDatadogAgentSpecAgentConfig ext agents = Inr (a', ov)
     \<and> ag_NodeAgent a' = Some na'
     \<and> (if socketDefaultSkipped ext (agentTag ext img)
         then na_CriSocket na' = criSocketOf agents \<and> na_CriSocket ov = None
         else na_CriSocket na' = Some \<lparr>cri_DockerSocketPath =
                  Some (case dockerSocketPathOf agents of
                          None \<Rightarrow> defaultDockerSocketPath | Some p \<Rightarrow> p)\<rparr>
              \<and> na_CriSocket ov = (case dockerSocketPathOf agents of
                          None \<Rightarrow> Some \<lparr>cri_DockerSocketPath = Some defaultDockerSocketPath\<rparr>
                        | Some p \<Rightarrow> None)))
   \<and> (agentTag ext img = ''latest'' \<longrightarrow> socketDefaultSkipped ext (agentTag ext img))
   \<and> (IsAboveMinVersion ext = IsAboveMinVersionSpec parse
        \<and> agentTag ext img \<noteq> ''latest'' \<and> parse (agentTag ext img) = None
      \<longrightarrow> \<not> socketDefaultSkipped ext (agentTag ext img))
   \<and> (IsAboveMinVersion ext = IsAboveMinVersionSpec parse
        \<and> parse (agentTag ext img) = Some v \<and> parse ''7.27.0-0'' = Some m \<and> m \<le> v
      \<longrightarrow> socketDefaultSkipped ext (agentTag ext img))
   \<and> (IsAboveMinVersion ext = IsAboveMinVersionSpec parse
        \<and> agentTag ext img \<noteq> ''latest''
        \<and> parse (agentTag ext img) = Some v \<and> parse ''7.27.0-0'' = Some m
        \<and> parse ''6.27.0-0'' = Some m' \<and> v < m \<and> v < m'
      \<longrightarrow> \<not> socketDefaultSkipped ext (agentTag ext img))"
proof -
  have gate: "\<exists>a' ov na'. DefaultDatadogAgentSpecAgentConfig ext agents = Inr (a', ov)
     \<and> ag_NodeAgent a' = Some na'
     \<and> (if socketDefaultSkipped ext (agentTag ext img)
         then na_CriSocket na' = criSocketOf agents \<and> na_CriSocket ov = None
         else na_CriSocket na' = Some \<lparr>cri_DockerSocketPath =
                  Some (case dockerSocketPathOf agents of
                          None \<Rightarrow> defaultDockerSocketPath | Some p \<Rightarrow> p)\<rparr>
              \<and> na_CriSocket ov = (case dockerSocketPathOf agents of
                          None \<Rightarrow> Some \<lparr>cri_DockerSocketPath = Some defaultDockerSocketPath\<rparr>
                        | Some p \<Rightarrow> None))"
    using assms by (rule DefaultDatadogAgentSpecAgentConfig_CriSocket)
  have latest: "agentTag ext img = ''latest'' \<longrightarrow> socketDefaultSkipped ext (agentTag ext img)"
    by (simp add: socketDefaultSkipped_def)
  have unparsed: "IsAboveMinVersion ext = IsAboveMinVersionSpec parse
        \<and> agentTag ext img \<noteq> ''latest'' \<and> parse (agentTag ext img) = None
      \<longrightarrow> \<not> socketDefaultSkipped ext (agentTag ext img)"
    by (simp add: socketDefaultSkipped_def IsAboveMinVersionSpec_def)
  have above: "IsAboveMinVersion ext = IsAboveMinVersionSpec parse
        \<and> parse (agentTag ext img) = Some v \<and> parse ''7.27.0-0'' = Some m \<and> m \<le> v
      \<longrightarrow> socketDefaultSkipped ext (agentTag ext img)"
    by (simp add: socketDefaultSkipped_def IsAboveMinVersionSpec_def)
  have below: "IsAboveMinVersion ext = IsAboveMinVersionSpec parse
        \<and> agentTag ext img \<noteq> ''latest''
        \<and> parse (agentTag ext img) = Some v \<and> parse ''7.27.0-0'' = Some m
        \<and> parse ''6.27.0-0'' = Some m' \<and> v < m \<and> v < m'
      \<longrightarrow> \<not> socketDefaultSkipped ext (agentTag ext img)"
    by (auto simp: socketDefaultSkipped_def IsAboveMinVersionSpec_def)
  show ?thesis
    using gate latest unparsed above below by blast
qed

lemma exampleTag_nightly:
  "agentTag exampleCollaborators (zeroImageConfig\<lparr>img_Name := ''datadog/agent:nightly-jmx''\<rparr>)
     = ''nightly''"
  by (simp add: agentTag_def exampleCollaborators_def exampleGetTag_def TrimSuffix_def
      zeroImageConfig_def)

theorem CriSocket_default_version_gated_witness:
  "ag_Image (agentWithImage ''datadog/agent:nightly-jmx'')
     = Some (zeroImageConfig\<lparr>img_Name := ''datadog/agent:nightly-jmx''\<rparr>)
   \<and> IsAboveMinVersion exampleCollaborators = IsAboveMinVersionSpec exampleParse
   \<and> exampleParse ''nightly'' = None
   \<and> \<not> socketDefaultSkipped exampleCollaborators ''nightly''
   \<and> (\<exists>a' ov na'.
        DefaultDatadogAgentSpecAgentConfig exampleCollaborators
          (agentWithImage ''datadog/agent:nightly-jmx'') = Inr (a', ov)
        \<and> ag_NodeAgent a' = Some na'
        \<and> na_CriSocket na' = Some \<lparr>cri_DockerSocketPath = Some ''/var/run/docker.sock''\<rparr>
        \<and> na_CriSocket ov = Some \<lparr>cri_DockerSocketPath = Some ''/var/run/docker.sock''\<rparr>)"
proof -
  let ?img = "zeroImageConfig\<lparr>img_Name := ''datadog/agent:nightly-jmx''\<rparr>"
  let ?agents = "agentWithImage ''datadog/agent:nightly-jmx''"
  have img: "ag_Image ?agents = Some ?img"
    by (simp add: agentWithImage_def zeroDatadogAgentSpecAgentSpec_def)
  have ext: "IsAboveMinVersion exampleCollaborators = IsAboveMinVersionSpec exampleParse"
    by (simp add: exampleCollaborators_def)
  have parse: "exampleParse ''nightly'' = None"
    by (simp add: exampleParse_def)
  have path: "dockerSocketPathOf ?agents = None"
    by (simp add: dockerSocketPathOf_def criSocketOf_def agentWithImage_def
        zeroDatadogAgentSpecAgentSpec_def)
  note th = CriSocket_default_version_gated
    [OF img, of exampleCollaborators exampleParse "[]" "[]" "[]"]
  from th ext parse have skip: "\<not> socketDefaultSkipped exampleCollaborators ''nightly''"
    by (simp add: exampleTag_nightly)
  from th skip path
  have "\<exists>a' ov na'.
        DefaultDatadogAgentSpecAgentConfig exampleCollaborators ?agents = Inr (a', ov)
        \<and> ag_NodeAgent a' = Some na'
        \<and> na_CriSocket na' = Some \<lparr>cri_DockerSocketPath = Some ''/var/run/docker.sock''\<rparr>
        \<and> na_CriSocket ov = Some \<lparr>cri_DockerSocketPath = Some ''/var/run/docker.sock''\<rparr>"
    by (simp add: exampleTag_nightly defaultDockerSocketPath_def)
  with img ext parse skip show ?thesis by blast
qed

subsection \<open>A second run of the feature defaulting\<close>

lemma defaultAndRecord_noop: "\<not> unset (fst p) \<Longrightarrow> defaultAndRecord unset assign p = p"
  by (simp add: defaultAndRecord_def)

lemma defaultOnly_noop: "\<not> unset s \<Longrightarrow> defaultOnly unset assign s = s"
  by (simp add: defaultOnly_def)

lemma defaultAndRecord_set:
  "(\<And>s. g (assign s) \<noteq> None) \<Longrightarrow> (g (fst (defaultAndRecord (\<lambda>s. g s = None) assign p)) = None) = False"
  by (simp add: defaultAndRecord_def)

lemma defaultOnly_set:
  "(\<And>s. g (assign s) \<noteq> None) \<Longrightarrow> (g (defaultOnly (\<lambda>s. g s = None) assign s) = None) = False"
  by (simp add: defaultOnly_def)

lemmas log_step_rules =
  defaultAndRecord_frame_fst [of log_Enabled]
  defaultAndRecord_frame_fst [of log_LogsConfigContainerCollectAll]
  defaultAndRecord_frame_fst [of log_ContainerCollectUsingFiles]
  defaultAndRecord_frame_fst [of log_ContainerLogsPath]
  defaultAndRecord_frame_fst [of log_PodLogsPath]
  defaultAndRecord_frame_fst [of log_ContainerSymlinksPath]
  defaultAndRecord_frame_fst [of log_TempStoragePath]
  defaultAndRecord_frame_fst [of log_OpenFilesLimit]
  defaultAndRecord_set [of log_Enabled]
  defaultAndRecord_set [of log_LogsConfigContainerCollectAll]
  defaultAndRecord_set [of log_ContainerCollectUsingFiles]
  defaultAndRecord_set [of log_ContainerLogsPath]
  defaultAndRecord_set [of log_PodLogsPath]
  defaultAndRecord_set [of log_ContainerSymlinksPath]
  defaultAndRecord_set [of log_TempStoragePath]
  defaultAndRecord_set [of log_OpenFilesLimit]
  defaultOnly_set [of log_Enabled]

lemma ft_LogCollection_same: "ft_LogCollection r = v \<Longrightarrow> r\<lparr>ft_LogCollection := v\<rparr> = r"
  by (cases r) auto

lemma DefaultDatadogFeatureLogCollection_again_aux:
  assumes "ft_LogCollection ft2 = ft_LogCollection (fst (DefaultDatadogFeatureLogCollection ft))"
  shows "DefaultDatadogFeatureLogCollection ft2
       = (ft2, zeroLogCollectionConfig\<lparr>log_Enabled :=
                  log_Enabled (the (ft_LogCollection ft2))\<rparr>)"
proof (cases "ft_LogCollection ft")
  case None
  then show ?thesis using assms
    by (simp add: DefaultDatadogFeatureLogCollection_def Let_def BoolValue_def
        defaultLogEnabled_def zeroLogCollectionConfig_def ft_LogCollection_same)
next
  case (Some lc0)
  let ?lc1 = "defaultOnly (\<lambda>s. log_Enabled s = None) (\<lambda>s. s\<lparr>log_Enabled := Some defaultLogEnabled\<rparr>) lc0"
  have en: "log_Enabled ?lc1 \<noteq> None" by (simp add: defaultOnly_def)
  show ?thesis
  proof (cases "BoolValue (log_Enabled ?lc1)")
    case False
    then show ?thesis using assms Some en
      by (simp add: DefaultDatadogFeatureLogCollection_steps Let_def split_def
          defaultOnly_noop ft_LogCollection_same)
  next
    case True
    then show ?thesis using assms Some en
      by (simp add: DefaultDatadogFeatureLogCollection_steps Let_def split_def
          defaultOnly_noop defaultAndRecord_noop log_step_rules ft_LogCollection_same)
  qed
qed

lemma ft_KubeStateMetricsCore_same:
  "ft_KubeStateMetricsCore r = v \<Longrightarrow> r\<lparr>ft_KubeStateMetricsCore := v\<rparr> = r"
  by (cases r) auto

lemma ft_PrometheusScrape_same:
  "ft_PrometheusScrape r = v \<Longrightarrow> r\<lparr>ft_PrometheusScrape := v\<rparr> = r"
  by (cases r) auto

lemma ft_NetworkMonitoring_same:
  "ft_NetworkMonitoring r = v \<Longrightarrow> r\<lparr>ft_NetworkMonitoring := v\<rparr> = r"
  by (cases r) auto

lemma ft_OrchestratorExplorer_same:
  "ft_OrchestratorExplorer r = v \<Longrightarrow> r\<lparr>ft_OrchestratorExplorer := v\<rparr> = r"
  by (cases r) auto

lemma DefaultDatadogFeatureKubeStateMetricsCore_again:
  assumes "ft_KubeStateMetricsCore ft2
             = ft_KubeStateMetricsCore (fst (DefaultDatadogFeatureKubeStateMetricsCore ft w))"
  shows "\<exists>k. ft_KubeStateMetricsCore ft2 = Some k \<and> ksm_Enabled k \<noteq> None
     \<and> DefaultDatadogFeatureKubeStateMetricsCore ft2 w
       = (ft2, \<lparr>ksm_Enabled = ksm_Enabled k, ksm_ClusterCheck = ksm_ClusterCheck k\<rparr>)"
  using assms
  by (auto simp: DefaultDatadogFeatureKubeStateMetricsCore_def Let_def
      ft_KubeStateMetricsCore_same split: option.splits if_splits)

lemma DefaultDatadogFeaturePrometheusScrape_again:
  assumes "ft_PrometheusScrape ft2
             = ft_PrometheusScrape (fst (DefaultDatadogFeaturePrometheusScrape ft))"
  shows "\<exists>p. ft_PrometheusScrape ft2 = Some p \<and> prom_Enabled p \<noteq> None
     \<and> DefaultDatadogFeaturePrometheusScrape ft2
       = (ft2, zeroPrometheusScrapeConfig\<lparr>prom_Enabled := prom_Enabled p\<rparr>)"
  using assms
  by (auto simp: DefaultDatadogFeaturePrometheusScrape_def Let_def zeroPrometheusScrapeConfig_def
      BoolValue_def defaultPrometheusScrapeEnabled_def ft_PrometheusScrape_same
      split: option.splits if_splits)

lemma DefaultDatadogFeatureNetworkMonitoring_again:
  assumes "ft_NetworkMonitoring ft2
             = ft_NetworkMonitoring (fst (DefaultDatadogFeatureNetworkMonitoring ft))"
  shows "\<exists>n. ft_NetworkMonitoring ft2 = Some n \<and> nm_Enabled n \<noteq> None
     \<and> DefaultDatadogFeatureNetworkMonitoring ft2 = (ft2, \<lparr>nm_Enabled = nm_Enabled n\<rparr>)"
  using assms
  by (auto simp: DefaultDatadogFeatureNetworkMonitoring_def Let_def BoolValue_def
      ft_NetworkMonitoring_same split: option.splits if_splits)

lemma DefaultDatadogFeatureOrchestratorExplorer_again:
  assumes "DefaultDatadogFeatureOrchestratorExplorer ft w = Inr (ft1, ov)"
    and "ft_OrchestratorExplorer ft2 = ft_OrchestratorExplorer ft1"
  shows "\<exists>oe. ft_OrchestratorExplorer ft2 = Some oe
     \<and> DefaultDatadogFeatureOrchestratorExplorer ft2 w
       = Inr (ft2, if BoolValue (oe_Enabled oe) then zeroOrchestratorExplorerConfig
                   else zeroOrchestratorExplorerConfig\<lparr>oe_Enabled := Some False\<rparr>)"
  using assms
  by (auto simp: DefaultDatadogFeatureOrchestratorExplorer_def
      defaultEnabledDatadogFeatureOrchestratorExplorer_def Let_def BoolValue_def
      zeroOrchestratorExplorerConfig_def zeroScrubbing_def
      defaultOrchestratorExplorerEnabled_def ft_OrchestratorExplorer_same
      split: option.splits if_splits sum.splits)

lemma DefaultDatadogFeatureLogCollection_again:
  assumes "ft_LogCollection ft2 = ft_LogCollection (fst (DefaultDatadogFeatureLogCollection ft))"
  shows "\<exists>l. ft_LogCollection ft2 = Some l \<and> log_Enabled l \<noteq> None
     \<and> DefaultDatadogFeatureLogCollection ft2
       = (ft2, zeroLogCollectionConfig\<lparr>log_Enabled := log_Enabled l\<rparr>)"
proof -
  have "\<exists>l. ft_LogCollection (fst (DefaultDatadogFeatureLogCollection ft)) = Some l
      \<and> log_Enabled l \<noteq> None"
    by (cases "ft_LogCollection ft")
      (auto simp: DefaultDatadogFeatureLogCollection_steps Let_def split_def defaultOnly_def
        zeroLogCollectionConfig_def log_step_rules)
  with assms DefaultDatadogFeatureLogCollection_again_aux [OF assms] show ?thesis by auto
qed

lemma DefaultDatadogFeatureOrchestratorExplorer_frame:
  assumes "DefaultDatadogFeatureOrchestratorExplorer ft w = Inr (ft1, ov)"
  shows "ft_KubeStateMetricsCore ft1 = ft_KubeStateMetricsCore ft
    \<and> ft_PrometheusScrape ft1 = ft_PrometheusScrape ft
    \<and> ft_LogCollection ft1 = ft_LogCollection ft
    \<and> ft_NetworkMonitoring ft1 = ft_NetworkMonitoring ft"
  using assms
  by (auto simp: DefaultDatadogFeatureOrchestratorExplorer_def Let_def split: sum.splits)

lemma DefaultDatadogFeatureKubeStateMetricsCore_frame:
  "ft_OrchestratorExplorer (fst (DefaultDatadogFeatureKubeStateMetricsCore ft w))
      = ft_OrchestratorExplorer ft
    \<and> ft_PrometheusScrape (fst (DefaultDatadogFeatureKubeStateMetricsCore ft w))
      = ft_PrometheusScrape ft
    \<and> ft_LogCollection (fst (DefaultDatadogFeatureKubeStateMetricsCore ft w))
      = ft_LogCollection ft
    \<and> ft_NetworkMonitoring (fst (DefaultDatadogFeatureKubeStateMetricsCore ft w))
      = ft_NetworkMonitoring ft"
  by (simp add: DefaultDatadogFeatureKubeStateMetricsCore_def Let_def split: option.splits)

lemma DefaultDatadogFeaturePrometheusScrape_frame:
  "ft_OrchestratorExplorer (fst (DefaultDatadogFeaturePrometheusScrape ft))
      = ft_OrchestratorExplorer ft
    \<and> ft_KubeStateMetricsCore (fst (DefaultDatadogFeaturePrometheusScrape ft))
      = ft_KubeStateMetricsCore ft
    \<and> ft_LogCollection (fst (DefaultDatadogFeaturePrometheusScrape ft))
      = ft_LogCollection ft
    \<and> ft_NetworkMonitoring (fst (DefaultDatadogFeaturePrometheusScrape ft))
      = ft_NetworkMonitoring ft"
  by (simp add: DefaultDatadogFeaturePrometheusScrape_steps Let_def split_def)

lemma DefaultDatadogFeatureLogCollection_frame:
  "ft_OrchestratorExplorer (fst (DefaultDatadogFeatureLogCollection ft))
      = ft_OrchestratorExplorer ft
    \<and> ft_KubeStateMetricsCore (fst (DefaultDatadogFeatureLogCollection ft))
      = ft_KubeStateMetricsCore ft
    \<and> ft_PrometheusScrape (fst (DefaultDatadogFeatureLogCollection ft))
      = ft_PrometheusScrape ft
    \<and> ft_NetworkMonitoring (fst (DefaultDatadogFeatureLogCollection ft))
      = ft_NetworkMonitoring ft"
  by (simp add: DefaultDatadogFeatureLogCollection_steps Let_def split_def split: option.splits)

lemma DefaultDatadogFeatureNetworkMonitoring_frame:
  "ft_OrchestratorExplorer (fst (DefaultDatadogFeatureNetworkMonitoring ft))
      = ft_OrchestratorExplorer ft
    \<and> ft_KubeStateMetricsCore (fst (DefaultDatadogFeatureNetworkMonitoring ft))
      = ft_KubeStateMetricsCore ft
    \<and> ft_PrometheusScrape (fst (DefaultDatadogFeatureNetworkMonitoring ft))
      = ft_PrometheusScrape ft
    \<and> ft_LogCollection (fst (DefaultDatadogFeatureNetworkMonitoring ft))
      = ft_LogCollection ft"
  by (simp add: DefaultDatadogFeatureNetworkMonitoring_def Let_def)

lemma DefaultFeatures_unfold:
  assumes "DefaultFeatures dda = Inr (dda1, sh1)"
  obtains ft1 orch where
    "DefaultDatadogFeatureOrchestratorExplorer (spec_Features dda)
        (clusterChecksRunnerEnabled dda) = Inr (ft1, orch)"
    "dda1 = dda\<lparr>spec_Features :=
        fst (DefaultDatadogFeatureNetworkMonitoring
          (fst (DefaultDatadogFeatureLogCollection
            (fst (DefaultDatadogFeaturePrometheusScrape
              (fst (DefaultDatadogFeatureKubeStateMetricsCore ft1
                 (clusterChecksRunnerEnabled dda))))))))\<rparr>"
  using assms
  by (auto simp: DefaultFeatures_def Let_def split_def split: sum.splits)

text \<open>
  C7, as the code has it by design. The defaulting of the features subtree is idempotent
  on the spec: when \<open>DefaultFeatures\<close> returns, a second run on the spec it leaves
  returns too and leaves that spec unchanged. The override of the second run is not
  empty: every feature function reports its \<open>Enabled\<close> flag again (the orchestrator
  explorer when it is disabled, the kube-state-metrics core with its \<open>ClusterCheck\<close>
  flag), and nothing else.
\<close>

theorem DefaultFeatures_second_pass:
  assumes "DefaultFeatures dda = Inr (dda1, sh1)"
  shows "DefaultFeatures dda1 = Inr (dda1, repeatedFlags (spec_Features dda1))
    \<and> repeatedFlags (spec_Features dda1) \<noteq> zeroDatadogFeatures"
proof -
  let ?w = "clusterChecksRunnerEnabled dda"
  from assms obtain ft1 orch where
    o: "DefaultDatadogFeatureOrchestratorExplorer (spec_Features dda) ?w = Inr (ft1, orch)"
    and d: "dda1 = dda\<lparr>spec_Features :=
        fst (DefaultDatadogFeatureNetworkMonitoring
          (fst (DefaultDatadogFeatureLogCollection
            (fst (DefaultDatadogFeaturePrometheusScrape
              (fst (DefaultDatadogFeatureKubeStateMetricsCore ft1 ?w)))))))\<rparr>"
    by (rule DefaultFeatures_unfold)
  let ?k = "fst (DefaultDatadogFeatureKubeStateMetricsCore ft1 ?w)"
  let ?p = "fst (DefaultDatadogFeaturePrometheusScrape ?k)"
  let ?l = "fst (DefaultDatadogFeatureLogCollection ?p)"
  let ?n = "fst (DefaultDatadogFeatureNetworkMonitoring ?l)"
  have ft: "spec_Features dda1 = ?n" and w: "clusterChecksRunnerEnabled dda1 = ?w"
    by (simp_all add: d clusterChecksRunnerEnabled_def)
  have fo: "ft_OrchestratorExplorer ?n = ft_OrchestratorExplorer ft1"
    by (simp add: DefaultDatadogFeatureNetworkMonitoring_frame DefaultDatadogFeatureLogCollection_frame DefaultDatadogFeaturePrometheusScrape_frame DefaultDatadogFeatureKubeStateMetricsCore_frame)
  have fk: "ft_KubeStateMetricsCore ?n = ft_KubeStateMetricsCore ?k"
    by (simp add: DefaultDatadogFeatureNetworkMonitoring_frame DefaultDatadogFeatureLogCollection_frame DefaultDatadogFeaturePrometheusScrape_frame)
  have fp: "ft_PrometheusScrape ?n = ft_PrometheusScrape ?p"
    by (simp add: DefaultDatadogFeatureNetworkMonitoring_frame DefaultDatadogFeatureLogCollection_frame)
  have fl: "ft_LogCollection ?n = ft_LogCollection ?l"
    by (simp add: DefaultDatadogFeatureNetworkMonitoring_frame)
  from DefaultDatadogFeatureOrchestratorExplorer_again [OF o fo] obtain oe where
    oe: "ft_OrchestratorExplorer ?n = Some oe"
    and o2: "DefaultDatadogFeatureOrchestratorExplorer ?n ?w
       = Inr (?n, if BoolValue (oe_Enabled oe) then zeroOrchestratorExplorerConfig
                   else zeroOrchestratorExplorerConfig\<lparr>oe_Enabled := Some False\<rparr>)"
    by blast
  from DefaultDatadogFeatureKubeStateMetricsCore_again [OF fk] obtain k where
    k: "ft_KubeStateMetricsCore ?n = Some k" "ksm_Enabled k \<noteq> None"
    and k2: "DefaultDatadogFeatureKubeStateMetricsCore ?n ?w
       = (?n, \<lparr>ksm_Enabled = ksm_Enabled k, ksm_ClusterCheck = ksm_ClusterCheck k\<rparr>)"
    by blast
  from DefaultDatadogFeaturePrometheusScrape_again [OF fp] obtain p where
    p: "ft_PrometheusScrape ?n = Some p" "prom_Enabled p \<noteq> None"
    and p2: "DefaultDatadogFeaturePrometheusScrape ?n
       = (?n, zeroPrometheusScrapeConfig\<lparr>prom_Enabled := prom_Enabled p\<rparr>)"
    by blast
  from DefaultDatadogFeatureLogCollection_again [OF fl] obtain l where
    l: "ft_LogCollection ?n = Some l" "log_Enabled l \<noteq> None"
    and l2: "DefaultDatadogFeatureLogCollection ?n
       = (?n, zeroLogCollectionConfig\<lparr>log_Enabled := log_Enabled l\<rparr>)"
    by blast
  from DefaultDatadogFeatureNetworkMonitoring_again [OF refl] obtain n where
    n: "ft_NetworkMonitoring ?n = Some n" "nm_Enabled n \<noteq> None"
    and n2: "DefaultDatadogFeatureNetworkMonitoring ?n = (?n, \<lparr>nm_Enabled = nm_Enabled n\<rparr>)"
    by blast
  have same: "dda1\<lparr>spec_Features := ?n\<rparr> = dda1"
    by (simp add: d)
  have run: "DefaultFeatures dda1 = Inr (dda1, repeatedFlags ?n)"
    using o2 k2 p2 l2 n2 oe k p l n same
    by (auto simp: DefaultFeatures_def ft w Let_def repeatedFlags_def zeroDatadogFeatures_def
        zeroOrchestratorExplorerConfig_def zeroKubeStateMetricsCore_def
        zeroPrometheusScrapeConfig_def zeroLogCollectionConfig_def
        zeroNetworkMonitoringConfig_def)
  have "ft_LogCollection (repeatedFlags ?n) \<noteq> None"
    using l by (simp add: repeatedFlags_def)
  then have "repeatedFlags ?n \<noteq> zeroDatadogFeatures"
    by (auto simp: zeroDatadogFeatures_def)
  with run show ?thesis by (simp add: ft)
qed

theorem DefaultFeatures_second_pass_witness:
  "DefaultFeatures zeroDatadogAgentSpec
     = Inr (zeroDatadogAgentSpec\<lparr>spec_Features := spec_Features defaultedEmptySpec\<rparr>,
            spec_Features defaultedEmptySpec)
   \<and> DefaultFeatures (zeroDatadogAgentSpec\<lparr>spec_Features := spec_Features defaultedEmptySpec\<rparr>)
     = Inr (zeroDatadogAgentSpec\<lparr>spec_Features := spec_Features defaultedEmptySpec\<rparr>,
            repeatedFlags (spec_Features defaultedEmptySpec))
   \<and> repeatedFlags (spec_Features defaultedEmptySpec) \<noteq> zeroDatadogFeatures"
proof -
  have run: "DefaultFeatures zeroDatadogAgentSpec
     = Inr (zeroDatadogAgentSpec\<lparr>spec_Features := spec_Features defaultedEmptySpec\<rparr>,
            spec_Features defaultedEmptySpec)"
    by (simp add: fun_defs zero_defs const_defs Let_def defaultedEmptySpec_def)
  from DefaultFeatures_second_pass [OF run] show ?thesis
    using run by simp
qed

text \<open>
  C7, as the claim states it, fails on the empty spec: the second run changes the spec
  that the first run leaves, and its override is not empty; its features subtree
  repeats the \<open>Enabled\<close> flags.
\<close>

theorem DefaultDatadogAgent_second_pass_changes:
  "specOf (DefaultDatadogAgent exampleCollaborators zeroDatadogAgentSpec)
     = Some defaultedEmptySpec
   \<and> specOf (DefaultDatadogAgent exampleCollaborators defaultedEmptySpec) \<noteq> None
   \<and> specOf (DefaultDatadogAgent exampleCollaborators defaultedEmptySpec)
       \<noteq> Some defaultedEmptySpec
   \<and> shadowOf (DefaultDatadogAgent exampleCollaborators defaultedEmptySpec)
       \<noteq> Some zeroDatadogAgentSpec
   \<and> map_option spec_Features
         (shadowOf (DefaultDatadogAgent exampleCollaborators defaultedEmptySpec))
       = Some (repeatedFlags (spec_Features defaultedEmptySpec))
   \<and> repeatedFlags (spec_Features defaultedEmptySpec) \<noteq> zeroDatadogFeatures"
  by (simp add: fun_defs zero_defs const_defs Let_def defaultedEmptySpec_def specOf_def
      shadowOf_def repeatedFlags_def exampleCollaborators_def exampleGetTag_def TrimSuffix_def)


end
